theory Spec2Isabelle
  imports Complex_Main "HOL-Library.AList"
begin

chapter \<open>FusionSDF: a shallow embedding of the transform algebra and the tree builder\<close>

text \<open>
  The development follows the Python sources \<^verbatim>\<open>fusionsdf/util.py\<close>,
  \<^verbatim>\<open>fusionsdf/transform.py\<close>, \<^verbatim>\<open>fusionsdf/pose.py\<close>,
  \<^verbatim>\<open>fusionsdf/joint.py\<close>, \<^verbatim>\<open>fusionsdf/link.py\<close> and
  \<^verbatim>\<open>fusionsdf/sdf.py\<close>.

  Conventions of the embedding.
  \<^item> Python \<^verbatim>\<open>float\<close> values are modelled by the type \<^typ>\<open>real\<close>: arithmetic is exact,
    there is no rounding, no overflow, no signed zero, no infinity and no NaN.
    \<^verbatim>\<open>math.sin\<close>, \<^verbatim>\<open>math.cos\<close>, \<^verbatim>\<open>math.sqrt\<close> are the real functions.
  \<^item> Python \<^verbatim>\<open>str\<close> values are modelled by \<^typ>\<open>string\<close>; a \<^typ>\<open>char\<close> stands for the
    code point of the same number (code points below 256).
  \<^item> A Python exception is a value \<open>Inl e\<close> of the result type \<open>py_error + 'a\<close>.
  \<^item> A Python \<^verbatim>\<open>dict\<close> is an association list in insertion order; an assignment
    \<^verbatim>\<open>d[k] = v\<close> is \<^const>\<open>AList.update\<close>.
  \<^item> Objects that are mutated in place are passed and returned explicitly.
\<close>

section \<open>Python runtime\<close>

datatype py_error = IndexError | ValueError | AttributeError | TypeError

text \<open>Indexing \<^verbatim>\<open>xs[i]\<close> with a non-negative index; out of range raises IndexError.\<close>

definition py_nth :: "'a list \<Rightarrow> nat \<Rightarrow> py_error + 'a" where
  "py_nth xs i = (if i < length xs then Inr (xs ! i) else Inl IndexError)"

text \<open>Sequencing of computations that may raise.\<close>

definition bind_err :: "py_error + 'a \<Rightarrow> ('a \<Rightarrow> py_error + 'b) \<Rightarrow> py_error + 'b" where
  "bind_err m f = (case m of Inl e \<Rightarrow> Inl e | Inr x \<Rightarrow> f x)"

text \<open>A list comprehension whose element expression may raise: the first error ends it.\<close>

fun map_err :: "('a \<Rightarrow> py_error + 'b) \<Rightarrow> 'a list \<Rightarrow> py_error + 'b list" where
  "map_err f [] = Inr []"
| "map_err f (x # xs) =
     (case f x of
        Inl e \<Rightarrow> Inl e
      | Inr y \<Rightarrow> (case map_err f xs of Inl e \<Rightarrow> Inl e | Inr ys \<Rightarrow> Inr (y # ys)))"

text \<open>A \<^verbatim>\<open>for\<close> loop that updates a state and may raise.\<close>

fun fold_err :: "('a \<Rightarrow> 's \<Rightarrow> py_error + 's) \<Rightarrow> 'a list \<Rightarrow> 's \<Rightarrow> py_error + 's" where
  "fold_err f [] s = Inr s"
| "fold_err f (x # xs) s = (case f x s of Inl e \<Rightarrow> Inl e | Inr s' \<Rightarrow> fold_err f xs s')"

text \<open>The assignment \<^verbatim>\<open>m[i][j] = v\<close> on a list of lists.\<close>

definition py_set2 :: "'a list list \<Rightarrow> nat \<Rightarrow> nat \<Rightarrow> 'a \<Rightarrow> py_error + 'a list list" where
  "py_set2 m i j v =
     (if i < length m \<and> j < length (m ! i) then Inr (m[i := (m ! i)[j := v]])
      else Inl IndexError)"

text \<open>
  \<^verbatim>\<open>math.atan2(y, x)\<close> and \<^verbatim>\<open>math.asin(x)\<close> on reals. \<^verbatim>\<open>math.asin\<close> raises ValueError
  outside \<open>[-1, 1]\<close>. \<^verbatim>\<open>math.isclose(a, b, abs_tol=t)\<close> keeps its default relative
  tolerance \<open>1e-09\<close>.
\<close>

definition py_atan2 :: "real \<Rightarrow> real \<Rightarrow> real" where
  "py_atan2 y x =
     (if 0 < x then arctan (y / x)
      else if x < 0 then (if 0 \<le> y then arctan (y / x) + pi else arctan (y / x) - pi)
      else if 0 < y then pi / 2
      else if y < 0 then - (pi / 2)
      else 0)"

definition py_asin :: "real \<Rightarrow> py_error + real" where
  "py_asin x = (if - 1 \<le> x \<and> x \<le> 1 then Inr (arcsin x) else Inl ValueError)"

definition isclose :: "real \<Rightarrow> real \<Rightarrow> real \<Rightarrow> bool" where
  "isclose a b abs_tol \<longleftrightarrow>
     a = b \<or> \<bar>a - b\<bar> \<le> max (1 / 10 ^ 9 * max \<bar>a\<bar> \<bar>b\<bar>) abs_tol"

section \<open>util.py\<close>

subsection \<open>normalize\_name\<close>

text \<open>
  \<^verbatim>\<open>str.lower\<close> on one character: the ASCII capitals and the Latin-1 capitals
  (U+00C0 to U+00DE without the multiplication sign U+00D7) move up by 32; every other
  code point below 256 stays.
\<close>

definition lower_char :: "char \<Rightarrow> char" where
  "lower_char c = (let n = (of_char c :: nat) in
     if (65 \<le> n \<and> n \<le> 90) \<or> (192 \<le> n \<and> n \<le> 222 \<and> n \<noteq> 215)
     then char_of (n + 32) else c)"

text \<open>The character class \<^verbatim>\<open>[a-z0-9_]\<close> of the regular expression.\<close>

definition name_char :: "char \<Rightarrow> bool" where
  "name_char c = (let n = (of_char c :: nat) in
     (97 \<le> n \<and> n \<le> 122) \<or> (48 \<le> n \<and> n \<le> 57) \<or> n = 95)"

text \<open>
  \<^verbatim>\<open>re.sub(r'[^a-z0-9_]+', '_', name)\<close>: scanning from the left, every maximal run of
  characters outside the class is replaced by one underscore.
\<close>

function re_sub_runs :: "string \<Rightarrow> string" where
  "re_sub_runs [] = []"
| "re_sub_runs (c # cs) =
     (if name_char c then c # re_sub_runs cs
      else CHR ''_'' # re_sub_runs (dropWhile (\<lambda>d. \<not> name_char d) cs))"
  by pat_completeness auto
termination
  by (relation "measure length") (auto simp: length_dropWhile_le less_Suc_eq_le)

text \<open>\<^verbatim>\<open>name.strip('_')\<close>: underscores are removed from both ends.\<close>

definition strip_us :: "string \<Rightarrow> string" where
  "strip_us s =
     rev (dropWhile (\<lambda>c. c = CHR ''_'') (rev (dropWhile (\<lambda>c. c = CHR ''_'') s)))"

definition normalize_name :: "string \<Rightarrow> string" where
  "normalize_name name = strip_us (re_sub_runs (map lower_char name))"

text \<open>
  The property the specification asks of a name: lower case, a non-empty word over
  \<^verbatim>\<open>[a-z0-9_]\<close>, no underscore at either end.
\<close>

definition spec_valid_name :: "string \<Rightarrow> bool" where
  "spec_valid_name r \<longleftrightarrow>
     map lower_char r = r \<and> r \<noteq> [] \<and> list_all name_char r
     \<and> hd r \<noteq> CHR ''_'' \<and> last r \<noteq> CHR ''_''"

subsection \<open>Unit conversion and the parallel-axis shift\<close>

definition cm_to_m :: "real \<Rightarrow> real" where
  "cm_to_m cm = cm / 100"

definition cm_to_m_list :: "real list \<Rightarrow> real list" where
  "cm_to_m_list cm = map (\<lambda>v. v / 100) cm"

definition kg_cm2_to_kg_m2 :: "real \<Rightarrow> real" where
  "kg_cm2_to_kg_m2 kg_cm2 = kg_cm2 / 10000"

definition world_inertia_to_com_inertia ::
  "real list \<Rightarrow> real list \<Rightarrow> real \<Rightarrow> py_error + real list" where
  "world_inertia_to_com_inertia inertia center_of_mass mass =
     bind_err (py_nth center_of_mass 0) (\<lambda>x.
     bind_err (py_nth center_of_mass 1) (\<lambda>y.
     bind_err (py_nth center_of_mass 2) (\<lambda>z.
       let translation_matrix = [y\<^sup>2 + z\<^sup>2, x\<^sup>2 + z\<^sup>2, x\<^sup>2 + y\<^sup>2,
                                 - x * y, - y * z, - x * z]
       in Inr (map (\<lambda>(i, t). i - mass * t) (zip inertia translation_matrix)))))"

subsection \<open>matrix3d\_to\_rpy\<close>

text \<open>
  A \<^verbatim>\<open>Matrix3D\<close> of the CAD interface is read through \<^verbatim>\<open>getCell(row, col)\<close> and through
  \<^verbatim>\<open>translation.asArray()\<close>.
\<close>

record matrix3d =
  getCell :: "nat \<Rightarrow> nat \<Rightarrow> real"
  translation_asArray :: "real list"

text \<open>The two nested loops fill the local 3x3 list \<open>R\<close> with the cells of the matrix.\<close>

definition matrix3d_to_rpy :: "matrix3d \<Rightarrow> real list" where
  "matrix3d_to_rpy matrix3d =
     (let R = map (\<lambda>row. map (\<lambda>col. getCell matrix3d row col) [0..<3]) [0..<3];
          sy = sqrt ((R ! 0 ! 0)\<^sup>2 + (R ! 1 ! 0)\<^sup>2);
          singular = (sy < 1 / 10 ^ 6)
      in if \<not> singular then
           (let roll = py_atan2 (R ! 2 ! 1) (R ! 2 ! 2);
                pitch = py_atan2 (- (R ! 2 ! 0)) sy;
                yaw = py_atan2 (R ! 1 ! 0) (R ! 0 ! 0)
            in [roll, pitch, yaw])
         else
           (let roll = py_atan2 (- (R ! 1 ! 2)) (R ! 1 ! 1);
                pitch = py_atan2 (- (R ! 2 ! 0)) sy;
                yaw = 0
            in [roll, pitch, yaw]))"

section \<open>transform.py\<close>

text \<open>The class \<^verbatim>\<open>Transform\<close> has one attribute, the matrix as a list of rows.\<close>

record transform =
  matrix :: "real list list"

definition identity_matrix :: "real list list" where
  "identity_matrix = [ [1, 0, 0, 0], [0, 1, 0, 0], [0, 0, 1, 0], [0, 0, 0, 1] ]"

text \<open>
  \<^verbatim>\<open>matrix_multiply(A, B)\<close>: the rows are indexed by \<^verbatim>\<open>range(len(A))\<close>, the columns by
  \<^verbatim>\<open>range(len(B[0]))\<close>, the sum by \<^verbatim>\<open>range(len(B))\<close>.
\<close>

definition matrix_multiply :: "real list list \<Rightarrow> real list list \<Rightarrow> py_error + real list list" where
  "matrix_multiply A B =
     map_err (\<lambda>i.
       bind_err (py_nth B 0) (\<lambda>B0.
         map_err (\<lambda>j.
           bind_err
             (map_err (\<lambda>k.
                bind_err (py_nth A i) (\<lambda>Ai.
                bind_err (py_nth Ai k) (\<lambda>a.
                bind_err (py_nth B k) (\<lambda>Bk.
                bind_err (py_nth Bk j) (\<lambda>b. Inr (a * b))))))
              [0..<length B])
             (\<lambda>products. Inr (sum_list products)))
         [0..<length B0]))
     [0..<length A]"

definition set_translation :: "transform \<Rightarrow> real list \<Rightarrow> py_error + transform" where
  "set_translation T translation =
     bind_err
       (fold_err (\<lambda>i m. bind_err (py_nth translation i) (\<lambda>v. py_set2 m i 3 v))
          [0..<3] (matrix T))
       (\<lambda>m. Inr (T\<lparr>matrix := m\<rparr>))"

definition get_translation :: "transform \<Rightarrow> py_error + real list" where
  "get_translation T =
     map_err (\<lambda>i. bind_err (py_nth (matrix T) i) (\<lambda>row. py_nth row 3)) [0..<3]"

definition set_rotation_rpy :: "transform \<Rightarrow> real \<Rightarrow> real \<Rightarrow> real \<Rightarrow> py_error + transform" where
  "set_rotation_rpy T roll pitch yaw =
     (let Rx = [ [1, 0, 0],
                 [0, cos roll, - sin roll],
                 [0, sin roll, cos roll] ];
          Ry = [ [cos pitch, 0, sin pitch],
                 [0, 1, 0],
                 [- sin pitch, 0, cos pitch] ];
          Rz = [ [cos yaw, - sin yaw, 0],
                 [sin yaw, cos yaw, 0],
                 [0, 0, 1] ]
      in bind_err (matrix_multiply Rz Ry) (\<lambda>RzRy.
         bind_err (matrix_multiply RzRy Rx) (\<lambda>R.
         bind_err
           (fold_err (\<lambda>i m.
              fold_err (\<lambda>j m'.
                bind_err (py_nth R i) (\<lambda>Ri.
                bind_err (py_nth Ri j) (\<lambda>v. py_set2 m' i j v)))
              [0..<3] m)
            [0..<3] (matrix T))
           (\<lambda>m. Inr (T\<lparr>matrix := m\<rparr>)))))"

text \<open>
  The constructor \<^verbatim>\<open>Transform(translation, rotation, matrix)\<close>; \<^verbatim>\<open>None\<close> is the default of
  each argument. \<^verbatim>\<open>set_rotation_rpy(*rotation)\<close> needs exactly three values.
\<close>

definition Transform ::
  "real list option \<Rightarrow> real list option \<Rightarrow> real list list option \<Rightarrow> py_error + transform" where
  "Transform translation rotation mat =
     (case mat of
        Some m \<Rightarrow> Inr \<lparr>matrix = m\<rparr>
      | None \<Rightarrow>
          bind_err
            (case translation of
               None \<Rightarrow> Inr \<lparr>matrix = identity_matrix\<rparr>
             | Some t \<Rightarrow> set_translation \<lparr>matrix = identity_matrix\<rparr> t)
            (\<lambda>T. case rotation of
               None \<Rightarrow> Inr T
             | Some [roll, pitch, yaw] \<Rightarrow> set_rotation_rpy T roll pitch yaw
             | Some _ \<Rightarrow> Inl TypeError))"

text \<open>\<^verbatim>\<open>__eq__\<close>: the sixteen entries are compared in row order; the first pair that is not
  close answers \<^verbatim>\<open>False\<close>.\<close>

fun entries_close :: "real list list \<Rightarrow> real list list \<Rightarrow> (nat \<times> nat) list \<Rightarrow> py_error + bool" where
  "entries_close A B [] = Inr True"
| "entries_close A B ((i, j) # ijs) =
     bind_err (py_nth A i) (\<lambda>Ai.
     bind_err (py_nth Ai j) (\<lambda>a.
     bind_err (py_nth B i) (\<lambda>Bi.
     bind_err (py_nth Bi j) (\<lambda>b.
       if \<not> isclose a b (1 / 10 ^ 6) then Inr False else entries_close A B ijs))))"

definition transform_eq :: "transform \<Rightarrow> transform \<Rightarrow> py_error + bool" where
  "transform_eq self other =
     entries_close (matrix self) (matrix other)
       (concat (map (\<lambda>i. map (\<lambda>j. (i, j)) [0..<4]) [0..<4]))"

definition transform_mul :: "transform \<Rightarrow> transform \<Rightarrow> py_error + transform" where
  "transform_mul self other =
     bind_err (matrix_multiply (matrix self) (matrix other)) (\<lambda>m. Transform None None (Some m))"

definition transform_inverse :: "transform \<Rightarrow> py_error + transform" where
  "transform_inverse T =
     (let R = map (take 3) (take 3 (matrix T)) in
      bind_err (map_err (\<lambda>row. py_nth row 3) (take 3 (matrix T))) (\<lambda>t.
      bind_err (map_err (\<lambda>i. map_err (\<lambda>j. bind_err (py_nth R j) (\<lambda>Rj. py_nth Rj i)) [0..<3])
                  [0..<3]) (\<lambda>R_inv.
      bind_err (map_err (\<lambda>i. bind_err (py_nth t i) (\<lambda>ti. Inr [- ti])) [0..<3]) (\<lambda>neg_t.
      bind_err (matrix_multiply R_inv neg_t) (\<lambda>t_inv_mat.
      bind_err (map_err (\<lambda>i. bind_err (py_nth R_inv i) (\<lambda>Ri.
                               bind_err (py_nth t_inv_mat i) (\<lambda>ti. Inr (Ri @ ti)))) [0..<3])
        (\<lambda>inv_matrix. Transform None None (Some (inv_matrix @ [ [0, 0, 0, 1] ]))))))))"

definition get_rotation_rpy :: "transform \<Rightarrow> py_error + real list" where
  "get_rotation_rpy T =
     (let R = map (take 3) (take 3 (matrix T)) in
      bind_err (bind_err (py_nth R 0) (\<lambda>r. py_nth r 0)) (\<lambda>R00.
      bind_err (bind_err (py_nth R 1) (\<lambda>r. py_nth r 0)) (\<lambda>R10.
      let cos_pitch = sqrt (R00\<^sup>2 + R10\<^sup>2) in
      if cos_pitch < 1 / 10 ^ 6 then
        bind_err (bind_err (py_nth R 2) (\<lambda>r. py_nth r 0)) (\<lambda>R20.
        bind_err (py_asin (- R20)) (\<lambda>pitch.
        let yaw = 0 in
        bind_err (bind_err (py_nth R 0) (\<lambda>r. py_nth r 1)) (\<lambda>R01.
        bind_err (bind_err (py_nth R 1) (\<lambda>r. py_nth r 1)) (\<lambda>R11.
        let roll = (if 0 < pitch then py_atan2 R01 R11 else py_atan2 (- R01) R11)
        in Inr [roll, pitch, yaw]))))
      else
        bind_err (bind_err (py_nth R 2) (\<lambda>r. py_nth r 0)) (\<lambda>R20.
        let pitch = py_atan2 (- R20) cos_pitch in
        let yaw = py_atan2 R10 R00 in
        bind_err (bind_err (py_nth R 2) (\<lambda>r. py_nth r 1)) (\<lambda>R21.
        bind_err (bind_err (py_nth R 2) (\<lambda>r. py_nth r 2)) (\<lambda>R22.
        let roll = py_atan2 R21 R22
        in Inr [roll, pitch, yaw]))))))"

subsection \<open>Rigid transforms\<close>

text \<open>
  The data model's invariant of a Transform: a 4x4 homogeneous matrix (last row
  \<open>0 0 0 1\<close>) whose 3x3 rotation block \<open>R\<close> is orthonormal with determinant \<open>+1\<close>, to
  within a numerical tolerance: a rotation block that was computed from angles is
  orthonormal only up to rounding.
\<close>

definition homogeneous :: "transform \<Rightarrow> bool" where
  "homogeneous T \<longleftrightarrow>
     length (matrix T) = 4 \<and> list_all (\<lambda>row. length row = 4) (matrix T)
     \<and> matrix T ! 3 = [0, 0, 0, 1]"

definition rotation_block :: "transform \<Rightarrow> real list list" where
  "rotation_block T = map (take 3) (take 3 (matrix T))"

definition transpose3 :: "real list list \<Rightarrow> real list list" where
  "transpose3 R = map (\<lambda>i. map (\<lambda>j. R ! j ! i) [0..<3]) [0..<3]"

definition identity3 :: "real list list" where
  "identity3 = [ [1, 0, 0], [0, 1, 0], [0, 0, 1] ]"

text \<open>Exactly orthonormal: \<open>R\<^sup>T R = I\<close>.\<close>

definition orthonormal :: "real list list \<Rightarrow> bool" where
  "orthonormal R \<longleftrightarrow> matrix_multiply (transpose3 R) R = Inr identity3"

definition det3 :: "real list list \<Rightarrow> real" where
  "det3 R = R ! 0 ! 0 * (R ! 1 ! 1 * R ! 2 ! 2 - R ! 1 ! 2 * R ! 2 ! 1)
          - R ! 0 ! 1 * (R ! 1 ! 0 * R ! 2 ! 2 - R ! 1 ! 2 * R ! 2 ! 0)
          + R ! 0 ! 2 * (R ! 1 ! 0 * R ! 2 ! 1 - R ! 1 ! 1 * R ! 2 ! 0)"

text \<open>
  Orthonormal to within \<open>tol\<close>: every entry of \<open>R\<^sup>T R\<close> (the columns of \<open>R\<close>) and of
  \<open>R R\<^sup>T\<close> (the rows of \<open>R\<close>) is within \<open>tol\<close> of the entry of the identity. A Transform
  is rigid to within \<open>tol\<close> when it is homogeneous, its rotation block is orthonormal
  to within \<open>tol\<close>, and the determinant of the block is within \<open>tol\<close> of \<open>+1\<close>.
\<close>

definition entries_within :: "real \<Rightarrow> real list list \<Rightarrow> real list list \<Rightarrow> bool" where
  "entries_within tol A B \<longleftrightarrow> list_all2 (list_all2 (\<lambda>a b. \<bar>a - b\<bar> \<le> tol)) A B"

definition orthonormal_within :: "real \<Rightarrow> real list list \<Rightarrow> bool" where
  "orthonormal_within tol R \<longleftrightarrow>
     (case matrix_multiply (transpose3 R) R of
        Inr A \<Rightarrow> entries_within tol A identity3 | Inl e \<Rightarrow> False)
     \<and> (case matrix_multiply R (transpose3 R) of
          Inr B \<Rightarrow> entries_within tol B identity3 | Inl e \<Rightarrow> False)"

definition rigid_within :: "real \<Rightarrow> transform \<Rightarrow> bool" where
  "rigid_within tol T \<longleftrightarrow>
     homogeneous T \<and> orthonormal_within tol (rotation_block T)
     \<and> \<bar>det3 (rotation_block T) - 1\<bar> \<le> tol"

text \<open>Every component of the translation is at most \<open>bound\<close> in absolute value.\<close>

definition translation_within :: "real \<Rightarrow> transform \<Rightarrow> bool" where
  "translation_within bound T \<longleftrightarrow>
     (case get_translation T of
        Inr t \<Rightarrow> list_all (\<lambda>v. \<bar>v\<bar> \<le> bound) t | Inl e \<Rightarrow> False)"

text \<open>
  A Transform given by its matrix, whose entries are sums of at most two powers of two:
  the rotation block turns by about \<^verbatim>\<open>2**-20\<close> about the z axis and is orthonormal to
  within \<^verbatim>\<open>2**-40\<close>; the translation is \<^verbatim>\<open>2**21\<close> along x. Every product and sum that
  \<^verbatim>\<open>inverse\<close> and \<^verbatim>\<open>__mul__\<close> form on it fits into 41 binary digits, so that
  double-precision arithmetic computes them without rounding.
\<close>

definition far_transform :: transform where
  "far_transform =
     \<lparr>matrix = [ [1, 1 / 2 ^ 20, 0, 2 ^ 21],
                 [- (1 / 2 ^ 20), 1, 0, 0],
                 [0, 0, 1, 0],
                 [0, 0, 0, 1] ]\<rparr>"

text \<open>The same rotation block with the translation \<open>(1, 2, 3)\<close>.\<close>

definition near_transform :: transform where
  "near_transform =
     \<lparr>matrix = [ [1, 1 / 2 ^ 20, 0, 1],
                 [- (1 / 2 ^ 20), 1, 0, 2],
                 [0, 0, 1, 3],
                 [0, 0, 0, 1] ]\<rparr>"

subsection \<open>The roll-pitch-yaw convention of the specification\<close>

text \<open>
  The two-branch formula as the specification words it, on the entries \<open>R i j\<close> of a
  rotation matrix: with \<open>s = sqrt (R00\<^sup>2 + R10\<^sup>2)\<close>, if \<open>s \<ge> 1e-6\<close> then
  \<open>pitch = atan2(-R20, s)\<close>, \<open>yaw = atan2(R10, R00)\<close>, \<open>roll = atan2(R21, R22)\<close>; otherwise
  \<open>pitch = asin(-R20)\<close>, \<open>yaw = 0\<close>, and \<open>roll = atan2(R01, R11)\<close> if \<open>pitch > 0\<close>, else
  \<open>atan2(-R01, R11)\<close>. The result is the list \<open>[roll, pitch, yaw]\<close>.
\<close>

definition spec_rpy :: "(nat \<Rightarrow> nat \<Rightarrow> real) \<Rightarrow> real list" where
  "spec_rpy R =
     (let s = sqrt ((R 0 0)\<^sup>2 + (R 1 0)\<^sup>2) in
      if 1 / 10 ^ 6 \<le> s then
        [py_atan2 (R 2 1) (R 2 2), py_atan2 (- R 2 0) s, py_atan2 (R 1 0) (R 0 0)]
      else
        (let pitch = arcsin (- R 2 0) in
         [if 0 < pitch then py_atan2 (R 0 1) (R 1 1) else py_atan2 (- R 0 1) (R 1 1),
          pitch, 0]))"

text \<open>The entry in row \<open>i\<close> and column \<open>j\<close> of a Transform.\<close>

definition cell :: "transform \<Rightarrow> nat \<Rightarrow> nat \<Rightarrow> real" where
  "cell T i j = matrix T ! i ! j"

text \<open>The rotation block of a Transform can be read: three rows of at least three entries.\<close>

definition has_rotation_block :: "transform \<Rightarrow> bool" where
  "has_rotation_block T \<longleftrightarrow>
     3 \<le> length (matrix T) \<and> list_all (\<lambda>row. 3 \<le> length row) (take 3 (matrix T))"

text \<open>
  A rotation that the builder can meet: pitch a little below a right angle
  (\<open>cos pitch = 5e-7\<close>), roll with \<open>sin roll = 4/5\<close> and \<open>cos roll = 3/5\<close>, no yaw.
\<close>

definition near_singular_cells :: "nat \<Rightarrow> nat \<Rightarrow> real" where
  "near_singular_cells i j =
     (let cp = 1 / 2000000; sp = sqrt (1 - (1 / 2000000)\<^sup>2) in
      [ [cp, sp * (4 / 5), sp * (3 / 5)],
        [0, 3 / 5, - (4 / 5)],
        [- sp, cp * (4 / 5), cp * (3 / 5)] ] ! i ! j)"

text \<open>
  The elementary rotations \<open>Rx(roll)\<close>, \<open>Ry(pitch)\<close> and \<open>Rz(yaw)\<close> of the specification.
\<close>

definition spec_Rx :: "real \<Rightarrow> real list list" where
  "spec_Rx roll = [ [1, 0, 0], [0, cos roll, - sin roll], [0, sin roll, cos roll] ]"

definition spec_Ry :: "real \<Rightarrow> real list list" where
  "spec_Ry pitch = [ [cos pitch, 0, sin pitch], [0, 1, 0], [- sin pitch, 0, cos pitch] ]"

definition spec_Rz :: "real \<Rightarrow> real list list" where
  "spec_Rz yaw = [ [cos yaw, - sin yaw, 0], [sin yaw, cos yaw, 0], [0, 0, 1] ]"

text \<open>
  The product \<open>Rz(yaw) Ry(pitch) Rx(roll)\<close> of the specification, multiplied out.
\<close>

definition rpy_matrix :: "real \<Rightarrow> real \<Rightarrow> real \<Rightarrow> real list list" where
  "rpy_matrix roll pitch yaw =
     [ [cos yaw * cos pitch,
        cos yaw * sin pitch * sin roll - sin yaw * cos roll,
        cos yaw * sin pitch * cos roll + sin yaw * sin roll],
       [sin yaw * cos pitch,
        sin yaw * sin pitch * sin roll + cos yaw * cos roll,
        sin yaw * sin pitch * cos roll - cos yaw * sin roll],
       [- sin pitch, cos pitch * sin roll, cos pitch * cos roll] ]"

text \<open>
  The round trip through the angles, as the unit test does it on one object:
  \<^verbatim>\<open>T.set_rotation_rpy(r, p, y)\<close>, then \<^verbatim>\<open>T.set_rotation_rpy(*T.get_rotation_rpy())\<close>, and
  the comparison \<^verbatim>\<open>==\<close> of the second matrix with the first.
\<close>

definition rpy_reapply_equal :: "transform \<Rightarrow> real \<Rightarrow> real \<Rightarrow> real \<Rightarrow> py_error + bool" where
  "rpy_reapply_equal T roll pitch yaw =
     bind_err (set_rotation_rpy T roll pitch yaw) (\<lambda>T'.
     bind_err (get_rotation_rpy T') (\<lambda>rpy.
       case rpy of
         [roll', pitch', yaw'] \<Rightarrow>
           bind_err (set_rotation_rpy T' roll' pitch' yaw') (\<lambda>T''. transform_eq T'' T')
       | _ \<Rightarrow> Inl TypeError))"

section \<open>pose.py\<close>

text \<open>An element of \<^verbatim>\<open>xml.etree.ElementTree\<close>: tag, attributes, text and children.\<close>

datatype xml_element =
  Element (tag: string) (attrib: "(string \<times> string) list") (element_text: "string option")
    (children: "xml_element list")

text \<open>\<^verbatim>\<open>ET.SubElement(node, ...)\<close> appends the new element to the children of \<open>node\<close>.\<close>

definition append_child :: "xml_element \<Rightarrow> xml_element \<Rightarrow> xml_element" where
  "append_child node child = Element (tag node) (attrib node) (element_text node) (children node @ [child])"

text \<open>\<^verbatim>\<open>' '.join(strings)\<close>.\<close>

fun join_space :: "string list \<Rightarrow> string" where
  "join_space [] = []"
| "join_space [s] = s"
| "join_space (s # t # ss) = s @ '' '' @ join_space (t # ss)"

record pose =
  transform :: transform
  relative_to :: "string option"

text \<open>
  The constructor \<^verbatim>\<open>Pose(translation, rotation, relative_to)\<close>; the callers of this
  program always pass the translation and the rotation.
\<close>

definition Pose :: "real list \<Rightarrow> real list \<Rightarrow> string option \<Rightarrow> py_error + pose" where
  "Pose translation rotation rel =
     bind_err (Transform (Some translation) (Some rotation) None) (\<lambda>T.
       Inr \<lparr>transform = T, relative_to = rel\<rparr>)"

text \<open>
  \<^verbatim>\<open>to_sdf_element(node)\<close>. The text of the pose element is made with \<^verbatim>\<open>str\<close> on each of
  the six values; the rendering of a float as text is a parameter \<open>str_of\<close>. The condition
  \<^verbatim>\<open>if self.relative_to:\<close> holds for a string that is neither \<^verbatim>\<open>None\<close> nor empty.
\<close>

definition pose_to_sdf_element ::
  "(real \<Rightarrow> string) \<Rightarrow> pose \<Rightarrow> xml_element \<Rightarrow> py_error + xml_element" where
  "pose_to_sdf_element str_of self node =
     bind_err (get_translation (transform self)) (\<lambda>translation.
     bind_err (get_rotation_rpy (transform self)) (\<lambda>rotation.
       if list_all (\<lambda>v. \<bar>v\<bar> < 1 / 10 ^ 6) (translation @ rotation) then Inr node
       else
         (let pose_attrib =
                (case relative_to self of
                   None \<Rightarrow> []
                 | Some r \<Rightarrow> if r \<noteq> [] then [(''relative_to'', r)] else []);
              pose_text = join_space (map str_of (translation @ rotation))
          in Inr (append_child node (Element ''pose'' pose_attrib (Some pose_text) [])))))"

definition pose_inverse :: "pose \<Rightarrow> py_error + pose" where
  "pose_inverse self =
     bind_err (transform_inverse (transform self)) (\<lambda>Ti.
     bind_err (get_translation Ti) (\<lambda>translation.
     bind_err (transform_inverse (transform self)) (\<lambda>Ti'.
     bind_err (get_rotation_rpy Ti') (\<lambda>rotation.
       Pose translation rotation (relative_to self)))))"

definition pose_mul :: "pose \<Rightarrow> pose \<Rightarrow> py_error + pose" where
  "pose_mul self other =
     bind_err (transform_mul (transform self) (transform other)) (\<lambda>combined.
     bind_err (get_translation combined) (\<lambda>translation.
     bind_err (get_rotation_rpy combined) (\<lambda>rotation.
       Pose translation rotation (relative_to self))))"

section \<open>link.py and joint.py\<close>

text \<open>
  The entity classes are records. Attributes called \<^verbatim>\<open>name\<close>, \<^verbatim>\<open>pose\<close> or \<^verbatim>\<open>geometry\<close> in
  several classes carry the class as a prefix here; \<^verbatim>\<open>None\<close> is the value \<open>None\<close> of an
  option type.
\<close>

datatype link_geometry_type = BOX | CYLINDER | MESH

record link_geometry =
  geometry_type :: link_geometry_type
  mesh_uri :: "string option"
  geometry_size :: "real list option"
  geometry_scale :: real

text \<open>\<^verbatim>\<open>LinkGeometry(geometry_type)\<close>: no uri, no size, scale 0.01 (cm to m).\<close>

definition LinkGeometry :: "link_geometry_type \<Rightarrow> link_geometry" where
  "LinkGeometry t =
     \<lparr>geometry_type = t, mesh_uri = None, geometry_size = None, geometry_scale = 1 / 100\<rparr>"

datatype link_element_type = VISUAL | COLLISION

record link_element =
  element_type :: link_element_type
  element_name :: string
  element_pose :: "pose option"
  element_geometry :: "link_geometry option"

definition LinkElement :: "link_element_type \<Rightarrow> string \<Rightarrow> link_element" where
  "LinkElement t n =
     \<lparr>element_type = t, element_name = n, element_pose = None, element_geometry = None\<rparr>"

record link_inertial =
  inertial_pose :: pose
  mass :: real
  ixx :: real
  ixy :: real
  ixz :: real
  iyy :: real
  iyz :: real
  izz :: real

record link =
  link_name :: string
  link_pose :: "pose option"
  visuals :: "(string \<times> link_element) list"
  collisions :: "(string \<times> link_element) list"
  inertial :: "link_inertial option"

definition Link :: "string \<Rightarrow> link" where
  "Link n = \<lparr>link_name = n, link_pose = None, visuals = [], collisions = [], inertial = None\<rparr>"

datatype joint_type = FIXED | REVOLUTE | CONTINUOUS | PRISMATIC

record joint =
  joint_name :: string
  joint_type :: joint_type
  joint_pose :: "pose option"
  parent :: "string option"
  child :: "string option"
  axis_xyz :: "real list option"
  lower_limit :: "real option"
  upper_limit :: "real option"

text \<open>\<^verbatim>\<open>Joint(name, joint_type, pose, parent, child)\<close>: no axis and no limits.\<close>

definition Joint ::
  "string \<Rightarrow> joint_type \<Rightarrow> pose option \<Rightarrow> string option \<Rightarrow> string option \<Rightarrow> joint" where
  "Joint n t p par ch =
     \<lparr>joint_name = n, joint_type = t, joint_pose = p, parent = par, child = ch,
      axis_xyz = None, lower_limit = None, upper_limit = None\<rparr>"

section \<open>The CAD data source\<close>

text \<open>
  What the builder reads from the \<^verbatim>\<open>adsk\<close> interface, as plain data. Points and vectors
  are the lists that \<^verbatim>\<open>asArray()\<close> returns. An occurrence carries an identity \<open>occ_id\<close>;
  the attribute \<^verbatim>\<open>FusionSDF/link_name\<close> that the builder writes onto occurrences is kept in
  a table indexed by it (the field \<open>attributes\<close> of the builder state below).
\<close>

record oriented_bounding_box =
  centerPoint :: "real list"
  obb_height :: real
  obb_width :: real
  obb_length :: real
  heightDirection :: "real list"
  widthDirection :: "real list"
  lengthDirection :: "real list"

record brep_body =
  body_name :: string
  orientedMinimumBoundingBox :: oriented_bounding_box

text \<open>\<^verbatim>\<open>getXYZMomentsOfInertia()\<close> returns the validity flag and \<open>xx, yy, zz, xy, yz, xz\<close>.\<close>

record physical_properties =
  centerOfMass :: "real list"
  pp_mass :: real
  inertia_valid :: bool
  moment_xx :: real
  moment_yy :: real
  moment_zz :: real
  moment_xy :: real
  moment_yz :: real
  moment_xz :: real

datatype fusion_joint_type =
  RigidJointType | RevoluteJointType | SliderJointType | CylindricalJointType
  | PinSlotJointType | PlanarJointType | BallJointType

record joint_limits =
  isMinimumValueEnabled :: bool
  isMaximumValueEnabled :: bool
  minimumValue :: real
  maximumValue :: real

record joint_motion =
  jointType :: fusion_joint_type
  rotationAxisVector :: "real list"
  rotationLimits :: joint_limits
  slideDirectionVector :: "real list"
  slideLimits :: joint_limits

text \<open>The occurrence a joint refers to: its identity and its name.\<close>

record occurrence_ref =
  ref_id :: nat
  ref_name :: string

text \<open>
  A joint or as-built joint. \<open>geometry_origin\<close> is \<^verbatim>\<open>geometry.origin\<close> and
  \<open>geometryOrOriginOne_origin\<close> is \<^verbatim>\<open>geometryOrOriginOne.origin\<close>; \<open>None\<close> stands for a
  missing geometry.
\<close>

record fusion_joint =
  fusion_joint_name :: string
  jointMotion :: joint_motion
  occurrenceOne :: occurrence_ref
  occurrenceTwo :: occurrence_ref
  geometry_origin :: "real list option"
  geometryOrOriginOne_origin :: "real list option"

text \<open>
  A rigid group: its name, its member occurrences (name and bodies), and what the CAD
  system answers for the temporary occurrence that holds the copies of the members'
  bodies: its identity and its physical properties.
\<close>

record rigid_group_member =
  member_name :: string
  member_bodies :: "brep_body list"

record rigid_group =
  rigid_group_name :: string
  rigid_group_occurrences :: "rigid_group_member list"
  temporary_id :: nat
  temporary_physical :: physical_properties

record component =
  rigidGroups :: "rigid_group list"
  joints_of :: "fusion_joint list"
  asBuiltJoints :: "fusion_joint list"

datatype occurrence =
  Occurrence (occ_id: nat) (occ_name: string) (bRepBodies: "brep_body list")
    (transform2: matrix3d) (physicalProperties: physical_properties)
    (occ_component: component) (childOccurrences: "occurrence list")

text \<open>
  The design: the root component (name, rigid groups, joints, occurrences), whether the
  design is parametric, and the user parameters by name.
\<close>

record design =
  rootComponent_name :: string
  rootComponent :: component
  rootComponent_occurrences :: "occurrence list"
  is_parametric :: bool
  userParameters :: "(string \<times> real) list"

text \<open>\<^verbatim>\<open>adsk.core.Matrix3D.create()\<close> is the identity.\<close>

definition Matrix3D_create :: matrix3d where
  "Matrix3D_create =
     \<lparr>getCell = (\<lambda>row col. if row = col then 1 else 0), translation_asArray = [0, 0, 0]\<rparr>"

text \<open>
  \<^verbatim>\<open>setWithCoordinateSystem(origin, xAxis, yAxis, zAxis)\<close>: the axes are the first three
  columns, the origin is the translation column, the last row is \<open>0 0 0 1\<close>.
\<close>

definition setWithCoordinateSystem ::
  "real list \<Rightarrow> real list \<Rightarrow> real list \<Rightarrow> real list \<Rightarrow> matrix3d" where
  "setWithCoordinateSystem origin xAxis yAxis zAxis =
     \<lparr>getCell = (\<lambda>row col.
         if row < 3 \<and> col < 4 then [xAxis, yAxis, zAxis, origin] ! col ! row
         else if row = 3 \<and> col = 3 then 1 else 0),
      translation_asArray = origin\<rparr>"

section \<open>sdf.py\<close>

subsection \<open>The builder state\<close>

text \<open>
  What \<^verbatim>\<open>log\<close> writes to the console, one constructor for each call of \<^verbatim>\<open>log\<close> in
  \<^verbatim>\<open>sdf.py\<close>, with the values the message is formatted from.
\<close>

datatype log_message =
    LogParseRootComponent string
  | WarnNoRootLink
  | WarnMultipleRootLinks "string list"
  | LogParseOccurrence string string
  | LogAddLink string string string
  | LogLinkExists string
  | LogInRigidGroup string string
  | LogNoBodies string
  | LogVisual string
  | LogUsingMesh string
  | LogUsingBoundingBox string
  | LogObb oriented_bounding_box
  | ErrorMomentsOfInertia string
  | LogAddJoint string string string
  | LogJointExists string
  | ErrorUnsupportedJointType fusion_joint_type string
  | LogAddRigidGroup string string string
  | LogOccurrencesInRigidGroups "(string \<times> string) list"

text \<open>
  The attributes of the class \<^verbatim>\<open>SDF\<close> that the builder changes, the table of the
  \<^verbatim>\<open>FusionSDF/link_name\<close> attributes it writes onto occurrences, and the console. The
  temporary directories and the mesh files written by the export manager are outside
  the model. The console records every message; \<^verbatim>\<open>log\<close> writes nothing when no console
  has been set, which changes no other part of the state.
\<close>

record sdf =
  sdf_name :: "string option"
  links :: "(string \<times> link) list"
  joints :: "(string \<times> joint) list"
  fusion_joints :: "(fusion_joint \<times> bool \<times> string) list"
  occurrences_in_rigid_groups :: "(string \<times> string) list"
  root_link :: "string option"
  attributes :: "(nat \<times> string) list"
  console :: "log_message list"

definition log_message :: "log_message \<Rightarrow> sdf \<Rightarrow> sdf" where
  "log_message m s = s\<lparr>console := console s @ [m]\<rparr>"

text \<open>\<^verbatim>\<open>occurrence.attributes.add('FusionSDF', 'link_name', value)\<close>.\<close>

definition attributes_add :: "nat \<Rightarrow> string \<Rightarrow> sdf \<Rightarrow> sdf" where
  "attributes_add i v s = s\<lparr>attributes := AList.update i v (attributes s)\<rparr>"

text \<open>\<^verbatim>\<open>userParameters.itemByName(name)\<close> followed by the truth value of \<^verbatim>\<open>.value\<close>.\<close>

definition user_parameter_set :: "design \<Rightarrow> string \<Rightarrow> bool" where
  "user_parameter_set d n =
     (case map_of (userParameters d) n of None \<Rightarrow> False | Some v \<Rightarrow> v \<noteq> 0)"

subsection \<open>Helpers of util.py that need a Pose\<close>

definition transform2_to_pose :: "matrix3d \<Rightarrow> py_error + pose" where
  "transform2_to_pose t2 =
     Pose (cm_to_m_list (translation_asArray t2)) (matrix3d_to_rpy t2) (Some ''__model__'')"

text \<open>\<^verbatim>\<open>name.replace('__', '/')\<close>.\<close>

fun name_to_path :: "string \<Rightarrow> string" where
  "name_to_path (a # b # cs) =
     (if a = CHR ''_'' \<and> b = CHR ''_'' then CHR ''/'' # name_to_path cs
      else a # name_to_path (b # cs))"
| "name_to_path cs = cs"

subsection \<open>add\_link\<close>

text \<open>One round of the loop \<^verbatim>\<open>for body in occurrence.bRepBodies\<close>.\<close>

definition add_body ::
  "design \<Rightarrow> pose option \<Rightarrow> brep_body \<Rightarrow> link \<times> sdf \<Rightarrow> py_error + link \<times> sdf" where
  "add_body d rigid_group_pose body ls =
     (let lnk = fst ls;
          s1 = log_message (LogVisual (body_name body)) (snd ls);
          visual_name = link_name lnk @ ''__'' @ normalize_name (body_name body) @ ''_visual'';
          visual_geometry =
            (LinkGeometry MESH)\<lparr>mesh_uri := Some (''meshes/'' @ name_to_path visual_name @ ''.obj'')\<rparr>;
          visual = (LinkElement VISUAL visual_name)
            \<lparr>element_geometry := Some visual_geometry, element_pose := rigid_group_pose\<rparr>;
          lnk1 = lnk\<lparr>visuals := AList.update visual_name visual (visuals lnk)\<rparr>;
          collision_name =
            link_name lnk @ ''__'' @ normalize_name (body_name body) @ ''_collision'';
          collision = LinkElement COLLISION collision_name;
          use_collision_mesh =
            (is_parametric d \<and> user_parameter_set d (collision_name @ ''_USE_MESH''))
      in bind_err
           (if use_collision_mesh then
              Inr (collision\<lparr>element_pose := element_pose visual,
                             element_geometry := element_geometry visual\<rparr>,
                   log_message (LogUsingMesh collision_name) s1)
            else
              (let s2 = log_message (LogUsingBoundingBox collision_name) s1;
                   obb = orientedMinimumBoundingBox body;
                   s3 = log_message (LogObb obb) s2;
                   obb_matrix3d = setWithCoordinateSystem (centerPoint obb) (heightDirection obb)
                                    (widthDirection obb) (lengthDirection obb)
               in bind_err (Pose (cm_to_m_list (centerPoint obb)) (matrix3d_to_rpy obb_matrix3d)
                              (Some ''__model__'')) (\<lambda>box_pose.
                  bind_err (case rigid_group_pose of
                              None \<Rightarrow> Inr box_pose
                            | Some rgp \<Rightarrow> pose_mul rgp box_pose) (\<lambda>collision_pose.
                    Inr (collision\<lparr>element_pose := Some collision_pose,
                                   element_geometry := Some ((LinkGeometry BOX)
                                     \<lparr>geometry_size := Some [cm_to_m (obb_height obb),
                                          cm_to_m (obb_width obb), cm_to_m (obb_length obb)]\<rparr>)\<rparr>,
                         s3)))))
           (\<lambda>cs. Inr (lnk1\<lparr>collisions := AList.update collision_name (fst cs) (collisions lnk1)\<rparr>,
                       snd cs)))"

text \<open>Lines 166 to 184: the inertial data of the link.\<close>

definition link_inertial_of ::
  "physical_properties \<Rightarrow> link \<Rightarrow> pose option \<Rightarrow> sdf \<Rightarrow> py_error + link_inertial \<times> sdf" where
  "link_inertial_of physical lnk rigid_group_pose s =
     (let center_of_mass = cm_to_m_list (centerOfMass physical);
          s1 = (if \<not> inertia_valid physical
                then log_message (ErrorMomentsOfInertia (link_name lnk)) s else s);
          ms = (if \<not> inertia_valid physical then [1, 1, 1, 0, 0, 0]
                else [moment_xx physical, moment_yy physical, moment_zz physical,
                      moment_xy physical, moment_yz physical, moment_xz physical])
      in bind_err (world_inertia_to_com_inertia (map kg_cm2_to_kg_m2 ms) center_of_mass
                     (pp_mass physical)) (\<lambda>com_inertia.
           case com_inertia of
             [i_xx, i_yy, i_zz, i_xy, i_yz, i_xz] \<Rightarrow>
               bind_err (Pose center_of_mass [0, 0, 0] (Some ''__model__'')) (\<lambda>inertial_pose_model.
               bind_err (case link_pose lnk of
                           None \<Rightarrow> Inl AttributeError
                         | Some lp \<Rightarrow> pose_inverse lp) (\<lambda>link_pose_inverse.
               bind_err (case rigid_group_pose of
                           None \<Rightarrow> pose_mul link_pose_inverse inertial_pose_model
                         | Some rgp \<Rightarrow>
                             bind_err (pose_mul link_pose_inverse rgp) (\<lambda>p.
                               pose_mul p inertial_pose_model)) (\<lambda>inertial_pose_link.
                 Inr (\<lparr>inertial_pose = inertial_pose_link\<lparr>relative_to := None\<rparr>,
                       mass = pp_mass physical,
                       ixx = i_xx, ixy = i_xy, ixz = i_xz, iyy = i_yy, iyz = i_yz, izz = i_zz\<rparr>,
                      s1))))
           | _ \<Rightarrow> Inl ValueError))"

text \<open>
  \<^verbatim>\<open>add_link(occurrence, prefix, rigid_group_pose)\<close> returns the new link, or \<^verbatim>\<open>None\<close> from
  each of its three early returns.
\<close>

definition add_link ::
  "design \<Rightarrow> occurrence \<Rightarrow> string \<Rightarrow> pose option \<Rightarrow> sdf \<Rightarrow> py_error + link option \<times> sdf" where
  "add_link d occ prefix rigid_group_pose s =
     (let new_name = prefix @ normalize_name (occ_name occ);
          s1 = log_message (LogAddLink (occ_name occ) prefix new_name) s
      in if new_name \<in> set (map fst (links s1)) then
           Inr (None, log_message (LogLinkExists new_name) s1)
         else
           (case map_of (occurrences_in_rigid_groups s1) (occ_name occ) of
              Some group_link \<Rightarrow>
                Inr (None, log_message (LogInRigidGroup (occ_name occ) group_link)
                             (attributes_add (occ_id occ) group_link s1))
            | None \<Rightarrow>
                (let s2 = attributes_add (occ_id occ) new_name s1 in
                 if length (bRepBodies occ) = 0 then
                   Inr (None, log_message (LogNoBodies new_name) s2)
                 else
                   bind_err (case rigid_group_pose of
                               Some rgp \<Rightarrow> Inr rgp
                             | None \<Rightarrow> transform2_to_pose (transform2 occ)) (\<lambda>lp.
                   bind_err (fold_err (add_body d rigid_group_pose) (bRepBodies occ)
                               ((Link new_name)\<lparr>link_pose := Some lp\<rparr>, s2)) (\<lambda>ls.
                   bind_err (link_inertial_of (physicalProperties occ) (fst ls)
                               rigid_group_pose (snd ls)) (\<lambda>inert.
                     let lnk = (fst ls)\<lparr>inertial := Some (fst inert)\<rparr>;
                         s3 = snd inert
                     in Inr (Some lnk,
                             s3\<lparr>links := AList.update (link_name lnk) lnk (links s3)\<rparr>)))))))"

subsection \<open>add\_joint\<close>

text \<open>
  The link name of an occurrence a joint connects: the rigid-group table by the
  occurrence's name first, else the \<^verbatim>\<open>link_name\<close> attribute of the occurrence;
  \<^verbatim>\<open>itemByName\<close> answers \<^verbatim>\<open>None\<close> for a missing attribute, and \<^verbatim>\<open>.value\<close> then raises.
\<close>

definition joint_link_name :: "sdf \<Rightarrow> occurrence_ref \<Rightarrow> py_error + string" where
  "joint_link_name s occ =
     (case map_of (occurrences_in_rigid_groups s) (ref_name occ) of
        Some group_link \<Rightarrow> Inr group_link
      | None \<Rightarrow>
          (case map_of (attributes s) (ref_id occ) of
             None \<Rightarrow> Inl AttributeError
           | Some v \<Rightarrow> Inr v))"

text \<open>
  Lines 197 to 220: the joint type from the native type (an unsupported type is logged and
  becomes fixed), then the axis and the limits of a revolute or prismatic joint.
\<close>

definition joint_of_motion :: "string \<Rightarrow> joint_motion \<Rightarrow> sdf \<Rightarrow> joint \<times> sdf" where
  "joint_of_motion new_name motion s =
     (let j0 = Joint new_name FIXED None None None;
          js = (case jointType motion of
                  RigidJointType \<Rightarrow> (j0\<lparr>joint_type := FIXED\<rparr>, s)
                | RevoluteJointType \<Rightarrow> (j0\<lparr>joint_type := REVOLUTE\<rparr>, s)
                | SliderJointType \<Rightarrow> (j0\<lparr>joint_type := PRISMATIC\<rparr>, s)
                | other \<Rightarrow>
                    (j0\<lparr>joint_type := FIXED\<rparr>,
                     log_message (ErrorUnsupportedJointType other new_name) s));
          j1 = fst js
      in (if joint_type j1 = REVOLUTE then
            (let j = j1\<lparr>axis_xyz := Some (rotationAxisVector motion)\<rparr>;
                 rotation_limits = rotationLimits motion
             in if isMinimumValueEnabled rotation_limits \<or> isMaximumValueEnabled rotation_limits
                then j\<lparr>lower_limit := Some (minimumValue rotation_limits),
                       upper_limit := Some (maximumValue rotation_limits)\<rparr>
                else j\<lparr>joint_type := CONTINUOUS\<rparr>)
          else if joint_type j1 = PRISMATIC then
            (let slide_limits = slideLimits motion
             in j1\<lparr>axis_xyz := Some (slideDirectionVector motion),
                    lower_limit := Some (cm_to_m (minimumValue slide_limits)),
                    upper_limit := Some (cm_to_m (maximumValue slide_limits))\<rparr>)
          else j1,
          snd js))"

text \<open>Lines 222 to 235: parent and child, and the swap asked for by a user parameter.\<close>

definition set_parent_child :: "design \<Rightarrow> string \<Rightarrow> string \<Rightarrow> joint \<Rightarrow> joint" where
  "set_parent_child d parent_name child_name j =
     (let j' = j\<lparr>parent := Some parent_name, child := Some child_name\<rparr>
      in if is_parametric d \<and> user_parameter_set d (joint_name j' @ ''_SWAP_PARENT_CHILD'')
         then j'\<lparr>parent := child j', child := parent j',
                 axis_xyz := map_option (map uminus) (axis_xyz j')\<rparr>
         else j')"

text \<open>Lines 236 to 241: the pose of the joint, from the origin of its geometry.\<close>

definition set_joint_pose :: "fusion_joint \<Rightarrow> bool \<Rightarrow> joint \<Rightarrow> py_error + joint" where
  "set_joint_pose fj as_built j =
     (let joint_origin = (if as_built then geometry_origin fj else geometryOrOriginOne_origin fj)
      in case joint_origin of
           None \<Rightarrow> Inr j
         | Some origin \<Rightarrow>
             bind_err (Pose (cm_to_m_list origin) [0, 0, 0] (Some ''__model__''))
               (\<lambda>p. Inr (j\<lparr>joint_pose := Some p\<rparr>)))"

definition add_joint ::
  "design \<Rightarrow> fusion_joint \<Rightarrow> bool \<Rightarrow> string \<Rightarrow> sdf \<Rightarrow> py_error + sdf" where
  "add_joint d fj as_built prefix s =
     (let new_name = prefix @ normalize_name (fusion_joint_name fj);
          s1 = log_message (LogAddJoint (fusion_joint_name fj) prefix new_name) s
      in if new_name \<in> set (map fst (joints s1)) then
           Inr (log_message (LogJointExists new_name) s1)
         else
           (let js = joint_of_motion new_name (jointMotion fj) s1;
                s2 = snd js
            in bind_err (joint_link_name s2 (occurrenceTwo fj)) (\<lambda>parent_name.
               bind_err (joint_link_name s2 (occurrenceOne fj)) (\<lambda>child_name.
               bind_err (set_joint_pose fj as_built
                           (set_parent_child d parent_name child_name (fst js))) (\<lambda>j.
                 Inr (s2\<lparr>joints := AList.update (joint_name j) j (joints s2)\<rparr>))))))"

subsection \<open>add\_rigid\_group\<close>

text \<open>
  The temporary occurrence of a rigid group: a new component named after the link; its
  occurrence gets the suffix \<^verbatim>\<open>:1\<close>, the identity transform and the copies of the bodies of
  all members. \<^verbatim>\<open>deleteMe()\<close> removes it, and its attributes with it.
\<close>

definition rigid_group_occurrence :: "rigid_group \<Rightarrow> string \<Rightarrow> occurrence" where
  "rigid_group_occurrence rg new_name =
     Occurrence (temporary_id rg) (new_name @ '':1'')
       (concat (map member_bodies (rigid_group_occurrences rg)))
       Matrix3D_create (temporary_physical rg)
       \<lparr>rigidGroups = [], joints_of = [], asBuiltJoints = []\<rparr> []"

definition add_rigid_group ::
  "design \<Rightarrow> matrix3d \<Rightarrow> rigid_group \<Rightarrow> string \<Rightarrow> sdf \<Rightarrow> py_error + link option \<times> sdf" where
  "add_rigid_group d parent_pose rg prefix s =
     (let new_name = prefix @ normalize_name (rigid_group_name rg);
          s1 = log_message (LogAddRigidGroup (rigid_group_name rg) prefix new_name) s;
          rg_occurrence = rigid_group_occurrence rg new_name
      in bind_err (transform2_to_pose parent_pose) (\<lambda>rigid_group_pose.
         bind_err (add_link d rg_occurrence [] (Some rigid_group_pose) s1) (\<lambda>ls.
           let rigid_group_link = fst ls;
               s2 = snd ls;
               s3 = s2\<lparr>attributes := filter (\<lambda>kv. fst kv \<noteq> temporary_id rg) (attributes s2)\<rparr>;
               s4 = fold (\<lambda>member st.
                            st\<lparr>occurrences_in_rigid_groups :=
                                 AList.update (member_name member) (new_name @ ''_1'')
                                   (occurrences_in_rigid_groups st)\<rparr>)
                      (rigid_group_occurrences rg) s3;
               s5 = log_message (LogOccurrencesInRigidGroups (occurrences_in_rigid_groups s4)) s4
           in Inr (rigid_group_link, s5))))"

subsection \<open>parse\_occurrence and parse\_root\_component\<close>

text \<open>
  Line 74: the prefix that an occurrence hands down to its rigid groups, to its child
  occurrences and to the joints of its component.
\<close>

definition children_prefix :: "string \<Rightarrow> string \<Rightarrow> string" where
  "children_prefix prefix n = prefix @ normalize_name n @ ''__''"

text \<open>
  \<open>parse_occurrences\<close> is the loop \<^verbatim>\<open>for suboccurrence in occurrence.childOccurrences\<close>.
\<close>

fun parse_occurrence :: "design \<Rightarrow> occurrence \<Rightarrow> string \<Rightarrow> sdf \<Rightarrow> py_error + sdf"
  and parse_occurrences :: "design \<Rightarrow> occurrence list \<Rightarrow> string \<Rightarrow> sdf \<Rightarrow> py_error + sdf"
  where
  "parse_occurrence d (Occurrence i n bodies t2 physical cmpnt subs) prefix s =
     (let occ = Occurrence i n bodies t2 physical cmpnt subs;
          s1 = log_message (LogParseOccurrence n prefix) s
      in bind_err (add_link d occ prefix None s1) (\<lambda>ls.
           let children_prefix' = children_prefix prefix n in
           bind_err (fold_err (\<lambda>rg acc. add_rigid_group d t2 rg children_prefix' (snd acc))
                       (rigidGroups cmpnt) (None, snd ls)) (\<lambda>gs.
             let s2 = (case fst gs of
                         None \<Rightarrow> snd gs
                       | Some rigid_group_link \<Rightarrow>
                           attributes_add i (link_name rigid_group_link) (snd gs))
             in bind_err (parse_occurrences d subs children_prefix' s2) (\<lambda>s3.
                  Inr (s3\<lparr>fusion_joints := fusion_joints s3
                             @ map (\<lambda>j. (j, False, children_prefix')) (joints_of cmpnt)
                             @ map (\<lambda>j. (j, True, children_prefix')) (asBuiltJoints cmpnt)\<rparr>)))))"
| "parse_occurrences d [] prefix s = Inr s"
| "parse_occurrences d (occ # occs) prefix s =
     bind_err (parse_occurrence d occ prefix s) (\<lambda>s'. parse_occurrences d occs prefix s')"

text \<open>
  The prefix under which the links and joints below a chain of nested occurrences are
  named: \<^verbatim>\<open>parse_root_component\<close> starts every top-level occurrence with the empty prefix,
  and each occurrence on the way down (outermost first) extends it by line 74.
\<close>

definition prefix_of_path :: "string list \<Rightarrow> string" where
  "prefix_of_path path = foldl children_prefix [] path"

text \<open>The state that \<^verbatim>\<open>SDF.__init__\<close> sets up before it calls \<^verbatim>\<open>parse_root_component\<close>.\<close>

definition initial_sdf :: sdf where
  "initial_sdf =
     \<lparr>sdf_name = None, links = [], joints = [], fusion_joints = [],
      occurrences_in_rigid_groups = [], root_link = None, attributes = [], console = []\<rparr>"

text \<open>Lines 36 to 51 of \<^verbatim>\<open>parse_root_component\<close>: all links, then all joints.\<close>

definition build_links_and_joints :: "design \<Rightarrow> sdf \<Rightarrow> py_error + sdf" where
  "build_links_and_joints d s =
     (let s1 = s\<lparr>sdf_name := Some (normalize_name (rootComponent_name d))\<rparr>;
          s2 = log_message (LogParseRootComponent (rootComponent_name d)) s1
      in bind_err (fold_err (\<lambda>rg st. bind_err (add_rigid_group d Matrix3D_create rg [] st)
                                         (\<lambda>ls. Inr (snd ls)))
                     (rigidGroups (rootComponent d)) s2) (\<lambda>s3.
         bind_err (parse_occurrences d (rootComponent_occurrences d) [] s3) (\<lambda>s4.
         bind_err (fold_err (\<lambda>j. add_joint d j False []) (joints_of (rootComponent d)) s4) (\<lambda>s5.
         bind_err (fold_err (\<lambda>j. add_joint d j True []) (asBuiltJoints (rootComponent d)) s5)
           (\<lambda>s6.
             fold_err (\<lambda>jbp. add_joint d (fst jbp) (fst (snd jbp)) (snd (snd jbp)))
               (fusion_joints s6) s6)))))"

text \<open>
  Lines 53 to 66: the root link and the anchor. \<^verbatim>\<open>next(iter(root_links))\<close> takes the first
  element of a Python set in its iteration order, which the program does not fix; the
  number \<open>choice\<close> says which candidate that is.
\<close>

definition root_links :: "sdf \<Rightarrow> string list" where
  "root_links s =
     (let links_with_parent_joints = map (\<lambda>nj. child (snd nj)) (joints s)
      in filter (\<lambda>k. Some k \<notin> set links_with_parent_joints) (remdups (map fst (links s))))"

definition select_root_and_anchor :: "nat \<Rightarrow> sdf \<Rightarrow> py_error + sdf" where
  "select_root_and_anchor choice s =
     (let candidates = root_links s;
          s1 = (if length candidates = 0 then log_message WarnNoRootLink s
                else
                  (let s' = (if length candidates \<noteq> 1
                             then log_message (WarnMultipleRootLinks candidates) s else s)
                   in s'\<lparr>root_link := Some (candidates ! (choice mod length candidates))\<rparr>))
      in bind_err (Pose [0, 0, 0] [0, 0, 0] (Some ''__model__'')) (\<lambda>default_pose.
           let base_link = (Link ''base_link'')
                 \<lparr>inertial := Some \<lparr>inertial_pose = default_pose, mass = 1 / 10 ^ 4,
                                     ixx = 1 / 10 ^ 9, ixy = 0, ixz = 0,
                                     iyy = 1 / 10 ^ 9, iyz = 0, izz = 1 / 10 ^ 9\<rparr>\<rparr>;
               s2 = s1\<lparr>links := AList.update ''base_link'' base_link (links s1)\<rparr>;
               s3 = s2\<lparr>joints := AList.update ''base_link_joint''
                                    (Joint ''base_link_joint'' FIXED None (Some ''base_link'')
                                       (root_link s2))
                                    (joints s2)\<rparr>
           in Inr (s3\<lparr>root_link := Some ''base_link''\<rparr>)))"

definition parse_root_component :: "design \<Rightarrow> nat \<Rightarrow> sdf \<Rightarrow> py_error + sdf" where
  "parse_root_component d choice s =
     bind_err (build_links_and_joints d s) (select_root_and_anchor choice)"

text \<open>The constructor \<^verbatim>\<open>SDF(design, ...)\<close>.\<close>

definition SDF :: "design \<Rightarrow> nat \<Rightarrow> py_error + sdf" where
  "SDF d choice = parse_root_component d choice initial_sdf"

subsection \<open>The tree invariant of the specification\<close>

text \<open>
  Every joint's parent and child name a key of the links map, and \<^verbatim>\<open>base_link\<close> is the
  one link that is not the child of any joint.
\<close>

definition joints_resolve :: "sdf \<Rightarrow> bool" where
  "joints_resolve s \<longleftrightarrow>
     list_all (\<lambda>nj. parent (snd nj) \<in> Some ` set (map fst (links s))
                  \<and> child (snd nj) \<in> Some ` set (map fst (links s))) (joints s)"

definition spec_tree_invariant :: "sdf \<Rightarrow> bool" where
  "spec_tree_invariant s \<longleftrightarrow> joints_resolve s \<and> root_links s = [''base_link'']"



subsection \<open>Example inputs\<close>

text \<open>A design with nothing in it.\<close>

definition empty_design :: design where
  "empty_design =
     \<lparr>rootComponent_name = ''Empty'',
      rootComponent = \<lparr>rigidGroups = [], joints_of = [], asBuiltJoints = []\<rparr>,
      rootComponent_occurrences = [], is_parametric = False, userParameters = []\<rparr>"

text \<open>
  A revolute joint \<^verbatim>\<open>Rev1\<close> about the z axis between the occurrences \<^verbatim>\<open>base:1\<close> (occurrence
  two, the parent) and \<^verbatim>\<open>arm:1\<close> (occurrence one, the child), with the given limits, and a
  builder state in which both occurrences have their link names.
\<close>

definition example_revolute_joint :: "joint_limits \<Rightarrow> fusion_joint" where
  "example_revolute_joint limits =
     \<lparr>fusion_joint_name = ''Rev1'',
      jointMotion = \<lparr>jointType = RevoluteJointType, rotationAxisVector = [0, 0, 1],
                      rotationLimits = limits, slideDirectionVector = [],
                      slideLimits = \<lparr>isMinimumValueEnabled = False, isMaximumValueEnabled = False,
                                      minimumValue = 0, maximumValue = 0\<rparr>\<rparr>,
      occurrenceOne = \<lparr>ref_id = 2, ref_name = ''arm:1''\<rparr>,
      occurrenceTwo = \<lparr>ref_id = 1, ref_name = ''base:1''\<rparr>,
      geometry_origin = None, geometryOrOriginOne_origin = None\<rparr>"

definition example_state :: sdf where
  "example_state = initial_sdf\<lparr>attributes := [(1, ''base_1''), (2, ''arm_1'')]\<rparr>"

text \<open>
  A design with one occurrence \<^verbatim>\<open>arm:1\<close> at the origin, holding one body \<^verbatim>\<open>Body1\<close> whose
  bounding box is the axis-aligned cube of edge 2 cm about the origin, and no joints.
\<close>

definition single_link_design :: design where
  "single_link_design =
     \<lparr>rootComponent_name = ''Arm Assembly'',
      rootComponent = \<lparr>rigidGroups = [], joints_of = [], asBuiltJoints = []\<rparr>,
      rootComponent_occurrences =
        [Occurrence 1 ''arm:1''
           [\<lparr>body_name = ''Body1'',
             orientedMinimumBoundingBox =
               \<lparr>centerPoint = [0, 0, 0], obb_height = 2, obb_width = 2, obb_length = 2,
                heightDirection = [1, 0, 0], widthDirection = [0, 1, 0],
                lengthDirection = [0, 0, 1]\<rparr>\<rparr>]
           Matrix3D_create
           \<lparr>centerOfMass = [0, 0, 0], pp_mass = 1, inertia_valid = True,
            moment_xx = 1, moment_yy = 1, moment_zz = 1,
            moment_xy = 0, moment_yz = 0, moment_xz = 0\<rparr>
           \<lparr>rigidGroups = [], joints_of = [], asBuiltJoints = []\<rparr> []],
      is_parametric = False, userParameters = []\<rparr>"


text \<open>
  An occurrence at the origin with the one body \<^verbatim>\<open>Body1\<close> of the designs above, and an
  occurrence without bodies; both have no child occurrences, rigid groups or joints.
\<close>

definition cube_occurrence :: "nat \<Rightarrow> string \<Rightarrow> occurrence" where
  "cube_occurrence i n =
     Occurrence i n
       [\<lparr>body_name = ''Body1'',
         orientedMinimumBoundingBox =
           \<lparr>centerPoint = [0, 0, 0], obb_height = 2, obb_width = 2, obb_length = 2,
            heightDirection = [1, 0, 0], widthDirection = [0, 1, 0],
            lengthDirection = [0, 0, 1]\<rparr>\<rparr>]
       Matrix3D_create
       \<lparr>centerOfMass = [0, 0, 0], pp_mass = 1, inertia_valid = True,
        moment_xx = 1, moment_yy = 1, moment_zz = 1,
        moment_xy = 0, moment_yz = 0, moment_xz = 0\<rparr>
       \<lparr>rigidGroups = [], joints_of = [], asBuiltJoints = []\<rparr> []"

definition empty_occurrence :: "nat \<Rightarrow> string \<Rightarrow> occurrence" where
  "empty_occurrence i n =
     Occurrence i n [] Matrix3D_create
       \<lparr>centerOfMass = [0, 0, 0], pp_mass = 0, inertia_valid = True,
        moment_xx = 0, moment_yy = 0, moment_zz = 0,
        moment_xy = 0, moment_yz = 0, moment_xz = 0\<rparr>
       \<lparr>rigidGroups = [], joints_of = [], asBuiltJoints = []\<rparr> []"

text \<open>
  A rigid joint with the given name between occurrence one (the child) and occurrence
  two (the parent), each given by its identity and its name.
\<close>

definition rigid_joint :: "string \<Rightarrow> nat \<times> string \<Rightarrow> nat \<times> string \<Rightarrow> fusion_joint" where
  "rigid_joint n one two =
     \<lparr>fusion_joint_name = n,
      jointMotion = \<lparr>jointType = RigidJointType, rotationAxisVector = [],
                      rotationLimits = \<lparr>isMinimumValueEnabled = False, isMaximumValueEnabled = False,
                                         minimumValue = 0, maximumValue = 0\<rparr>,
                      slideDirectionVector = [],
                      slideLimits = \<lparr>isMinimumValueEnabled = False, isMaximumValueEnabled = False,
                                      minimumValue = 0, maximumValue = 0\<rparr>\<rparr>,
      occurrenceOne = \<lparr>ref_id = fst one, ref_name = snd one\<rparr>,
      occurrenceTwo = \<lparr>ref_id = fst two, ref_name = snd two\<rparr>,
      geometry_origin = None, geometryOrOriginOne_origin = None\<rparr>"





text \<open>
  The occurrence \<^verbatim>\<open>arm:1\<close> with a body and the child occurrences \<^verbatim>\<open>palm:1\<close> and \<^verbatim>\<open>finger:1\<close>;
  its component has a rigid joint between the two (child \<^verbatim>\<open>finger:1\<close>, parent \<^verbatim>\<open>palm:1\<close>)
  that the designer has named \<^verbatim>\<open>-\<close>.
\<close>

definition hyphen_joint_design :: design where
  "hyphen_joint_design =
     \<lparr>rootComponent_name = ''Arm Assembly'',
      rootComponent = \<lparr>rigidGroups = [], joints_of = [], asBuiltJoints = []\<rparr>,
      rootComponent_occurrences =
        [Occurrence 1 ''arm:1'' (bRepBodies (cube_occurrence 1 ''arm:1'')) Matrix3D_create
           (physicalProperties (cube_occurrence 1 ''arm:1''))
           \<lparr>rigidGroups = [],
            joints_of = [rigid_joint ''-'' (3, ''finger:1'') (2, ''palm:1'')],
            asBuiltJoints = []\<rparr>
           [cube_occurrence 2 ''palm:1'', cube_occurrence 3 ''finger:1'']],
      is_parametric = False, userParameters = []\<rparr>"

chapter \<open>Properties\<close>

section \<open>Evaluation rules of the runtime model\<close>

lemma bind_err_simps [simp]:
  "bind_err (Inr x) f = f x" "bind_err (Inl e) f = Inl e"
  by (simp_all add: bind_err_def)

lemma py_nth_Cons [simp]:
  "py_nth (x # xs) 0 = Inr x"
  "py_nth (x # xs) (Suc n) = py_nth xs n"
  "py_nth [] n = Inl IndexError"
  by (simp_all add: py_nth_def)

lemma py_nth_numeral [simp]:
  "py_nth (x # xs) (numeral k) = py_nth xs (pred_numeral k)"
  by (simp add: py_nth_def numeral_eq_Suc)

lemma py_set2_simps [simp]:
  "py_set2 (r # m) (Suc i) j v = (case py_set2 m i j v of Inl e \<Rightarrow> Inl e | Inr m' \<Rightarrow> Inr (r # m'))"
  "py_set2 (r # m) 0 j v = (if j < length r then Inr (r[j := v] # m) else Inl IndexError)"
  "py_set2 [] i j v = Inl IndexError"
  by (simp_all add: py_set2_def)

lemma py_set2_numeral [simp]:
  "py_set2 (r # m) (numeral k) j v = (case py_set2 m (pred_numeral k) j v of Inl e \<Rightarrow> Inl e | Inr m' \<Rightarrow> Inr (r # m'))"
  by (simp add: numeral_eq_Suc)


section \<open>normalize\_name\<close>

lemma lower_char_fix: "name_char c \<Longrightarrow> lower_char c = c"
  by (auto simp: name_char_def lower_char_def Let_def)

lemma name_char_underscore: "name_char CHR ''_''"
  by (simp add: name_char_def)

lemma name_char_re_sub_runs: "list_all name_char (re_sub_runs s)"
  by (induction s rule: re_sub_runs.induct) (simp_all add: name_char_underscore)

lemma re_sub_runs_fix: "list_all name_char r \<Longrightarrow> re_sub_runs r = r"
  by (induction r) simp_all

lemma rev_drop_rev: "rev (drop k (rev t)) = take (length t - k) t"
  by (simp add: rev_drop)

lemma strip_us_cut:
  "\<exists>i j. strip_us s = take i (drop j s) \<and> dropWhile (\<lambda>c. c = CHR ''_'') s = drop j s"
proof -
  obtain j where j: "dropWhile (\<lambda>c. c = CHR ''_'') s = drop j s"
    using dropWhile_eq_drop by blast
  obtain k where k: "dropWhile (\<lambda>c. c = CHR ''_'') (rev (drop j s)) = drop k (rev (drop j s))"
    using dropWhile_eq_drop by blast
  have "strip_us s = take (length (drop j s) - k) (drop j s)"
    unfolding strip_us_def j k by (rule rev_drop_rev)
  with j show ?thesis by blast
qed

lemma strip_us_take_drop: "\<exists>i j. strip_us s = take i (drop j s)"
  using strip_us_cut by blast

lemma list_all_strip_us: "list_all P s \<Longrightarrow> list_all P (strip_us s)"
proof -
  assume a: "list_all P s"
  obtain i j where "strip_us s = take i (drop j s)"
    using strip_us_take_drop by blast
  moreover have "set (take i (drop j s)) \<subseteq> set s"
    by (meson set_take_subset set_drop_subset subset_trans)
  ultimately show ?thesis using a by (auto simp: list_all_iff)
qed

lemma strip_us_no_trailing: "strip_us s \<noteq> r @ [CHR ''_'']"
proof
  let ?p = "\<lambda>c. c = CHR ''_''"
  let ?u = "dropWhile ?p (rev (dropWhile ?p s))"
  assume "strip_us s = r @ [CHR ''_'']"
  then have "rev ?u = r @ [CHR ''_'']" by (simp add: strip_us_def)
  then have "rev (rev ?u) = rev (r @ [CHR ''_''])" by (rule arg_cong)
  then have u: "?u = CHR ''_'' # rev r" by simp
  then have "?u \<noteq> []" by simp
  then have "\<not> ?p (hd ?u)" by (rule hd_dropWhile)
  with u show False by simp
qed

lemma take_eq_Cons_hd: "take n t = c # r \<Longrightarrow> t \<noteq> [] \<and> hd t = c"
  by (cases t; cases n) simp_all

lemma strip_us_no_leading: "strip_us s \<noteq> CHR ''_'' # r"
proof
  assume a: "strip_us s = CHR ''_'' # r"
  obtain i j where "strip_us s = take i (drop j s)" "dropWhile (\<lambda>c. c = CHR ''_'') s = drop j s"
    using strip_us_cut by blast
  with a have "take i (dropWhile (\<lambda>c. c = CHR ''_'') s) = CHR ''_'' # r" by (simp only:)
  then have t: "dropWhile (\<lambda>c. c = CHR ''_'') s \<noteq> [] \<and> hd (dropWhile (\<lambda>c. c = CHR ''_'') s) = CHR ''_''"
    by (rule take_eq_Cons_hd)
  then have "hd (dropWhile (\<lambda>c. c = CHR ''_'') s) \<noteq> CHR ''_''"
    using hd_dropWhile[of "\<lambda>c. c = CHR ''_''" s] by blast
  with t show False by blast
qed

lemma strip_us_fix:
  assumes "\<And>r. s \<noteq> CHR ''_'' # r" "\<And>r. s \<noteq> r @ [CHR ''_'']"
  shows "strip_us s = s"
proof (cases s rule: rev_cases)
  case Nil
  then show ?thesis by (simp add: strip_us_def)
next
  case (snoc ys y)
  with assms(2) have y: "y \<noteq> CHR ''_''" by auto
  have d: "dropWhile (\<lambda>c. c = CHR ''_'') s = s"
    using assms(1) by (cases s) auto
  show ?thesis unfolding strip_us_def d using snoc y by simp
qed

lemma dropWhile_all_Nil: "\<forall>c\<in>set (dropWhile P s). P c \<Longrightarrow> dropWhile P s = []"
proof (rule ccontr)
  assume a: "\<forall>c\<in>set (dropWhile P s). P c" and n: "dropWhile P s \<noteq> []"
  from n have "\<not> P (hd (dropWhile P s))" by (rule hd_dropWhile)
  moreover from n have "hd (dropWhile P s) \<in> set (dropWhile P s)" by (rule hd_in_set)
  ultimately show False using a by blast
qed

lemma strip_us_Nil_iff: "strip_us s = [] \<longleftrightarrow> (\<forall>c\<in>set s. c = CHR ''_'')"
proof
  assume "strip_us s = []"
  then have "dropWhile (\<lambda>c. c = CHR ''_'') (rev (dropWhile (\<lambda>c. c = CHR ''_'') s)) = []"
    unfolding strip_us_def by (simp only: rev_is_Nil_conv)
  then have "\<forall>c\<in>set (rev (dropWhile (\<lambda>c. c = CHR ''_'') s)). c = CHR ''_''"
    by (simp only: dropWhile_eq_Nil_conv)
  then have "\<forall>c\<in>set (dropWhile (\<lambda>c. c = CHR ''_'') s). c = CHR ''_''"
    by (simp only: set_rev)
  then have "dropWhile (\<lambda>c. c = CHR ''_'') s = []" by (rule dropWhile_all_Nil)
  then show "\<forall>c\<in>set s. c = CHR ''_''" by (simp only: dropWhile_eq_Nil_conv)
next
  assume "\<forall>c\<in>set s. c = CHR ''_''"
  then have "dropWhile (\<lambda>c. c = CHR ''_'') s = []" by (simp only: dropWhile_eq_Nil_conv)
  then show "strip_us s = []" by (simp only: strip_us_def rev.simps dropWhile.simps)
qed

lemma ex_dropWhile_not:
  "(\<exists>c\<in>set (dropWhile (\<lambda>d. \<not> P d) cs). P c \<and> Q c) \<longleftrightarrow> (\<exists>c\<in>set cs. P c \<and> Q c)"
  by (induction cs) auto

lemma re_sub_runs_alnum:
  "(\<exists>c\<in>set (re_sub_runs t). c \<noteq> CHR ''_'') \<longleftrightarrow> (\<exists>c\<in>set t. name_char c \<and> c \<noteq> CHR ''_'')"
proof (induction t rule: re_sub_runs.induct)
  case 1
  then show ?case by simp
next
  case (2 c cs)
  show ?case
  proof (cases "name_char c")
    case True
    with 2 show ?thesis by auto
  next
    case False
    with 2(2) have "(\<exists>c\<in>set (re_sub_runs (dropWhile (\<lambda>d. \<not> name_char d) cs)). c \<noteq> CHR ''_'')
       \<longleftrightarrow> (\<exists>c\<in>set cs. name_char c \<and> c \<noteq> CHR ''_'')"
      by (simp add: ex_dropWhile_not)
    with False show ?thesis by auto
  qed
qed

lemma normalize_name_chars: "list_all name_char (normalize_name s)"
  unfolding normalize_name_def by (rule list_all_strip_us) (rule name_char_re_sub_runs)

lemma normalize_name_lower: "map lower_char (normalize_name s) = normalize_name s"
proof (rule map_idI)
  fix c assume "c \<in> set (normalize_name s)"
  with normalize_name_chars[of s] have "name_char c" by (simp add: list_all_iff)
  then show "lower_char c = c" by (rule lower_char_fix)
qed

lemma normalize_name_no_leading: "normalize_name s \<noteq> CHR ''_'' # r"
  unfolding normalize_name_def by (rule strip_us_no_leading)

lemma normalize_name_no_trailing: "normalize_name s \<noteq> r @ [CHR ''_'']"
  unfolding normalize_name_def by (rule strip_us_no_trailing)

lemma normalize_name_nonempty_iff:
  "normalize_name s \<noteq> [] \<longleftrightarrow> (\<exists>c\<in>set (map lower_char s). name_char c \<and> c \<noteq> CHR ''_'')"
proof -
  have "normalize_name s \<noteq> [] \<longleftrightarrow> (\<exists>c\<in>set (re_sub_runs (map lower_char s)). c \<noteq> CHR ''_'')"
    unfolding normalize_name_def strip_us_Nil_iff by blast
  then show ?thesis
    by (simp only: re_sub_runs_alnum)
qed

text \<open>
  Claim C9, as amended. For every input string, \<open>normalize_name\<close> returns a string
  over \<^verbatim>\<open>[a-z0-9_]\<close> that lower-casing leaves unchanged and that neither starts nor
  ends with an underscore. The result may be empty: it is non-empty exactly when the
  lower-cased input has a character of \<^verbatim>\<open>[a-z0-9]\<close>.
\<close>

theorem normalize_name_shape:
  "list_all name_char (normalize_name s)
   \<and> map lower_char (normalize_name s) = normalize_name s
   \<and> (\<nexists>r. normalize_name s = CHR ''_'' # r)
   \<and> (\<nexists>r. normalize_name s = r @ [CHR ''_''])
   \<and> (normalize_name s \<noteq> [] \<longleftrightarrow>
        (\<exists>c\<in>set (map lower_char s). name_char c \<and> c \<noteq> CHR ''_''))"
proof (intro conjI)
  show "list_all name_char (normalize_name s)" by (rule normalize_name_chars)
  show "map lower_char (normalize_name s) = normalize_name s" by (rule normalize_name_lower)
  show "\<nexists>r. normalize_name s = CHR ''_'' # r" using normalize_name_no_leading by blast
  show "\<nexists>r. normalize_name s = r @ [CHR ''_'']" using normalize_name_no_trailing by blast
  show "normalize_name s \<noteq> [] \<longleftrightarrow>
        (\<exists>c\<in>set (map lower_char s). name_char c \<and> c \<noteq> CHR ''_'')"
    by (rule normalize_name_nonempty_iff)
qed

text \<open>
  Claim C9, as stated, fails: a name without any letter or digit, such as \<^verbatim>\<open>(-)\<close>,
  is normalised to the empty string, which is not a word of \<^verbatim>\<open>[a-z0-9_]+\<close>.
\<close>

theorem normalize_name_empty_counterexample:
  "\<not> spec_valid_name (normalize_name ''(-)'')"
proof -
  have "normalize_name ''(-)'' = []" by code_simp
  then show ?thesis by (simp add: spec_valid_name_def)
qed

subsection \<open>Idempotence and the names of the builder\<close>

lemma foldl_children_prefix:
  "foldl children_prefix acc path = acc @ concat (map (\<lambda>n. normalize_name n @ ''__'') path)"
  by (induction path arbitrary: acc) (simp_all add: children_prefix_def)

lemma prefix_of_path_Nil: "prefix_of_path [] = []"
  by (simp add: prefix_of_path_def)

lemma prefix_of_path_Cons:
  "prefix_of_path (n # path) = normalize_name n @ ''__'' @ prefix_of_path path"
  unfolding prefix_of_path_def foldl_children_prefix by simp

lemma prefix_of_path_chars: "list_all name_char (prefix_of_path path)"
  by (induction path)
    (simp_all add: prefix_of_path_Nil prefix_of_path_Cons normalize_name_chars name_char_underscore)

lemma prefix_of_path_last:
  "path \<noteq> [] \<Longrightarrow> \<exists>r. prefix_of_path path = r @ [CHR ''_'']"
proof (induction path)
  case Nil
  then show ?case by simp
next
  case (Cons n path)
  show ?case
  proof (cases "path = []")
    case True
    have "prefix_of_path (n # path) = (normalize_name n @ ''_'') @ [CHR ''_'']"
      unfolding prefix_of_path_Cons True prefix_of_path_Nil by simp
    then show ?thesis by blast
  next
    case False
    from Cons.IH[OF False] obtain r where r: "prefix_of_path path = r @ [CHR ''_'']" by blast
    have "prefix_of_path (n # path) = (normalize_name n @ ''__'' @ r) @ [CHR ''_'']"
      unfolding prefix_of_path_Cons r by simp
    then show ?thesis by blast
  qed
qed

lemma normalize_name_of_name_chars:
  assumes "list_all name_char s"
  shows "normalize_name s = strip_us s"
proof -
  have "map lower_char s = s"
    using assms by (induction s) (simp_all add: lower_char_fix)
  then show ?thesis
    unfolding normalize_name_def using re_sub_runs_fix[OF assms] by simp
qed

lemma strip_us_fix_iff:
  "strip_us s = s \<longleftrightarrow> (\<forall>r. s \<noteq> CHR ''_'' # r) \<and> (\<forall>r. s \<noteq> r @ [CHR ''_''])"
proof
  assume e: "strip_us s = s"
  show "(\<forall>r. s \<noteq> CHR ''_'' # r) \<and> (\<forall>r. s \<noteq> r @ [CHR ''_''])"
    using strip_us_no_leading[of s] strip_us_no_trailing[of s] unfolding e by blast
next
  assume "(\<forall>r. s \<noteq> CHR ''_'' # r) \<and> (\<forall>r. s \<noteq> r @ [CHR ''_''])"
  then show "strip_us s = s" by (intro strip_us_fix) blast+
qed

lemma builder_name_stable_iff:
  "normalize_name (prefix_of_path path @ normalize_name name) = prefix_of_path path @ normalize_name name
     \<longleftrightarrow> path = [] \<or> (normalize_name (hd path) \<noteq> [] \<and> normalize_name name \<noteq> [])"
proof -
  let ?N = "prefix_of_path path @ normalize_name name"
  have c: "list_all name_char ?N"
    using prefix_of_path_chars normalize_name_chars by simp
  have n: "normalize_name ?N = strip_us ?N"
    by (rule normalize_name_of_name_chars[OF c])
  show ?thesis
  proof (cases path)
    case Nil
    have "strip_us (normalize_name name) = normalize_name name"
      by (intro strip_us_fix normalize_name_no_leading normalize_name_no_trailing)
    then show ?thesis using n unfolding Nil prefix_of_path_Nil by simp
  next
    case (Cons p0 rest)
    have ne: "path \<noteq> []" using Cons by simp
    from prefix_of_path_last[OF ne] obtain r where r: "prefix_of_path path = r @ [CHR ''_'']"
      by blast
    show ?thesis
    proof (cases "normalize_name name = []")
      case True
      have "?N = r @ [CHR ''_'']" unfolding True r by simp
      then have "strip_us ?N \<noteq> ?N" using strip_us_no_trailing[of ?N r] by simp
      then show ?thesis unfolding n using True ne by simp
    next
      case False
      show ?thesis
      proof (cases "normalize_name p0 = []")
        case True
        have "?N = CHR ''_'' # (''_'' @ prefix_of_path rest @ normalize_name name)"
          unfolding Cons prefix_of_path_Cons True by simp
        then have "strip_us ?N \<noteq> ?N"
          using strip_us_no_leading[of ?N "''_'' @ prefix_of_path rest @ normalize_name name"]
          by simp
        then show ?thesis unfolding n using True ne Cons by simp
      next
        case p0: False
        obtain c cs where ccs: "normalize_name p0 = c # cs"
          using p0 by (cases "normalize_name p0") simp_all
        have cne: "c \<noteq> CHR ''_''"
          using normalize_name_no_leading[of p0 cs] ccs by auto
        have lead: "?N \<noteq> CHR ''_'' # q" for q
          unfolding Cons prefix_of_path_Cons ccs using cne by simp
        obtain m ms where mms: "normalize_name name = ms @ [m]"
          using False by (cases "normalize_name name" rule: rev_cases) simp_all
        have mne: "m \<noteq> CHR ''_''"
          using normalize_name_no_trailing[of name ms] mms by auto
        have trail: "?N \<noteq> q @ [CHR ''_'']" for q
        proof
          assume "?N = q @ [CHR ''_'']"
          then have "(prefix_of_path path @ ms) @ [m] = q @ [CHR ''_'']"
            unfolding mms by simp
          then have "m = CHR ''_''" by (rule append1_eq_conv[THEN iffD1, THEN conjunct2])
          with mne show False by simp
        qed
        have "strip_us ?N = ?N" by (rule strip_us_fix[OF lead trail])
        then show ?thesis unfolding n using False p0 Cons by simp
      qed
    qed
  qed
qed

text \<open>
  Claim C10, as amended. \<open>normalize_name\<close> is idempotent: for every string \<open>s\<close>,
  \<open>normalize_name (normalize_name s) = normalize_name s\<close>. A name produced by the builder's
  prefixing scheme, the prefix of a chain of nested occurrences followed by a normalised
  name, is stable under re-normalisation exactly when the chain is empty, or when both
  the name of the outermost occurrence and the name itself normalise to a non-empty
  string.
\<close>

theorem normalize_name_stability:
  "normalize_name (normalize_name s) = normalize_name s
   \<and> (normalize_name (prefix_of_path path @ normalize_name name)
        = prefix_of_path path @ normalize_name name
      \<longleftrightarrow> path = [] \<or> (normalize_name (hd path) \<noteq> [] \<and> normalize_name name \<noteq> []))"
proof
  have c: "list_all name_char (normalize_name s)" by (rule normalize_name_chars)
  have "normalize_name (normalize_name s) = strip_us (normalize_name s)"
    by (rule normalize_name_of_name_chars[OF c])
  also have "\<dots> = normalize_name s"
    by (intro strip_us_fix normalize_name_no_leading normalize_name_no_trailing)
  finally show "normalize_name (normalize_name s) = normalize_name s" .
  show "normalize_name (prefix_of_path path @ normalize_name name)
        = prefix_of_path path @ normalize_name name
      \<longleftrightarrow> path = [] \<or> (normalize_name (hd path) \<noteq> [] \<and> normalize_name name \<noteq> [])"
    by (rule builder_name_stable_iff)
qed

section \<open>The parallel-axis shift\<close>

text \<open>
  Claim C5. For an inertia list \<open>[xx, yy, zz, xy, yz, xz]\<close>, a centre of mass
  \<open>(x, y, z)\<close> and a mass, \<open>world_inertia_to_com_inertia\<close> returns
  \<open>[xx - mass*(y\<^sup>2+z\<^sup>2), yy - mass*(x\<^sup>2+z\<^sup>2), zz - mass*(x\<^sup>2+y\<^sup>2), xy + mass*x*y,
  yz + mass*y*z, xz + mass*x*z]\<close>; for mass 2, centre of mass \<open>(1, 0, 0)\<close> and inertia
  \<open>(1, 1, 1, 0, 0, 0)\<close> the result is \<open>(1, -1, -1, 0, 0, 0)\<close>.
\<close>

theorem world_inertia_to_com_inertia_value:
  "world_inertia_to_com_inertia [xx, yy, zz, xy, yz, xz] [x, y, z] m
     = Inr [xx - m * (y\<^sup>2 + z\<^sup>2), yy - m * (x\<^sup>2 + z\<^sup>2), zz - m * (x\<^sup>2 + y\<^sup>2),
            xy + m * x * y, yz + m * y * z, xz + m * x * z]
   \<and> world_inertia_to_com_inertia [1, 1, 1, 0, 0, 0] [1, 0, 0] 2
     = Inr [1, - 1, - 1, 0, 0, 0]"
  by (simp add: world_inertia_to_com_inertia_def bind_err_def py_nth_def)

section \<open>The inverse law\<close>

lemma list4: "length xs = 4 \<Longrightarrow> \<exists>a b c d. xs = [a, b, c, d]"
  by (simp add: numeral_eq_Suc length_Suc_conv) blast

lemma homogeneous_entries:
  assumes "homogeneous T"
  shows "\<exists>a b c x d e f y g h i z.
     T = \<lparr>matrix = [ [a, b, c, x], [d, e, f, y], [g, h, i, z], [0, 0, 0, 1] ]\<rparr>"
proof -
  from assms obtain r0 r1 r2 r3 where m: "matrix T = [r0, r1, r2, r3]"
    unfolding homogeneous_def using list4 by blast
  from assms m have l: "length r0 = 4" "length r1 = 4" "length r2 = 4" and r3: "r3 = [0, 0, 0, 1]"
    unfolding homogeneous_def by simp_all
  from l obtain a b c x d e f y g h i z where
    "r0 = [a, b, c, x]" "r1 = [d, e, f, y]" "r2 = [g, h, i, z]"
    using list4 by metis
  with m r3 have "matrix T = [ [a, b, c, x], [d, e, f, y], [g, h, i, z], [0, 0, 0, 1] ]" by simp
  then have "T = \<lparr>matrix = [ [a, b, c, x], [d, e, f, y], [g, h, i, z], [0, 0, 0, 1] ]\<rparr>"
    by (cases T) simp
  then show ?thesis by blast
qed

lemma inverse_entries:
  "transform_inverse \<lparr>matrix = [ [a, b, c, x], [d, e, f, y], [g, h, i, z], r ]\<rparr>
   = Inr \<lparr>matrix = [ [a, d, g, a * - x + (d * - y + g * - z)],
                      [b, e, h, b * - x + (e * - y + h * - z)],
                      [c, f, i, c * - x + (f * - y + i * - z)],
                      [0, 0, 0, 1] ]\<rparr>"
  by (simp add: transform_inverse_def matrix_multiply_def Transform_def upt_rec)

lemma mul44:
  "transform_mul \<lparr>matrix = [ [a11, a12, a13, a14], [a21, a22, a23, a24], [a31, a32, a33, a34], [a41, a42, a43, a44] ]\<rparr>
                 \<lparr>matrix = [ [b11, b12, b13, b14], [b21, b22, b23, b24], [b31, b32, b33, b34], [b41, b42, b43, b44] ]\<rparr>
   = Inr \<lparr>matrix = [ [a11 * b11 + a12 * b21 + a13 * b31 + a14 * b41, a11 * b12 + a12 * b22 + a13 * b32 + a14 * b42, a11 * b13 + a12 * b23 + a13 * b33 + a14 * b43, a11 * b14 + a12 * b24 + a13 * b34 + a14 * b44], [a21 * b11 + a22 * b21 + a23 * b31 + a24 * b41, a21 * b12 + a22 * b22 + a23 * b32 + a24 * b42, a21 * b13 + a22 * b23 + a23 * b33 + a24 * b43, a21 * b14 + a22 * b24 + a23 * b34 + a24 * b44], [a31 * b11 + a32 * b21 + a33 * b31 + a34 * b41, a31 * b12 + a32 * b22 + a33 * b32 + a34 * b42, a31 * b13 + a32 * b23 + a33 * b33 + a34 * b43, a31 * b14 + a32 * b24 + a33 * b34 + a34 * b44], [a41 * b11 + a42 * b21 + a43 * b31 + a44 * b41, a41 * b12 + a42 * b22 + a43 * b32 + a44 * b42, a41 * b13 + a42 * b23 + a43 * b33 + a44 * b43, a41 * b14 + a42 * b24 + a43 * b34 + a44 * b44] ]\<rparr>"
  by (simp add: transform_mul_def matrix_multiply_def Transform_def upt_rec add.assoc)

lemma orth_within_entries:
  "orthonormal_within tol (rotation_block \<lparr>matrix = [ [a, b, c, x], [d, e, f, y], [g, h, i, z], r ]\<rparr>) \<longleftrightarrow>
     (\<bar>a*a + d*d + g*g - 1\<bar> \<le> tol \<and> \<bar>a*b + d*e + g*h\<bar> \<le> tol \<and> \<bar>a*c + d*f + g*i\<bar> \<le> tol
    \<and> \<bar>b*a + e*d + h*g\<bar> \<le> tol \<and> \<bar>b*b + e*e + h*h - 1\<bar> \<le> tol \<and> \<bar>b*c + e*f + h*i\<bar> \<le> tol
    \<and> \<bar>c*a + f*d + i*g\<bar> \<le> tol \<and> \<bar>c*b + f*e + i*h\<bar> \<le> tol \<and> \<bar>c*c + f*f + i*i - 1\<bar> \<le> tol)
   \<and> (\<bar>a*a + b*b + c*c - 1\<bar> \<le> tol \<and> \<bar>a*d + b*e + c*f\<bar> \<le> tol \<and> \<bar>a*g + b*h + c*i\<bar> \<le> tol
    \<and> \<bar>d*a + e*b + f*c\<bar> \<le> tol \<and> \<bar>d*d + e*e + f*f - 1\<bar> \<le> tol \<and> \<bar>d*g + e*h + f*i\<bar> \<le> tol
    \<and> \<bar>g*a + h*b + i*c\<bar> \<le> tol \<and> \<bar>g*d + h*e + i*f\<bar> \<le> tol \<and> \<bar>g*g + h*h + i*i - 1\<bar> \<le> tol)"
  by (simp add: orthonormal_within_def entries_within_def rotation_block_def transpose3_def
      matrix_multiply_def identity3_def upt_rec add.assoc)

lemma translation_within_entries:
  "translation_within bound \<lparr>matrix = [ [a, b, c, x], [d, e, f, y], [g, h, i, z], r ]\<rparr> \<longleftrightarrow>
     \<bar>x\<bar> \<le> bound \<and> \<bar>y\<bar> \<le> bound \<and> \<bar>z\<bar> \<le> bound"
  by (simp add: translation_within_def get_translation_def upt_rec)

lemma isclose_abs: "\<bar>a - b\<bar> \<le> tol \<Longrightarrow> isclose a b tol"
  by (simp add: isclose_def max_def)

lemma eq44:
  "transform_eq \<lparr>matrix = identity_matrix\<rparr>
     \<lparr>matrix = [ [p00, p01, p02, p03], [p10, p11, p12, p13], [p20, p21, p22, p23], [p30, p31, p32, p33] ]\<rparr>
   = Inr (isclose 1 p00 (1 / 10 ^ 6) \<and> isclose 0 p01 (1 / 10 ^ 6) \<and> isclose 0 p02 (1 / 10 ^ 6) \<and> isclose 0 p03 (1 / 10 ^ 6)
        \<and> isclose 0 p10 (1 / 10 ^ 6) \<and> isclose 1 p11 (1 / 10 ^ 6) \<and> isclose 0 p12 (1 / 10 ^ 6) \<and> isclose 0 p13 (1 / 10 ^ 6)
        \<and> isclose 0 p20 (1 / 10 ^ 6) \<and> isclose 0 p21 (1 / 10 ^ 6) \<and> isclose 1 p22 (1 / 10 ^ 6) \<and> isclose 0 p23 (1 / 10 ^ 6)
        \<and> isclose 0 p30 (1 / 10 ^ 6) \<and> isclose 0 p31 (1 / 10 ^ 6) \<and> isclose 0 p32 (1 / 10 ^ 6) \<and> isclose 1 p33 (1 / 10 ^ 6))"
  by (simp add: transform_eq_def identity_matrix_def upt_rec)

lemma defect_bound:
  fixes x y z p q r tol bound :: real
  assumes "\<bar>p - 1\<bar> \<le> tol" "\<bar>q\<bar> \<le> tol" "\<bar>r\<bar> \<le> tol"
    and "\<bar>x\<bar> \<le> bound" "\<bar>y\<bar> \<le> bound" "\<bar>z\<bar> \<le> bound"
  shows "\<bar>x * (1 - p) - y * q - z * r\<bar> \<le> 3 * (bound * tol)"
proof -
  have t0: "0 \<le> tol" using assms(2) by linarith
  have b0: "0 \<le> bound" using assms(4) by linarith
  have p': "\<bar>1 - p\<bar> \<le> tol" using assms(1) by linarith
  have 1: "\<bar>x * (1 - p)\<bar> \<le> bound * tol"
    unfolding abs_mult by (rule mult_mono[OF assms(4) p' b0]) simp
  have 2: "\<bar>y * q\<bar> \<le> bound * tol"
    unfolding abs_mult by (rule mult_mono[OF assms(5) assms(2) b0]) simp
  have 3: "\<bar>z * r\<bar> \<le> bound * tol"
    unfolding abs_mult by (rule mult_mono[OF assms(6) assms(3) b0]) simp
  have "\<bar>x * (1 - p) - y * q - z * r\<bar> \<le> \<bar>x * (1 - p) - y * q\<bar> + \<bar>z * r\<bar>"
    by (rule abs_triangle_ineq4)
  also have "\<dots> \<le> (\<bar>x * (1 - p)\<bar> + \<bar>y * q\<bar>) + \<bar>z * r\<bar>"
    by (rule add_right_mono) (rule abs_triangle_ineq4)
  also have "\<dots> \<le> 3 * (bound * tol)" using 1 2 3 by linarith
  finally show ?thesis .
qed



lemma isclose_one:
  fixes p k :: real
  assumes "\<bar>p - 1\<bar> \<le> 1 / 10 ^ 12"
  shows "isclose 1 (p + k * 0) (1 / 10 ^ 6)"
proof (rule isclose_abs)
  have "\<bar>1 - (p + k * 0)\<bar> = \<bar>p - 1\<bar>" by (simp add: abs_minus_commute)
  also have "\<dots> \<le> 1 / 10 ^ 12" by (rule assms)
  also have "\<dots> \<le> (1 / 10 ^ 6 :: real)" by simp
  finally show "\<bar>1 - (p + k * 0)\<bar> \<le> 1 / 10 ^ 6" .
qed

lemma isclose_zero:
  fixes p k :: real
  assumes "\<bar>p\<bar> \<le> 1 / 10 ^ 12"
  shows "isclose 0 (p + k * 0) (1 / 10 ^ 6)"
proof (rule isclose_abs)
  have "\<bar>0 - (p + k * 0)\<bar> = \<bar>p\<bar>" by simp
  also have "\<dots> \<le> 1 / 10 ^ 12" by (rule assms)
  also have "\<dots> \<le> (1 / 10 ^ 6 :: real)" by simp
  finally show "\<bar>0 - (p + k * 0)\<bar> \<le> 1 / 10 ^ 6" .
qed

lemma isclose_zero_abs:
  fixes p :: real
  assumes "\<bar>p\<bar> \<le> 1 / 10 ^ 6"
  shows "isclose 0 p (1 / 10 ^ 6)"
proof (rule isclose_abs)
  have "\<bar>0 - p\<bar> = \<bar>p\<bar>" by simp
  also have "\<dots> \<le> 1 / 10 ^ 6" by (rule assms)
  finally show "\<bar>0 - p\<bar> \<le> 1 / 10 ^ 6" .
qed

lemma isclose_last_row:
  "isclose 0 (0 * a + 0 * b + 0 * c + 1 * 0) (1 / 10 ^ 6)"
  "isclose 1 (0 * a + 0 * b + 0 * c + 1 * 1) (1 / 10 ^ 6)"
  by (simp_all add: isclose_def)

lemma isclose_exact_zero: "p = 0 \<Longrightarrow> isclose 0 p (1 / 10 ^ 6)"
  by (simp add: isclose_def)

text \<open>
  Claim C1, as amended. For every Transform \<open>T\<close> that is a homogeneous 4x4 matrix whose
  rotation block is orthonormal with determinant \<open>+1\<close> to within \<open>1e-12\<close>, and whose
  translation components are at most \<open>1e5\<close> in absolute value, \<open>T.inverse()\<close> returns,
  and both \<open>T * T.inverse()\<close> and \<open>T.inverse() * T\<close> are equal to the identity Transform
  under the comparison \<open>__eq__\<close> with its absolute tolerance \<open>1e-6\<close>: \<open>inverse()\<close>, the
  transpose of the rotation block with the translation \<open>-R\<^sup>T t\<close>, agrees with the matrix
  inverse to that tolerance on these transforms.
\<close>

theorem inverse_law_within_tolerance:
  assumes rig: "rigid_within (1 / 10 ^ 12) T"
    and tr: "translation_within (10 ^ 5) T"
  shows "\<exists>Ti P Q. transform_inverse T = Inr Ti
           \<and> transform_mul T Ti = Inr P \<and> transform_mul Ti T = Inr Q
           \<and> transform_eq \<lparr>matrix = identity_matrix\<rparr> P = Inr True
           \<and> transform_eq \<lparr>matrix = identity_matrix\<rparr> Q = Inr True"
proof -
  from rig have hom: "homogeneous T" by (simp add: rigid_within_def)
  from homogeneous_entries[OF hom] obtain a b c x d e f y g h i z where
    T: "T = \<lparr>matrix = [ [a, b, c, x], [d, e, f, y], [g, h, i, z], [0, 0, 0, 1] ]\<rparr>"
    by (elim exE)
  let ?tol = "1 / 10 ^ 12 :: real"
  from rig have o: "orthonormal_within ?tol (rotation_block T)" by (simp add: rigid_within_def)
  from o have cols: "\<bar>a*a + d*d + g*g - 1\<bar> \<le> ?tol" "\<bar>a*b + d*e + g*h\<bar> \<le> ?tol"
    "\<bar>a*c + d*f + g*i\<bar> \<le> ?tol" "\<bar>b*a + e*d + h*g\<bar> \<le> ?tol" "\<bar>b*b + e*e + h*h - 1\<bar> \<le> ?tol"
    "\<bar>b*c + e*f + h*i\<bar> \<le> ?tol" "\<bar>c*a + f*d + i*g\<bar> \<le> ?tol" "\<bar>c*b + f*e + i*h\<bar> \<le> ?tol"
    "\<bar>c*c + f*f + i*i - 1\<bar> \<le> ?tol"
    unfolding T orth_within_entries by blast+
  from o have rows: "\<bar>a*a + b*b + c*c - 1\<bar> \<le> ?tol" "\<bar>a*d + b*e + c*f\<bar> \<le> ?tol"
    "\<bar>a*g + b*h + c*i\<bar> \<le> ?tol" "\<bar>d*a + e*b + f*c\<bar> \<le> ?tol" "\<bar>d*d + e*e + f*f - 1\<bar> \<le> ?tol"
    "\<bar>d*g + e*h + f*i\<bar> \<le> ?tol" "\<bar>g*a + h*b + i*c\<bar> \<le> ?tol" "\<bar>g*d + h*e + i*f\<bar> \<le> ?tol"
    "\<bar>g*g + h*h + i*i - 1\<bar> \<le> ?tol"
    unfolding T orth_within_entries by blast+
  from tr have xyz: "\<bar>x\<bar> \<le> 10 ^ 5" "\<bar>y\<bar> \<le> 10 ^ 5" "\<bar>z\<bar> \<le> 10 ^ 5"
    unfolding T translation_within_entries by blast+
  define u where "u = a * - x + (d * - y + g * - z)"
  define v where "v = b * - x + (e * - y + h * - z)"
  define w where "w = c * - x + (f * - y + i * - z)"
  define Ti where "Ti = \<lparr>matrix = [ [a, d, g, u], [b, e, h, v], [c, f, i, w], [0, 0, 0, 1] ]\<rparr>"
  have inv: "transform_inverse T = Inr Ti"
    unfolding T Ti_def u_def v_def w_def by (rule inverse_entries)
  have tx: "a * u + b * v + c * w + x * 1
         = x * (1 - (a*a + b*b + c*c)) - y * (a*d + b*e + c*f) - z * (a*g + b*h + c*i)"
    unfolding u_def v_def w_def by (simp add: algebra_simps)
  have ty: "d * u + e * v + f * w + y * 1
         = y * (1 - (d*d + e*e + f*f)) - x * (d*a + e*b + f*c) - z * (d*g + e*h + f*i)"
    unfolding u_def v_def w_def by (simp add: algebra_simps)
  have tz: "g * u + h * v + i * w + z * 1
         = z * (1 - (g*g + h*h + i*i)) - x * (g*a + h*b + i*c) - y * (g*d + h*e + i*f)"
    unfolding u_def v_def w_def by (simp add: algebra_simps)
  have small: "3 * (10 ^ 5 * ?tol) \<le> (1 / 10 ^ 6 :: real)" by simp
  have p03: "\<bar>a * u + b * v + c * w + x * 1\<bar> \<le> 1 / 10 ^ 6"
    unfolding tx using defect_bound[OF rows(1) rows(2) rows(3) xyz(1) xyz(2) xyz(3)] small
    by (rule order_trans)
  have p13: "\<bar>d * u + e * v + f * w + y * 1\<bar> \<le> 1 / 10 ^ 6"
    unfolding ty using defect_bound[OF rows(5) rows(4) rows(6) xyz(2) xyz(1) xyz(3)] small
    by (rule order_trans)
  have p23: "\<bar>g * u + h * v + i * w + z * 1\<bar> \<le> 1 / 10 ^ 6"
    unfolding tz using defect_bound[OF rows(9) rows(7) rows(8) xyz(3) xyz(1) xyz(2)] small
    by (rule order_trans)
  have q03: "a * x + d * y + g * z + u * 1 = 0" "b * x + e * y + h * z + v * 1 = 0"
    "c * x + f * y + i * z + w * 1 = 0"
    unfolding u_def v_def w_def by simp_all
  let ?P = "\<lparr>matrix = [ [a * a + b * b + c * c + x * 0, a * d + b * e + c * f + x * 0, a * g + b * h + c * i + x * 0, a * u + b * v + c * w + x * 1],
                  [d * a + e * b + f * c + y * 0, d * d + e * e + f * f + y * 0, d * g + e * h + f * i + y * 0, d * u + e * v + f * w + y * 1],
                  [g * a + h * b + i * c + z * 0, g * d + h * e + i * f + z * 0, g * g + h * h + i * i + z * 0, g * u + h * v + i * w + z * 1],
                  [0 * a + 0 * b + 0 * c + 1 * 0, 0 * d + 0 * e + 0 * f + 1 * 0, 0 * g + 0 * h + 0 * i + 1 * 0, 0 * u + 0 * v + 0 * w + 1 * 1] ]\<rparr>"
  let ?Q = "\<lparr>matrix = [ [a * a + d * d + g * g + u * 0, a * b + d * e + g * h + u * 0, a * c + d * f + g * i + u * 0, a * x + d * y + g * z + u * 1],
                  [b * a + e * d + h * g + v * 0, b * b + e * e + h * h + v * 0, b * c + e * f + h * i + v * 0, b * x + e * y + h * z + v * 1],
                  [c * a + f * d + i * g + w * 0, c * b + f * e + i * h + w * 0, c * c + f * f + i * i + w * 0, c * x + f * y + i * z + w * 1],
                  [0 * a + 0 * d + 0 * g + 1 * 0, 0 * b + 0 * e + 0 * h + 1 * 0, 0 * c + 0 * f + 0 * i + 1 * 0, 0 * x + 0 * y + 0 * z + 1 * 1] ]\<rparr>"
  have mP: "transform_mul T Ti = Inr ?P"
    unfolding T Ti_def by (rule mul44)
  have mQ: "transform_mul Ti T = Inr ?Q"
    unfolding T Ti_def by (rule mul44)
  have P: "transform_eq \<lparr>matrix = identity_matrix\<rparr> ?P = Inr True"
    unfolding eq44
    by (simp only: isclose_one[OF rows(1)] isclose_zero[OF rows(2)] isclose_zero[OF rows(3)]
        isclose_zero_abs[OF p03] isclose_zero[OF rows(4)] isclose_one[OF rows(5)]
        isclose_zero[OF rows(6)] isclose_zero_abs[OF p13] isclose_zero[OF rows(7)]
        isclose_zero[OF rows(8)] isclose_one[OF rows(9)] isclose_zero_abs[OF p23]
        isclose_last_row simp_thms)
  have Q: "transform_eq \<lparr>matrix = identity_matrix\<rparr> ?Q = Inr True"
    unfolding eq44
    by (simp only: isclose_one[OF cols(1)] isclose_zero[OF cols(2)] isclose_zero[OF cols(3)]
        isclose_exact_zero[OF q03(1)] isclose_zero[OF cols(4)] isclose_one[OF cols(5)]
        isclose_zero[OF cols(6)] isclose_exact_zero[OF q03(2)] isclose_zero[OF cols(7)]
        isclose_zero[OF cols(8)] isclose_one[OF cols(9)] isclose_exact_zero[OF q03(3)]
        isclose_last_row simp_thms)
  from inv mP mQ P Q show ?thesis by blast
qed


lemma far_transform_inverse:
  "transform_inverse far_transform
     = Inr \<lparr>matrix = [ [1, - (1 / 2 ^ 20), 0, - (2 ^ 21)],
                        [1 / 2 ^ 20, 1, 0, - 2],
                        [0, 0, 1, 0],
                        [0, 0, 0, 1] ]\<rparr>"
  unfolding far_transform_def inverse_entries by simp

lemma far_transform_product:
  "transform_mul far_transform
       \<lparr>matrix = [ [1, - (1 / 2 ^ 20), 0, - (2 ^ 21)],
                   [1 / 2 ^ 20, 1, 0, - 2],
                   [0, 0, 1, 0],
                   [0, 0, 0, 1] ]\<rparr>
     = Inr \<lparr>matrix = [ [1 + 1 / 2 ^ 40, 0, 0, - (1 / 2 ^ 19)],
                        [0, 1 + 1 / 2 ^ 40, 0, 0],
                        [0, 0, 1, 0],
                        [0, 0, 0, 1] ]\<rparr>"
  unfolding far_transform_def mul44 by simp

text \<open>
  Claim C1, as stated, fails: the law does not hold for every Transform whose rotation
  block is orthonormal with determinant \<open>+1\<close> up to rounding, because the error of
  \<open>T * T.inverse()\<close> in the translation column grows with the translation. The rotation
  block of \<open>far_transform\<close> is orthonormal with determinant \<open>+1\<close> to within \<open>1e-12\<close>, its
  translation is \<open>2097152\<close> along x, and the product has \<open>-1.9e-6\<close> where the identity has
  \<open>0\<close>, so that \<open>__eq__\<close> answers \<open>False\<close>.
\<close>

theorem inverse_law_counterexample:
  "rigid_within (1 / 10 ^ 12) far_transform
   \<and> transform_inverse far_transform
       = Inr \<lparr>matrix = [ [1, - (1 / 2 ^ 20), 0, - (2 ^ 21)],
                          [1 / 2 ^ 20, 1, 0, - 2],
                          [0, 0, 1, 0],
                          [0, 0, 0, 1] ]\<rparr>
   \<and> bind_err (transform_inverse far_transform) (transform_mul far_transform)
       = Inr \<lparr>matrix = [ [1 + 1 / 2 ^ 40, 0, 0, - (1 / 2 ^ 19)],
                          [0, 1 + 1 / 2 ^ 40, 0, 0],
                          [0, 0, 1, 0],
                          [0, 0, 0, 1] ]\<rparr>
   \<and> bind_err (bind_err (transform_inverse far_transform) (transform_mul far_transform))
        (transform_eq \<lparr>matrix = identity_matrix\<rparr>)
       = Inr False"
proof -
  have r: "rigid_within (1 / 10 ^ 12) far_transform"
    unfolding rigid_within_def far_transform_def orth_within_entries
    by (simp add: homogeneous_def det3_def rotation_block_def)
  have e: "transform_eq \<lparr>matrix = identity_matrix\<rparr>
             \<lparr>matrix = [ [1 + 1 / 2 ^ 40, 0, 0, - (1 / 2 ^ 19)],
                          [0, 1 + 1 / 2 ^ 40, 0, 0],
                          [0, 0, 1, 0],
                          [0, 0, 0, 1] ]\<rparr> = Inr False"
    unfolding eq44 by (simp add: isclose_def)
  show ?thesis
    unfolding far_transform_inverse bind_err_simps far_transform_product e
    using r by simp
qed

text \<open>
  The law at \<open>near_transform\<close>, whose rotation block is orthonormal to within \<open>1e-12\<close> and
  not exactly.
\<close>

theorem inverse_law_within_tolerance_witness:
  "rigid_within (1 / 10 ^ 12) near_transform \<and> translation_within (10 ^ 5) near_transform
   \<and> \<not> orthonormal (rotation_block near_transform)
   \<and> (\<exists>Ti P Q. transform_inverse near_transform = Inr Ti
           \<and> transform_mul near_transform Ti = Inr P \<and> transform_mul Ti near_transform = Inr Q
           \<and> transform_eq \<lparr>matrix = identity_matrix\<rparr> P = Inr True
           \<and> transform_eq \<lparr>matrix = identity_matrix\<rparr> Q = Inr True)"
proof -
  have r: "rigid_within (1 / 10 ^ 12) near_transform"
    unfolding rigid_within_def near_transform_def orth_within_entries
    by (simp add: homogeneous_def det3_def rotation_block_def)
  have t: "translation_within (10 ^ 5) near_transform"
    unfolding near_transform_def translation_within_entries by simp
  have n: "\<not> orthonormal (rotation_block near_transform)"
    by (simp add: near_transform_def orthonormal_def rotation_block_def transpose3_def
        matrix_multiply_def identity3_def upt_rec)
  from r t n inverse_law_within_tolerance[OF r t] show ?thesis by blast
qed

section \<open>Roll-pitch-yaw extraction\<close>


lemma list3_plus: "3 \<le> length xs \<Longrightarrow> \<exists>a b c rest. xs = a # b # c # rest"
  by (cases xs; cases "tl xs"; cases "tl (tl xs)") auto

lemma rotation_block_entries:
  assumes "has_rotation_block T"
  shows "\<exists>a b c x d e f y g h i z rest.
     matrix T = (a # b # c # x) # (d # e # f # y) # (g # h # i # z) # rest"
proof -
  from assms obtain r0 r1 r2 rest where m: "matrix T = r0 # r1 # r2 # rest"
    unfolding has_rotation_block_def using list3_plus by blast
  from assms m have l: "3 \<le> length r0" "3 \<le> length r1" "3 \<le> length r2"
    unfolding has_rotation_block_def by simp_all
  from list3_plus[OF l(1)] obtain a b c x where r0: "r0 = a # b # c # x" by (elim exE)
  from list3_plus[OF l(2)] obtain d e f y where r1: "r1 = d # e # f # y" by (elim exE)
  from list3_plus[OF l(3)] obtain g h i z where r2: "r2 = g # h # i # z" by (elim exE)
  from m r0 r1 r2 show ?thesis by blast
qed

lemma get_rotation_rpy_spec:
  assumes "has_rotation_block T"
  shows "get_rotation_rpy T =
      (if sqrt ((cell T 0 0)\<^sup>2 + (cell T 1 0)\<^sup>2) < 1 / 10 ^ 6
          \<and> \<not> (- 1 \<le> cell T 2 0 \<and> cell T 2 0 \<le> 1)
       then Inl ValueError else Inr (spec_rpy (cell T)))"
proof -
  from rotation_block_entries[OF assms] obtain a b c x d e f y g h i z rest where
    m: "matrix T = (a # b # c # x) # (d # e # f # y) # (g # h # i # z) # rest"
    by (elim exE)
  show ?thesis
    by (simp add: get_rotation_rpy_def spec_rpy_def cell_def m py_asin_def Let_def not_le)
qed

lemma matrix3d_to_rpy_cases:
  "matrix3d_to_rpy M =
      (if 1 / 10 ^ 6 \<le> sqrt ((getCell M 0 0)\<^sup>2 + (getCell M 1 0)\<^sup>2)
       then spec_rpy (getCell M)
       else [py_atan2 (- getCell M 1 2) (getCell M 1 1),
             py_atan2 (- getCell M 2 0) (sqrt ((getCell M 0 0)\<^sup>2 + (getCell M 1 0)\<^sup>2)),
             0])"
  by (simp add: matrix3d_to_rpy_def spec_rpy_def Let_def upt_rec not_less numeral_2_eq_2)

lemma near_singular_sp: "0 < sqrt (1 - (1 / 2000000)\<^sup>2)" "sqrt (1 - (1 / 2000000)\<^sup>2) < (1::real)"
  by (simp_all add: power2_eq_square)

lemma near_singular_is_rotation:
  "orthonormal (map (\<lambda>i. map (near_singular_cells i) [0..<3]) [0..<3])
   \<and> det3 (map (\<lambda>i. map (near_singular_cells i) [0..<3]) [0..<3]) = 1"
proof -
  define sp :: real where "sp = sqrt (1 - (1 / 2000000)\<^sup>2)"
  have sq: "sp * sp = 1 - (1 / 2000000)\<^sup>2"
    unfolding sp_def by (simp add: power2_eq_square)
  have m: "map (\<lambda>i. map (near_singular_cells i) [0..<3]) [0..<3]
      = [ [1 / 2000000, sp * (4 / 5), sp * (3 / 5)],
          [0, 3 / 5, - (4 / 5)],
          [- sp, 1 / 2000000 * (4 / 5), 1 / 2000000 * (3 / 5)] ]"
    by (simp add: near_singular_cells_def Let_def upt_rec sp_def)
  have o: "orthonormal [ [1 / 2000000, sp * (4 / 5), sp * (3 / 5)],
          [0, 3 / 5, - (4 / 5)],
          [- sp, 1 / 2000000 * (4 / 5), 1 / 2000000 * (3 / 5)] ]"
    using sq by (simp add: orthonormal_def transpose3_def matrix_multiply_def identity3_def upt_rec
       power2_eq_square algebra_simps)
  have d: "det3 [ [1 / 2000000, sp * (4 / 5), sp * (3 / 5)],
          [0, 3 / 5, - (4 / 5)],
          [- sp, 1 / 2000000 * (4 / 5), 1 / 2000000 * (3 / 5)] ] = 1"
    using sq by (simp add: det3_def power2_eq_square algebra_simps)
  from o d show ?thesis unfolding m by blast
qed

text \<open>
  Claim C3, as amended. \<open>Transform.get_rotation_rpy\<close> uses the two-branch convention of
  the specification on the entries of its matrix (and raises a math domain error when
  \<open>s < 1e-6\<close> and \<open>R20\<close> is outside \<open>[-1, 1]\<close>). The builder's \<open>matrix3d_to_rpy\<close> uses the
  same regular branch, but for \<open>s < 1e-6\<close> it returns \<open>roll = atan2(-R12, R11)\<close>,
  \<open>pitch = atan2(-R20, s)\<close> and \<open>yaw = 0\<close>.
\<close>

theorem rpy_extraction_conventions:
  assumes "has_rotation_block T"
  shows "get_rotation_rpy T =
           (if sqrt ((cell T 0 0)\<^sup>2 + (cell T 1 0)\<^sup>2) < 1 / 10 ^ 6
               \<and> \<not> (- 1 \<le> cell T 2 0 \<and> cell T 2 0 \<le> 1)
            then Inl ValueError else Inr (spec_rpy (cell T)))
       \<and> matrix3d_to_rpy M =
           (if 1 / 10 ^ 6 \<le> sqrt ((getCell M 0 0)\<^sup>2 + (getCell M 1 0)\<^sup>2)
            then spec_rpy (getCell M)
            else [py_atan2 (- getCell M 1 2) (getCell M 1 1),
                  py_atan2 (- getCell M 2 0) (sqrt ((getCell M 0 0)\<^sup>2 + (getCell M 1 0)\<^sup>2)),
                  0])"
  using get_rotation_rpy_spec[OF assms] matrix3d_to_rpy_cases[of M] by (rule conjI)

text \<open>Both extractions at the identity: no rotation.\<close>

theorem rpy_extraction_conventions_witness:
  "has_rotation_block \<lparr>matrix = identity_matrix\<rparr>
   \<and> get_rotation_rpy \<lparr>matrix = identity_matrix\<rparr> = Inr [0, 0, 0]
   \<and> matrix3d_to_rpy \<lparr>getCell = (\<lambda>i j. if i = j then 1 else 0), translation_asArray = [0, 0, 0]\<rparr>
       = [0, 0, 0]"
proof -
  have h: "has_rotation_block \<lparr>matrix = identity_matrix\<rparr>"
    by (simp add: has_rotation_block_def identity_matrix_def)
  have s: "spec_rpy (cell \<lparr>matrix = identity_matrix\<rparr>) = [0, 0, 0]"
    by (simp add: spec_rpy_def cell_def identity_matrix_def py_atan2_def)
  have s': "spec_rpy (\<lambda>i j. if i = j then 1 else 0) = [0, 0, 0]"
    by (simp add: spec_rpy_def py_atan2_def)
  have c: "cell \<lparr>matrix = identity_matrix\<rparr> 0 0 = 1" "cell \<lparr>matrix = identity_matrix\<rparr> (Suc 0) 0 = 0"
    by (simp_all add: cell_def identity_matrix_def)
  from rpy_extraction_conventions[OF h,
      of "\<lparr>getCell = (\<lambda>i j. if i = j then 1 else 0), translation_asArray = [0, 0, 0]\<rparr>"]
  have "get_rotation_rpy \<lparr>matrix = identity_matrix\<rparr> = Inr [0, 0, 0]
   \<and> matrix3d_to_rpy \<lparr>getCell = (\<lambda>i j. if i = j then 1 else 0), translation_asArray = [0, 0, 0]\<rparr>
       = [0, 0, 0]"
    by (simp add: s s' c)
  with h show ?thesis by (rule conjI)
qed

text \<open>
  Claim C3, as stated, fails for \<open>matrix3d_to_rpy\<close>: on the rotation
  \<open>near_singular_cells\<close> (pitch just below a right angle, so \<open>s = 5e-7\<close>) it returns a
  roll of \<open>arctan (4/3)\<close>, whereas the convention of the specification gives
  \<open>arctan (4/3 * sin pitch)\<close>.
\<close>

theorem matrix3d_to_rpy_convention_counterexample:
  "matrix3d_to_rpy \<lparr>getCell = near_singular_cells, translation_asArray = [0, 0, 0]\<rparr>
     \<noteq> spec_rpy near_singular_cells"
proof -
  let ?sp = "sqrt (1 - (1 / 2000000)\<^sup>2) :: real"
  have c: "near_singular_cells 0 0 = 1 / 2000000" "near_singular_cells (Suc 0) 0 = 0"
    "near_singular_cells 2 0 = - ?sp" "near_singular_cells 0 (Suc 0) = ?sp * (4 / 5)"
    "near_singular_cells (Suc 0) (Suc 0) = 3 / 5" "near_singular_cells (Suc 0) 2 = - (4 / 5)"
    by (simp_all add: near_singular_cells_def Let_def)
  have s: "sqrt ((near_singular_cells 0 0)\<^sup>2 + (near_singular_cells 1 0)\<^sup>2) = 1 / 2000000"
    by (simp add: c)
  have p: "0 < arcsin ?sp"
    using near_singular_sp arcsin_less_arcsin[of 0 ?sp] by simp
  have l: "matrix3d_to_rpy \<lparr>getCell = near_singular_cells, translation_asArray = [0, 0, 0]\<rparr> ! 0
      = arctan (4 / 3)"
    by (simp add: matrix3d_to_rpy_cases s c py_atan2_def)
  have r: "spec_rpy near_singular_cells ! 0 = arctan (?sp * (4 / 3))"
    using p by (simp add: spec_rpy_def s c py_atan2_def Let_def mult.commute)
  have "arctan (?sp * (4 / 3)) \<noteq> arctan (4 / 3)"
    using near_singular_sp(2) by (simp add: arctan_eq_iff)
  with l r show ?thesis by metis
qed

section \<open>The two-argument arctangent\<close>

lemma py_atan2_range: "- pi < py_atan2 y x \<and> py_atan2 y x \<le> pi"
proof -
  have b: "- (pi / 2) < arctan (y / x)" "arctan (y / x) < pi / 2"
    by (rule arctan_lbound, rule arctan_ubound)
  have p: "0 < pi" by simp
  consider "0 < x" | "x < 0" "0 \<le> y" | "x < 0" "y < 0" | "x = 0" "0 < y" | "x = 0" "y < 0"
    | "x = 0" "y = 0" by linarith
  then show ?thesis
  proof cases
    case 1
    then have e: "py_atan2 y x = arctan (y / x)" by (simp add: py_atan2_def)
    show ?thesis unfolding e using b p by linarith
  next
    case 2
    then have e: "py_atan2 y x = arctan (y / x) + pi" by (simp add: py_atan2_def)
    from 2 have "y / x \<le> 0" by (simp add: divide_nonneg_neg)
    then have "arctan (y / x) \<le> 0" by (simp add: arctan_le_zero_iff)
    then show ?thesis unfolding e using b p by linarith
  next
    case 3
    then have e: "py_atan2 y x = arctan (y / x) - pi" by (simp add: py_atan2_def)
    from 3 have "0 < y / x" by (simp add: divide_neg_neg)
    then have "0 < arctan (y / x)" by (simp add: zero_less_arctan_iff)
    then show ?thesis unfolding e using b p by linarith
  next
    case 4
    then have e: "py_atan2 y x = pi / 2" by (simp add: py_atan2_def)
    show ?thesis unfolding e using p by linarith
  next
    case 5
    then have e: "py_atan2 y x = - (pi / 2)" by (simp add: py_atan2_def)
    show ?thesis unfolding e using p by linarith
  next
    case 6
    then have e: "py_atan2 y x = 0" by (simp add: py_atan2_def)
    show ?thesis unfolding e using p by linarith
  qed
qed

lemma sqrt_one_plus_ratio:
  fixes x y :: real
  assumes "x \<noteq> 0"
  shows "sqrt (1 + (y / x)\<^sup>2) = sqrt (x\<^sup>2 + y\<^sup>2) / \<bar>x\<bar>"
proof -
  have "1 + (y / x)\<^sup>2 = (x\<^sup>2 + y\<^sup>2) / x\<^sup>2"
    using assms by (simp add: field_simps power2_eq_square)
  then have "sqrt (1 + (y / x)\<^sup>2) = sqrt ((x\<^sup>2 + y\<^sup>2) / x\<^sup>2)" by simp
  also have "\<dots> = sqrt (x\<^sup>2 + y\<^sup>2) / sqrt (x\<^sup>2)" by (rule real_sqrt_divide)
  finally show ?thesis by simp
qed

lemma arctan_ratio_cos:
  fixes x y :: real
  assumes "x \<noteq> 0"
  shows "cos (arctan (y / x)) = \<bar>x\<bar> / sqrt (x\<^sup>2 + y\<^sup>2)"
  by (simp add: cos_arctan sqrt_one_plus_ratio[OF assms])

lemma arctan_ratio_sin:
  fixes x y :: real
  assumes "x \<noteq> 0"
  shows "sin (arctan (y / x)) = (y / x) * \<bar>x\<bar> / sqrt (x\<^sup>2 + y\<^sup>2)"
  by (simp add: sin_arctan sqrt_one_plus_ratio[OF assms])

lemma py_atan2_cos: 
  assumes "x \<noteq> 0 \<or> y \<noteq> 0"
  shows "cos (py_atan2 y x) = x / sqrt (x\<^sup>2 + y\<^sup>2)"
proof -
  consider "0 < x" | "x < 0" | "x = 0" "0 < y" | "x = 0" "y < 0" using assms by linarith
  then show ?thesis
  proof cases
    case 1
    then show ?thesis by (simp add: py_atan2_def arctan_ratio_cos)
  next
    case 2
    then show ?thesis by (simp add: py_atan2_def arctan_ratio_cos)
  next
    case 3
    then show ?thesis by (simp add: py_atan2_def)
  next
    case 4
    then show ?thesis by (simp add: py_atan2_def)
  qed
qed

lemma py_atan2_sin: 
  assumes "x \<noteq> 0 \<or> y \<noteq> 0"
  shows "sin (py_atan2 y x) = y / sqrt (x\<^sup>2 + y\<^sup>2)"
proof -
  consider "0 < x" | "x < 0" | "x = 0" "0 < y" | "x = 0" "y < 0" using assms by linarith
  then show ?thesis
  proof cases
    case 1
    then show ?thesis by (simp add: py_atan2_def arctan_ratio_sin)
  next
    case 2
    then show ?thesis by (simp add: py_atan2_def arctan_ratio_sin)
  next
    case 3
    then show ?thesis by (simp add: py_atan2_def)
  next
    case 4
    then show ?thesis by (simp add: py_atan2_def)
  qed
qed

lemma principal_angle_unique:
  assumes "- pi < a" "a \<le> pi" "- pi < b" "b \<le> pi" "sin a = sin b" "cos a = cos b"
  shows "a = b"
proof -
  from assms(5,6) obtain n :: int where n: "a = b + 2 * pi * real_of_int n"
    using sin_cos_eq_iff[of a b] by blast
  have "n = 0"
  proof (rule ccontr)
    assume "n \<noteq> 0"
    then consider "1 \<le> n" | "n \<le> - 1" by linarith
    then show False
    proof cases
      case 1
      then have "1 \<le> real_of_int n" by simp
      then have "2 * pi * 1 \<le> 2 * pi * real_of_int n"
        by (intro mult_left_mono) simp_all
      with n assms(1-4) show False by simp
    next
      case 2
      then have "real_of_int n \<le> - 1" by linarith
      then have "2 * pi * real_of_int n \<le> 2 * pi * (- 1)"
        by (intro mult_left_mono) simp_all
      with n assms(1-4) show False by simp
    qed
  qed
  with n show ?thesis by simp
qed

lemma py_atan2_polar:
  assumes "0 < r" "- pi < \<theta>" "\<theta> \<le> pi"
  shows "py_atan2 (r * sin \<theta>) (r * cos \<theta>) = \<theta>"
proof -
  have nz: "r * cos \<theta> \<noteq> 0 \<or> r * sin \<theta> \<noteq> 0"
  proof (rule ccontr)
    assume "\<not> ?thesis"
    with assms(1) have "cos \<theta> = 0" "sin \<theta> = 0" by simp_all
    then have "(sin \<theta>)\<^sup>2 + (cos \<theta>)\<^sup>2 = 0" by simp
    then show False by simp
  qed
  have "(r * cos \<theta>)\<^sup>2 + (r * sin \<theta>)\<^sup>2 = r\<^sup>2 * ((cos \<theta>)\<^sup>2 + (sin \<theta>)\<^sup>2)"
    by (simp only: power_mult_distrib distrib_left)
  also have "\<dots> = r\<^sup>2" by simp
  finally have n: "sqrt ((r * cos \<theta>)\<^sup>2 + (r * sin \<theta>)\<^sup>2) = r"
    using assms(1) by simp
  have r: "r \<noteq> 0" using assms(1) by simp
  have s: "sin (py_atan2 (r * sin \<theta>) (r * cos \<theta>)) = sin \<theta>"
    unfolding py_atan2_sin[OF nz] n using r by simp
  have c: "cos (py_atan2 (r * sin \<theta>) (r * cos \<theta>)) = cos \<theta>"
    unfolding py_atan2_cos[OF nz] n using r by simp
  have b: "- pi < py_atan2 (r * sin \<theta>) (r * cos \<theta>)"
    "py_atan2 (r * sin \<theta>) (r * cos \<theta>) \<le> pi"
    using py_atan2_range[of "r * sin \<theta>" "r * cos \<theta>"] by blast+
  from b assms(2,3) s c show ?thesis by (rule principal_angle_unique)
qed

section \<open>The roll-pitch-yaw round trip\<close>

lemma set_rotation_rpy_entries:
  assumes "matrix T = (a # b # c # x) # (d # e # f # y) # (g # h # i # z) # rest"
  shows "set_rotation_rpy T roll pitch yaw =
     Inr (T\<lparr>matrix := (rpy_matrix roll pitch yaw ! 0 @ x) # (rpy_matrix roll pitch yaw ! 1 @ y)
                       # (rpy_matrix roll pitch yaw ! 2 @ z) # rest\<rparr>)"
  by (simp add: set_rotation_rpy_def assms matrix_multiply_def upt_rec rpy_matrix_def Let_def
      algebra_simps)

lemma set_rotation_rpy_block:
  assumes "has_rotation_block T"
  shows "\<exists>T'. set_rotation_rpy T roll pitch yaw = Inr T' \<and> has_rotation_block T'
           \<and> (\<forall>i<3. \<forall>j<3. cell T' i j = rpy_matrix roll pitch yaw ! i ! j)"
proof -
  from rotation_block_entries[OF assms] obtain a b c x d e f y g h i z rest where
    m: "matrix T = (a # b # c # x) # (d # e # f # y) # (g # h # i # z) # rest"
    by (elim exE)
  let ?T' = "T\<lparr>matrix := (rpy_matrix roll pitch yaw ! 0 @ x) # (rpy_matrix roll pitch yaw ! 1 @ y)
                       # (rpy_matrix roll pitch yaw ! 2 @ z) # rest\<rparr>"
  have 1: "set_rotation_rpy T roll pitch yaw = Inr ?T'" by (rule set_rotation_rpy_entries[OF m])
  have 2: "has_rotation_block ?T'" by (simp add: has_rotation_block_def rpy_matrix_def)
  have 3: "\<forall>i<3. \<forall>j<3. cell ?T' i j = rpy_matrix roll pitch yaw ! i ! j"
    by (simp add: cell_def rpy_matrix_def less_Suc_eq numeral_3_eq_3 all_conj_distrib)
  from 1 2 3 show ?thesis by blast
qed


lemma rpy_cells:
  assumes "\<forall>i<3. \<forall>j<3. R i j = rpy_matrix roll pitch yaw ! i ! j"
  shows "R 0 0 = cos yaw * cos pitch"
    "R 0 1 = cos yaw * sin pitch * sin roll - sin yaw * cos roll"
    "R 0 2 = cos yaw * sin pitch * cos roll + sin yaw * sin roll"
    "R 1 0 = sin yaw * cos pitch"
    "R 1 1 = sin yaw * sin pitch * sin roll + cos yaw * cos roll"
    "R 1 2 = sin yaw * sin pitch * cos roll - cos yaw * sin roll"
    "R 2 0 = - sin pitch"
    "R 2 1 = cos pitch * sin roll"
    "R 2 2 = cos pitch * cos roll"
  using assms by (simp_all add: rpy_matrix_def)

lemma rpy_cos_pitch:
  assumes "R 0 0 = cos yaw * cos pitch" "R 1 0 = sin yaw * cos pitch" "0 \<le> cos pitch"
  shows "sqrt ((R 0 0)\<^sup>2 + (R 1 0)\<^sup>2) = cos pitch"
proof -
  have "(R 0 0)\<^sup>2 + (R 1 0)\<^sup>2 = (cos pitch)\<^sup>2 * ((cos yaw)\<^sup>2 + (sin yaw)\<^sup>2)"
    unfolding assms(1,2) by (simp only: power_mult_distrib distrib_left mult.commute)
  also have "\<dots> = (cos pitch)\<^sup>2" by simp
  finally show ?thesis using assms(3) by simp
qed

lemma cos_pitch_nonneg: "- (pi / 2) \<le> pitch \<Longrightarrow> pitch \<le> pi / 2 \<Longrightarrow> 0 \<le> cos pitch"
  by (rule cos_ge_zero)

lemma spec_rpy_regular:
  assumes R: "\<forall>i<3. \<forall>j<3. R i j = rpy_matrix roll pitch yaw ! i ! j"
    and "- pi < roll" "roll \<le> pi" "- (pi / 2) \<le> pitch" "pitch \<le> pi / 2"
        "- pi < yaw" "yaw \<le> pi"
    and reg: "1 / 10 ^ 6 \<le> cos pitch"
  shows "spec_rpy R = [roll, pitch, yaw]"
proof -
  note c = rpy_cells[OF R]
  have cp: "0 < cos pitch" using reg by (simp add: field_simps) 
  have s: "sqrt ((R 0 0)\<^sup>2 + (R 1 0)\<^sup>2) = cos pitch"
    using c(1) c(4) cp by (intro rpy_cos_pitch) simp_all
  have p: "0 < pi" by simp
  have "py_atan2 (1 * sin pitch) (1 * cos pitch) = pitch"
    using assms(4,5) p by (intro py_atan2_polar) linarith+
  then have pitch: "py_atan2 (- R 2 0) (cos pitch) = pitch" unfolding c by simp
  have "py_atan2 (cos pitch * sin yaw) (cos pitch * cos yaw) = yaw"
    using cp assms(6,7) by (rule py_atan2_polar)
  then have yaw: "py_atan2 (R 1 0) (R 0 0) = yaw" unfolding c by (simp only: mult.commute)
  have "py_atan2 (cos pitch * sin roll) (cos pitch * cos roll) = roll"
    using cp assms(2,3) by (rule py_atan2_polar)
  then have roll: "py_atan2 (R 2 1) (R 2 2) = roll" unfolding c .
  show ?thesis
    unfolding spec_rpy_def Let_def s pitch yaw roll using reg by simp
qed


lemma shrink_bounds:
  fixes A n q :: real
  assumes "0 < q" "q \<le> n" "n \<le> 1" "\<bar>A\<bar> \<le> n"
  shows "\<bar>A * q / n - A\<bar> \<le> 1 - q" "\<bar>A / n - A\<bar> \<le> 1 - q"
proof -
  have n: "0 < n" using assms(1,2) by linarith
  have "A * q / n - A = A * (q / n - 1)" by (simp add: algebra_simps)
  then have "\<bar>A * q / n - A\<bar> = \<bar>A\<bar> * \<bar>q / n - 1\<bar>" by (simp add: abs_mult)
  also have "\<bar>q / n - 1\<bar> = 1 - q / n" using assms(2) n by (simp add: field_simps)
  also have "\<bar>A\<bar> * (1 - q / n) \<le> n * (1 - q / n)"
    using assms(2,4) n by (intro mult_right_mono) (simp_all add: field_simps)
  also have "n * (1 - q / n) = n - q" using n by (simp add: field_simps)
  finally show "\<bar>A * q / n - A\<bar> \<le> 1 - q" using assms(3) by linarith
  have "A / n - A = A * (1 / n - 1)" by (simp add: algebra_simps)
  then have "\<bar>A / n - A\<bar> = \<bar>A\<bar> * \<bar>1 / n - 1\<bar>" by (simp add: abs_mult)
  also have "\<bar>1 / n - 1\<bar> = 1 / n - 1" using assms(3) n by (simp add: field_simps)
  also have "\<bar>A\<bar> * (1 / n - 1) \<le> n * (1 / n - 1)"
    using assms(3,4) n by (intro mult_right_mono) (simp_all add: field_simps)
  also have "n * (1 / n - 1) = 1 - n" using n by (simp add: field_simps)
  finally show "\<bar>A / n - A\<bar> \<le> 1 - q" using assms(2) by linarith
qed

lemma signed_trig_bounds:
  fixes \<sigma> y r :: real
  assumes "\<sigma> = 1 \<or> \<sigma> = - 1"
  shows "\<bar>\<sigma> * cos y * cos r - sin y * sin r\<bar> \<le> 1"
    "\<bar>\<sigma> * sin y * cos r + cos y * sin r\<bar> \<le> 1"
proof -
  have a: "cos y * cos r - sin y * sin r = cos (y + r)" by (simp add: cos_add)
  have b: "- (cos y * cos r) - sin y * sin r = - cos (y - r)" by (simp add: cos_diff)
  have c: "sin y * cos r + cos y * sin r = sin (y + r)" by (simp add: sin_add)
  have d: "- (sin y * cos r) + cos y * sin r = sin (r - y)" by (simp add: sin_diff)
  from assms show "\<bar>\<sigma> * cos y * cos r - sin y * sin r\<bar> \<le> 1"
  proof
    assume "\<sigma> = 1" then show ?thesis using a by simp
  next
    assume "\<sigma> = - 1" then show ?thesis using b by simp
  qed
  from assms show "\<bar>\<sigma> * sin y * cos r + cos y * sin r\<bar> \<le> 1"
  proof
    assume "\<sigma> = 1" then show ?thesis using c by simp
  next
    assume "\<sigma> = - 1" then show ?thesis using d by simp
  qed
qed

lemma abs_cos_diff_le: "\<bar>c * (a - b)\<bar> \<le> 2 * c" if "0 \<le> c" "\<bar>a\<bar> \<le> 1" "\<bar>b\<bar> \<le> 1" for a b c :: real
proof -
  have "\<bar>c * (a - b)\<bar> = c * \<bar>a - b\<bar>" using that(1) by (simp add: abs_mult)
  also have "\<dots> \<le> c * 2" using that by (intro mult_left_mono) linarith+
  finally show ?thesis by simp
qed

lemma norm_identity:
  fixes cy sy sp sr cr :: real
  shows "(sy * sp * sr + cy * cr)\<^sup>2 + (cy * sp * sr - sy * cr)\<^sup>2
     = (cy\<^sup>2 + sy\<^sup>2) * (sp\<^sup>2 * sr\<^sup>2 + cr\<^sup>2)"
  by (simp add: power2_eq_square algebra_simps)

lemma gimbal_core:
  fixes roll pitch yaw roll' \<sigma> q A B :: real
  assumes A: "A = cos yaw * sin pitch * sin roll - sin yaw * cos roll"
    and B: "B = sin yaw * sin pitch * sin roll + cos yaw * cos roll"
    and sg: "\<sigma> = 1 \<or> \<sigma> = - 1" and sp: "sin pitch = \<sigma> * q" and q0: "0 < q"
    and cp0: "0 \<le> cos pitch"
    and sr': "sin roll' = \<sigma> * A / sqrt (B\<^sup>2 + A\<^sup>2)"
    and cr': "cos roll' = B / sqrt (B\<^sup>2 + A\<^sup>2)"
  shows "\<forall>i<3. \<forall>j<3. \<bar>rpy_matrix roll' pitch 0 ! i ! j - rpy_matrix roll pitch yaw ! i ! j\<bar>
           \<le> 2 * cos pitch"
proof -
  define n where "n = sqrt (B\<^sup>2 + A\<^sup>2)"
  have ss: "\<sigma> * \<sigma> = 1" using sg by auto
  have sq: "(sin pitch)\<^sup>2 = q\<^sup>2"
    unfolding sp power2_eq_square using ss by (simp add: algebra_simps)
  have q2: "q\<^sup>2 = 1 - (cos pitch)\<^sup>2"
    using sin_cos_squared_add[of pitch] sq by simp
  have cp1: "cos pitch \<le> 1" by simp
  have "q\<^sup>2 \<le> 1\<^sup>2" using q2 by simp
  then have q1: "q \<le> 1" using q0 by (simp add: power2_le_imp_le)
  have "B\<^sup>2 + A\<^sup>2 = ((cos yaw)\<^sup>2 + (sin yaw)\<^sup>2) * ((sin pitch)\<^sup>2 * (sin roll)\<^sup>2 + (cos roll)\<^sup>2)"
    unfolding A B by (rule norm_identity)
  then have n2': "B\<^sup>2 + A\<^sup>2 = q\<^sup>2 * (sin roll)\<^sup>2 + (cos roll)\<^sup>2"
    by (simp add: sq)
  have cr2: "(cos roll)\<^sup>2 = 1 - (sin roll)\<^sup>2"
    by (rule cos_squared_eq)
  have "q\<^sup>2 * (sin roll)\<^sup>2 + (cos roll)\<^sup>2 - q\<^sup>2 = (cos roll)\<^sup>2 * (1 - q\<^sup>2)"
    unfolding cr2 by (simp add: algebra_simps)
  also have "\<dots> \<ge> 0" using q2 by simp
  finally have qn2: "q\<^sup>2 \<le> B\<^sup>2 + A\<^sup>2" unfolding n2' by simp
  have "1 - (q\<^sup>2 * (sin roll)\<^sup>2 + (cos roll)\<^sup>2) = (sin roll)\<^sup>2 * (1 - q\<^sup>2)"
    unfolding cr2 by (simp add: algebra_simps)
  also have "\<dots> \<ge> 0" using q2 by simp
  finally have n21: "B\<^sup>2 + A\<^sup>2 \<le> 1" unfolding n2' by simp
  have qn: "q \<le> n"
    unfolding n_def using qn2 q0 by (simp add: real_le_rsqrt)
  have n1: "n \<le> 1"
    unfolding n_def using n21 by (simp add: real_sqrt_le_1_iff)
  have n0: "0 < n" using q0 qn by linarith
  have An: "\<bar>A\<bar> \<le> n"
    unfolding n_def by (rule real_le_rsqrt) simp
  have Bn: "\<bar>B\<bar> \<le> n"
    unfolding n_def by (rule real_le_rsqrt) simp
  have "q * q \<le> q * 1" using q0 q1 by (intro mult_left_mono) simp_all
  then have "1 - (cos pitch)\<^sup>2 \<le> q" using q2 by (simp add: power2_eq_square)
  moreover have "cos pitch * cos pitch \<le> cos pitch * 1"
    using cp0 cp1 by (intro mult_left_mono) simp_all
  ultimately have qc: "1 - q \<le> cos pitch" by (simp add: power2_eq_square)
  note sA = shrink_bounds[OF q0 qn n1 An]
  note sB = shrink_bounds[OF q0 qn n1 Bn]
  note tb = signed_trig_bounds[OF sg, of yaw roll]
  have srn: "sin roll' = \<sigma> * A / n" and crn: "cos roll' = B / n"
    using sr' cr' by (simp_all add: n_def)
  have d00: "\<bar>1 * cos pitch - cos yaw * cos pitch\<bar> \<le> 2 * cos pitch"
  proof -
    have e: "1 * cos pitch - cos yaw * cos pitch = cos pitch * (1 - cos yaw)"
      by (simp add: algebra_simps)
    show ?thesis unfolding e by (rule abs_cos_diff_le[OF cp0]) simp_all
  qed
  have d10: "\<bar>0 * cos pitch - sin yaw * cos pitch\<bar> \<le> 2 * cos pitch"
  proof -
    have e: "0 * cos pitch - sin yaw * cos pitch = cos pitch * (0 - sin yaw)"
      by (simp add: algebra_simps)
    show ?thesis unfolding e by (rule abs_cos_diff_le[OF cp0]) simp_all
  qed
  have d21: "\<bar>cos pitch * sin roll' - cos pitch * sin roll\<bar> \<le> 2 * cos pitch"
  proof -
    have e: "cos pitch * sin roll' - cos pitch * sin roll = cos pitch * (sin roll' - sin roll)"
      by (simp add: algebra_simps)
    show ?thesis unfolding e by (rule abs_cos_diff_le[OF cp0]) simp_all
  qed
  have d22: "\<bar>cos pitch * cos roll' - cos pitch * cos roll\<bar> \<le> 2 * cos pitch"
  proof -
    have e: "cos pitch * cos roll' - cos pitch * cos roll = cos pitch * (cos roll' - cos roll)"
      by (simp add: algebra_simps)
    show ?thesis unfolding e by (rule abs_cos_diff_le[OF cp0]) simp_all
  qed
  have d01: "\<bar>sin pitch * sin roll' - A\<bar> \<le> 2 * cos pitch"
  proof -
    have "sin pitch * sin roll' - A = (\<sigma> * \<sigma>) * (A * q / n) - A"
      unfolding sp srn by (simp add: algebra_simps)
    also have "\<dots> = A * q / n - A" unfolding ss by simp
    finally show ?thesis using sA(1) qc cp0 by linarith
  qed
  have d11: "\<bar>cos roll' - B\<bar> \<le> 2 * cos pitch"
    unfolding crn using sB(2) qc cp0 by linarith
  have d02: "\<bar>sin pitch * cos roll' - (cos yaw * sin pitch * cos roll + sin yaw * sin roll)\<bar>
               \<le> 2 * cos pitch"
  proof -
    define w where "w = \<sigma> * cos yaw * cos roll - sin yaw * sin roll"
    have w: "\<bar>w\<bar> \<le> 1" unfolding w_def by (rule tb(1))
    have "\<sigma> * B - (1 - q) * w = (\<sigma> * \<sigma>) * (q * sin yaw * sin roll) + sin yaw * sin roll - q * sin yaw * sin roll
             + \<sigma> * q * cos yaw * cos roll"
      unfolding B sp w_def by (simp add: algebra_simps)
    also have "\<dots> = cos yaw * sin pitch * cos roll + sin yaw * sin roll"
      unfolding ss sp by (simp add: algebra_simps)
    finally have R02: "cos yaw * sin pitch * cos roll + sin yaw * sin roll = \<sigma> * B - (1 - q) * w"
      by simp
    have e: "sin pitch * cos roll' - (\<sigma> * B - (1 - q) * w) = \<sigma> * (B * q / n - B) + (1 - q) * w"
      unfolding sp crn by (simp add: algebra_simps)
    have x: "\<bar>\<sigma> * (B * q / n - B)\<bar> = \<bar>B * q / n - B\<bar>"
      using sg by (auto simp: abs_mult)
    have "\<bar>(1 - q) * w\<bar> \<le> (1 - q) * 1"
      unfolding abs_mult using q1 w by (intro mult_mono) simp_all
    then have y: "\<bar>(1 - q) * w\<bar> \<le> 1 - q" by simp
    have "\<bar>\<sigma> * (B * q / n - B) + (1 - q) * w\<bar>
            \<le> \<bar>\<sigma> * (B * q / n - B)\<bar> + \<bar>(1 - q) * w\<bar>"
      by (rule abs_triangle_ineq)
    also have "\<dots> \<le> (1 - q) + (1 - q)" unfolding x using sB(1) y by (rule add_mono)
    finally have "\<bar>sin pitch * cos roll' - (\<sigma> * B - (1 - q) * w)\<bar> \<le> (1 - q) + (1 - q)"
      unfolding e .
    then show ?thesis unfolding R02 using qc by linarith
  qed
  have d12: "\<bar>- sin roll' - (sin yaw * sin pitch * cos roll - cos yaw * sin roll)\<bar>
               \<le> 2 * cos pitch"
  proof -
    define v where "v = \<sigma> * sin yaw * cos roll + cos yaw * sin roll"
    have v: "\<bar>v\<bar> \<le> 1" unfolding v_def by (rule tb(2))
    have "- (\<sigma> * A) - (1 - q) * v = - ((\<sigma> * \<sigma>) * (q * cos yaw * sin roll)) - cos yaw * sin roll
             + q * cos yaw * sin roll + \<sigma> * q * sin yaw * cos roll"
      unfolding A sp v_def by (simp add: algebra_simps)
    also have "\<dots> = sin yaw * sin pitch * cos roll - cos yaw * sin roll"
      unfolding ss sp by (simp add: algebra_simps)
    finally have R12: "sin yaw * sin pitch * cos roll - cos yaw * sin roll = - (\<sigma> * A) - (1 - q) * v"
      by simp
    have e: "- sin roll' - (- (\<sigma> * A) - (1 - q) * v) = - \<sigma> * (A / n - A) + (1 - q) * v"
      unfolding srn by (simp add: algebra_simps)
    have x: "\<bar>- \<sigma> * (A / n - A)\<bar> = \<bar>A / n - A\<bar>"
      using sg by (auto simp: abs_mult)
    have "\<bar>(1 - q) * v\<bar> \<le> (1 - q) * 1"
      unfolding abs_mult using q1 v by (intro mult_mono) simp_all
    then have y: "\<bar>(1 - q) * v\<bar> \<le> 1 - q" by simp
    have "\<bar>- \<sigma> * (A / n - A) + (1 - q) * v\<bar>
            \<le> \<bar>- \<sigma> * (A / n - A)\<bar> + \<bar>(1 - q) * v\<bar>"
      by (rule abs_triangle_ineq)
    also have "\<dots> \<le> (1 - q) + (1 - q)" unfolding x using sA(2) y by (rule add_mono)
    finally have "\<bar>- sin roll' - (- (\<sigma> * A) - (1 - q) * v)\<bar> \<le> (1 - q) + (1 - q)"
      unfolding e .
    then show ?thesis unfolding R12 using qc by linarith
  qed
  have d20: "\<bar>- sin pitch - - sin pitch\<bar> \<le> 2 * cos pitch" using cp0 by simp
  show ?thesis
    using d00 d01 d02 d10 d11 d12 d20 d21 d22
    by (simp add: rpy_matrix_def less_Suc_eq numeral_3_eq_3 all_conj_distrib A B)
qed


lemma gimbal_norm_nonzero:
  fixes roll pitch yaw :: real
  assumes "sin pitch \<noteq> 0"
  shows "sin yaw * sin pitch * sin roll + cos yaw * cos roll \<noteq> 0
       \<or> cos yaw * sin pitch * sin roll - sin yaw * cos roll \<noteq> 0"
proof (rule ccontr)
  assume "\<not> ?thesis"
  then have "(sin yaw * sin pitch * sin roll + cos yaw * cos roll)\<^sup>2
      + (cos yaw * sin pitch * sin roll - sin yaw * cos roll)\<^sup>2 = 0" by simp
  then have "((cos yaw)\<^sup>2 + (sin yaw)\<^sup>2) * ((sin pitch)\<^sup>2 * (sin roll)\<^sup>2 + (cos roll)\<^sup>2) = 0"
    by (simp only: norm_identity)
  then have z: "(sin pitch)\<^sup>2 * (sin roll)\<^sup>2 + (cos roll)\<^sup>2 = 0" by simp
  have "0 \<le> (sin pitch)\<^sup>2 * (sin roll)\<^sup>2" "0 \<le> (cos roll)\<^sup>2" by simp_all
  with z have "(sin pitch)\<^sup>2 * (sin roll)\<^sup>2 = 0" "(cos roll)\<^sup>2 = 0" by linarith+
  with assms have "sin roll = 0" "cos roll = 0" by simp_all
  then have "(sin roll)\<^sup>2 + (cos roll)\<^sup>2 = 0" by simp
  then show False by simp
qed

lemma spec_rpy_singular:
  assumes R: "\<forall>i<3. \<forall>j<3. R i j = rpy_matrix roll pitch yaw ! i ! j"
    and pl: "- (pi / 2) \<le> pitch" and pu: "pitch \<le> pi / 2"
    and sing: "cos pitch < 1 / 10 ^ 6"
  shows "\<exists>roll'. spec_rpy R = [roll', pitch, 0]
           \<and> (\<forall>i<3. \<forall>j<3. \<bar>rpy_matrix roll' pitch 0 ! i ! j - rpy_matrix roll pitch yaw ! i ! j\<bar>
                  \<le> 2 * cos pitch)"
proof -
  note c = rpy_cells[OF R]
  define A where "A = cos yaw * sin pitch * sin roll - sin yaw * cos roll"
  define B where "B = sin yaw * sin pitch * sin roll + cos yaw * cos roll"
  have cp0: "0 \<le> cos pitch" using pl pu by (rule cos_pitch_nonneg)
  have s: "sqrt ((R 0 0)\<^sup>2 + (R 1 0)\<^sup>2) = cos pitch"
    using c(1) c(4) cp0 by (rule rpy_cos_pitch)
  have ns: "\<not> 1 / 10 ^ 6 \<le> cos pitch" using sing by simp
  have asn: "arcsin (- R 2 0) = pitch"
    unfolding c using pl pu by (simp add: arcsin_sin)
  have p0: "pitch \<noteq> 0"
  proof
    assume "pitch = 0"
    with sing show False by simp
  qed
  have pi0: "0 < pi" by simp
  show ?thesis
  proof (cases "0 < pitch")
    case True
    then have q0: "0 < sin pitch" using pu pi0 by (intro sin_gt_zero) linarith+
    then have nz: "B \<noteq> 0 \<or> A \<noteq> 0"
      unfolding A_def B_def by (intro gimbal_norm_nonzero) simp
    have sr: "sin (py_atan2 A B) = 1 * A / sqrt (B\<^sup>2 + A\<^sup>2)"
      using py_atan2_sin[OF nz] by simp
    have cr: "cos (py_atan2 A B) = B / sqrt (B\<^sup>2 + A\<^sup>2)"
      using py_atan2_cos[OF nz] by simp
    have sp: "sin pitch = 1 * sin pitch" by simp
    have sg: "(1::real) = 1 \<or> (1::real) = - 1" by simp
    note g = gimbal_core[OF A_def B_def sg sp q0 cp0 sr cr]
    have "spec_rpy R = [py_atan2 A B, pitch, 0]"
      unfolding spec_rpy_def Let_def s asn A_def B_def c(2) c(5) using ns True by simp
    with g show ?thesis by blast
  next
    case False
    with p0 have neg: "0 < - pitch" by simp
    have "0 < sin (- pitch)" using neg pl pi0 by (intro sin_gt_zero) linarith+
    then have q0: "0 < - sin pitch" by simp
    then have "sin pitch \<noteq> 0" by simp
    then have "B \<noteq> 0 \<or> A \<noteq> 0"
      unfolding A_def B_def by (rule gimbal_norm_nonzero)
    then have nz: "B \<noteq> 0 \<or> - A \<noteq> 0" by simp
    have sr: "sin (py_atan2 (- A) B) = - 1 * A / sqrt (B\<^sup>2 + A\<^sup>2)"
      using py_atan2_sin[OF nz] by simp
    have cr: "cos (py_atan2 (- A) B) = B / sqrt (B\<^sup>2 + A\<^sup>2)"
      using py_atan2_cos[OF nz] by simp
    have sp: "sin pitch = - 1 * (- sin pitch)" by simp
    have sg: "(- 1::real) = 1 \<or> (- 1::real) = - 1" by simp
    note g = gimbal_core[OF A_def B_def sg sp q0 cp0 sr cr]
    have "spec_rpy R = [py_atan2 (- A) B, pitch, 0]"
      unfolding spec_rpy_def Let_def s asn A_def B_def c(2) c(5) using ns False by simp
    with g show ?thesis by blast
  qed
qed

lemma rpy_product:
  "bind_err (matrix_multiply (spec_Rz yaw) (spec_Ry pitch))
            (\<lambda>RzRy. matrix_multiply RzRy (spec_Rx roll))
     = Inr (rpy_matrix roll pitch yaw)"
  by (simp add: spec_Rx_def spec_Ry_def spec_Rz_def matrix_multiply_def upt_rec rpy_matrix_def
      algebra_simps)

lemma set_rotation_rpy_rotation_block:
  assumes "has_rotation_block T"
  shows "\<exists>T'. set_rotation_rpy T roll pitch yaw = Inr T' \<and> has_rotation_block T'
           \<and> rotation_block T' = rpy_matrix roll pitch yaw
           \<and> (\<forall>i<3. \<forall>j<3. cell T' i j = rpy_matrix roll pitch yaw ! i ! j)"
proof -
  from rotation_block_entries[OF assms] obtain a b c x d e f y g h i z rest where
    m: "matrix T = (a # b # c # x) # (d # e # f # y) # (g # h # i # z) # rest"
    by (elim exE)
  let ?T' = "T\<lparr>matrix := (rpy_matrix roll pitch yaw ! 0 @ x) # (rpy_matrix roll pitch yaw ! 1 @ y)
                       # (rpy_matrix roll pitch yaw ! 2 @ z) # rest\<rparr>"
  have 1: "set_rotation_rpy T roll pitch yaw = Inr ?T'" by (rule set_rotation_rpy_entries[OF m])
  have 2: "has_rotation_block ?T'" by (simp add: has_rotation_block_def rpy_matrix_def)
  have 3: "\<forall>i<3. \<forall>j<3. cell ?T' i j = rpy_matrix roll pitch yaw ! i ! j"
    by (simp add: cell_def rpy_matrix_def less_Suc_eq numeral_3_eq_3 all_conj_distrib)
  have 4: "rotation_block ?T' = rpy_matrix roll pitch yaw"
    by (simp add: rotation_block_def rpy_matrix_def)
  from 1 2 3 4 show ?thesis by blast
qed

text \<open>
  Claim C2, as amended. Let roll and yaw lie in \<open>(-\<pi>, \<pi>]\<close> and pitch in \<open>[-\<pi>/2, \<pi>/2]\<close>.
  \<open>set_rotation_rpy\<close> makes the rotation block the product \<open>Rz(yaw) Ry(pitch) Rx(roll)\<close>. If
  after it \<open>cos_pitch = sqrt (R00\<^sup>2 + R10\<^sup>2)\<close> is at least \<open>1e-6\<close>, \<open>get_rotation_rpy\<close> returns
  the same triple to within \<open>1e-6\<close> per angle. If \<open>cos_pitch\<close> is below \<open>1e-6\<close>, the extracted
  angles need not match, and \<open>set_rotation_rpy\<close> on the extracted angles reproduces every
  entry of the rotation block to within \<open>2.1e-6\<close>, not \<open>1e-6\<close>: the extraction sets yaw to
  \<open>0\<close>, which can move an entry by up to \<open>2 * cos_pitch\<close>.
\<close>

theorem rpy_round_trip:
  assumes blk: "has_rotation_block T"
    and rl: "- pi < roll" and ru: "roll \<le> pi"
    and pl: "- (pi / 2) \<le> pitch" and pu: "pitch \<le> pi / 2"
    and yl: "- pi < yaw" and yu: "yaw \<le> pi"
  shows "\<exists>T'. set_rotation_rpy T roll pitch yaw = Inr T'
           \<and> bind_err (matrix_multiply (spec_Rz yaw) (spec_Ry pitch))
                       (\<lambda>RzRy. matrix_multiply RzRy (spec_Rx roll))
               = Inr (rotation_block T')
           \<and> (1 / 10 ^ 6 \<le> sqrt ((cell T' 0 0)\<^sup>2 + (cell T' 1 0)\<^sup>2) \<longrightarrow>
                (\<exists>roll' pitch' yaw'. get_rotation_rpy T' = Inr [roll', pitch', yaw']
                   \<and> \<bar>roll' - roll\<bar> \<le> 1 / 10 ^ 6 \<and> \<bar>pitch' - pitch\<bar> \<le> 1 / 10 ^ 6
                   \<and> \<bar>yaw' - yaw\<bar> \<le> 1 / 10 ^ 6))
           \<and> (sqrt ((cell T' 0 0)\<^sup>2 + (cell T' 1 0)\<^sup>2) < 1 / 10 ^ 6 \<longrightarrow>
                (\<exists>roll' pitch' yaw' T''. get_rotation_rpy T' = Inr [roll', pitch', yaw']
                   \<and> set_rotation_rpy T' roll' pitch' yaw' = Inr T''
                   \<and> (\<forall>i<3. \<forall>j<3. \<bar>cell T'' i j - cell T' i j\<bar> \<le> 21 / 10 ^ 7)))"
proof -
  from set_rotation_rpy_rotation_block[OF blk, of roll pitch yaw] obtain T' where
    set: "set_rotation_rpy T roll pitch yaw = Inr T'" and blk': "has_rotation_block T'"
    and rb: "rotation_block T' = rpy_matrix roll pitch yaw"
    and R: "\<forall>i<3. \<forall>j<3. cell T' i j = rpy_matrix roll pitch yaw ! i ! j"
    by blast
  note c = rpy_cells[OF R]
  have prod: "bind_err (matrix_multiply (spec_Rz yaw) (spec_Ry pitch))
                       (\<lambda>RzRy. matrix_multiply RzRy (spec_Rx roll))
               = Inr (rotation_block T')"
    unfolding rb by (rule rpy_product)
  have cp0: "0 \<le> cos pitch" using pl pu by (rule cos_pitch_nonneg)
  have s: "sqrt ((cell T' 0 0)\<^sup>2 + (cell T' 1 0)\<^sup>2) = cos pitch"
    using c(1) c(4) cp0 by (rule rpy_cos_pitch)
  have r20: "- 1 \<le> cell T' 2 0 \<and> cell T' 2 0 \<le> 1" unfolding c by simp
  have get: "get_rotation_rpy T' = Inr (spec_rpy (cell T'))"
    unfolding get_rotation_rpy_spec[OF blk'] using r20 by simp
  have reg: "\<exists>roll' pitch' yaw'. get_rotation_rpy T' = Inr [roll', pitch', yaw']
                   \<and> \<bar>roll' - roll\<bar> \<le> 1 / 10 ^ 6 \<and> \<bar>pitch' - pitch\<bar> \<le> 1 / 10 ^ 6
                   \<and> \<bar>yaw' - yaw\<bar> \<le> 1 / 10 ^ 6"
    if "1 / 10 ^ 6 \<le> cos pitch"
  proof -
    have "get_rotation_rpy T' = Inr [roll, pitch, yaw]"
      unfolding get using spec_rpy_regular[OF R rl ru pl pu yl yu that] by simp
    then show ?thesis by simp
  qed
  have sing: "\<exists>roll' pitch' yaw' T''. get_rotation_rpy T' = Inr [roll', pitch', yaw']
                   \<and> set_rotation_rpy T' roll' pitch' yaw' = Inr T''
                   \<and> (\<forall>i<3. \<forall>j<3. \<bar>cell T'' i j - cell T' i j\<bar> \<le> 21 / 10 ^ 7)"
    if "cos pitch < 1 / 10 ^ 6"
  proof -
    from spec_rpy_singular[OF R pl pu that] obtain roll' where
      sp: "spec_rpy (cell T') = [roll', pitch, 0]"
      and b: "\<forall>i<3. \<forall>j<3. \<bar>rpy_matrix roll' pitch 0 ! i ! j - rpy_matrix roll pitch yaw ! i ! j\<bar>
                  \<le> 2 * cos pitch"
      by blast
    from set_rotation_rpy_block[OF blk', of roll' pitch 0] obtain T'' where
      set': "set_rotation_rpy T' roll' pitch 0 = Inr T''"
      and R': "\<forall>i<3. \<forall>j<3. cell T'' i j = rpy_matrix roll' pitch 0 ! i ! j"
      by blast
    have small: "2 * cos pitch \<le> 21 / 10 ^ 7" using that by simp
    have "\<bar>cell T'' i j - cell T' i j\<bar> \<le> 21 / 10 ^ 7" if "i < 3" "j < 3" for i j
    proof -
      from b R R' that have "\<bar>cell T'' i j - cell T' i j\<bar> \<le> 2 * cos pitch" by simp
      then show ?thesis using small by (rule order_trans)
    qed
    then have bound: "\<forall>i<3. \<forall>j<3. \<bar>cell T'' i j - cell T' i j\<bar> \<le> 21 / 10 ^ 7" by blast
    have g: "get_rotation_rpy T' = Inr [roll', pitch, 0]" unfolding get sp ..
    show ?thesis
      by (intro exI[of _ roll'] exI[of _ pitch] exI[of _ "0::real"] exI[of _ T''] conjI g set' bound)
  qed
  from set prod reg sing show ?thesis unfolding s[symmetric] by blast
qed

text \<open>
  The theorem at roll and pitch a right angle and no yaw, the gimbal-lock case, and at
  roll, pitch and yaw all an eighth of a turn.
\<close>

theorem rpy_round_trip_witness:
  "has_rotation_block \<lparr>matrix = identity_matrix\<rparr>
   \<and> - pi < pi / 2 \<and> pi / 2 \<le> pi \<and> - (pi / 2) \<le> pi / 2 \<and> pi / 2 \<le> pi / 2
   \<and> - pi < 0 \<and> 0 \<le> pi
   \<and> (\<exists>T'. set_rotation_rpy \<lparr>matrix = identity_matrix\<rparr> (pi / 2) (pi / 2) 0 = Inr T'
           \<and> bind_err (matrix_multiply (spec_Rz 0) (spec_Ry (pi / 2)))
                       (\<lambda>RzRy. matrix_multiply RzRy (spec_Rx (pi / 2)))
               = Inr (rotation_block T')
           \<and> (1 / 10 ^ 6 \<le> sqrt ((cell T' 0 0)\<^sup>2 + (cell T' 1 0)\<^sup>2) \<longrightarrow>
                (\<exists>roll' pitch' yaw'. get_rotation_rpy T' = Inr [roll', pitch', yaw']
                   \<and> \<bar>roll' - pi / 2\<bar> \<le> 1 / 10 ^ 6 \<and> \<bar>pitch' - pi / 2\<bar> \<le> 1 / 10 ^ 6
                   \<and> \<bar>yaw' - 0\<bar> \<le> 1 / 10 ^ 6))
           \<and> (sqrt ((cell T' 0 0)\<^sup>2 + (cell T' 1 0)\<^sup>2) < 1 / 10 ^ 6 \<longrightarrow>
                (\<exists>roll' pitch' yaw' T''. get_rotation_rpy T' = Inr [roll', pitch', yaw']
                   \<and> set_rotation_rpy T' roll' pitch' yaw' = Inr T''
                   \<and> (\<forall>i<3. \<forall>j<3. \<bar>cell T'' i j - cell T' i j\<bar> \<le> 21 / 10 ^ 7))))
   \<and> - pi < pi / 4 \<and> pi / 4 \<le> pi \<and> - (pi / 2) \<le> pi / 4 \<and> pi / 4 \<le> pi / 2
   \<and> (\<exists>T'. set_rotation_rpy \<lparr>matrix = identity_matrix\<rparr> (pi / 4) (pi / 4) (pi / 4) = Inr T'
           \<and> bind_err (matrix_multiply (spec_Rz (pi / 4)) (spec_Ry (pi / 4)))
                       (\<lambda>RzRy. matrix_multiply RzRy (spec_Rx (pi / 4)))
               = Inr (rotation_block T')
           \<and> (1 / 10 ^ 6 \<le> sqrt ((cell T' 0 0)\<^sup>2 + (cell T' 1 0)\<^sup>2) \<longrightarrow>
                (\<exists>roll' pitch' yaw'. get_rotation_rpy T' = Inr [roll', pitch', yaw']
                   \<and> \<bar>roll' - pi / 4\<bar> \<le> 1 / 10 ^ 6 \<and> \<bar>pitch' - pi / 4\<bar> \<le> 1 / 10 ^ 6
                   \<and> \<bar>yaw' - pi / 4\<bar> \<le> 1 / 10 ^ 6))
           \<and> (sqrt ((cell T' 0 0)\<^sup>2 + (cell T' 1 0)\<^sup>2) < 1 / 10 ^ 6 \<longrightarrow>
                (\<exists>roll' pitch' yaw' T''. get_rotation_rpy T' = Inr [roll', pitch', yaw']
                   \<and> set_rotation_rpy T' roll' pitch' yaw' = Inr T''
                   \<and> (\<forall>i<3. \<forall>j<3. \<bar>cell T'' i j - cell T' i j\<bar> \<le> 21 / 10 ^ 7))))"
proof -
  have h: "has_rotation_block \<lparr>matrix = identity_matrix\<rparr>"
    by (simp add: has_rotation_block_def identity_matrix_def)
  have r: "- pi < pi / 2" "pi / 2 \<le> pi" "- (pi / 2) \<le> pi / 2" "pi / 2 \<le> pi / 2"
    "- pi < 0" "0 \<le> pi" by simp_all
  have q: "- pi < pi / 4" "pi / 4 \<le> pi" "- (pi / 2) \<le> pi / 4" "pi / 4 \<le> pi / 2"
    by simp_all
  note a = rpy_round_trip[OF h r]
  note b = rpy_round_trip[OF h q(1) q(2) q(3) q(4) q(1) q(2)]
  show ?thesis
    by (intro conjI h r q a b)
qed

text \<open>
  Claim C2, as stated, fails inside the gimbal-lock band. With roll \<open>0\<close>, pitch
  \<open>arccos 9e-7\<close> and yaw \<open>\<pi>\<close>, \<open>cos_pitch\<close> is \<open>9e-7 < 1e-6\<close>; the extracted angles are
  \<open>(\<pi>, pitch, 0)\<close>, and the matrix rebuilt from them has \<open>R00 = 9e-7\<close> where the first has
  \<open>R00 = -9e-7\<close>: the two differ by \<open>1.8e-6\<close>, and \<open>__eq__\<close> answers \<open>False\<close>.
\<close>

theorem rpy_reapply_counterexample:
  "cos (arccos (9 / 10 ^ 7)) < 1 / 10 ^ 6
   \<and> 0 \<le> arccos (9 / 10 ^ 7) \<and> arccos (9 / 10 ^ 7) \<le> pi / 2
   \<and> rpy_reapply_equal \<lparr>matrix = identity_matrix\<rparr> 0 (arccos (9 / 10 ^ 7)) pi = Inr False"
proof -
  define p :: real where "p = arccos (9 / 10 ^ 7)"
  define sp where "sp = sin p"
  have cp: "cos p = 9 / 10 ^ 7" unfolding p_def by (rule cos_arccos) simp_all
  have pr1: "0 \<le> p" unfolding p_def by (rule arccos_lbound) simp_all
  have pr2: "p \<le> pi / 2" unfolding p_def by (rule arccos_le_pi2) simp_all
  note pr = pr1 pr2
  have p0: "0 < p"
  proof (rule ccontr)
    assume "\<not> 0 < p"
    with pr have "p = 0" by simp
    with cp show False by simp
  qed
  have spr: "- 1 \<le> sp" "sp \<le> 1" unfolding sp_def by simp_all
  have asn: "arcsin sp = p" unfolding sp_def using pr by (simp add: arcsin_sin)
  let ?T1 = "\<lparr>matrix = [ [- (9 / 10 ^ 7), 0, - sp, 0], [0, - 1, 0, 0], [- sp, 0, 9 / 10 ^ 7, 0],
                [0, 0, 0, 1] ]\<rparr>"
  have 1: "set_rotation_rpy \<lparr>matrix = identity_matrix\<rparr> 0 p pi = Inr ?T1"
    by (simp add: set_rotation_rpy_def matrix_multiply_def upt_rec identity_matrix_def cp sp_def)
  have 2: "get_rotation_rpy ?T1 = Inr [pi, p, 0]"
    using spr p0 by (simp add: get_rotation_rpy_def py_asin_def asn py_atan2_def)
  have 3: "\<exists>m r0. set_rotation_rpy ?T1 pi p 0 = Inr \<lparr>matrix = ((9 / 10 ^ 7) # r0) # m\<rparr>"
    by (simp add: set_rotation_rpy_def matrix_multiply_def upt_rec cp sp_def)
  then obtain m r0 where 3: "set_rotation_rpy ?T1 pi p 0 = Inr \<lparr>matrix = ((9 / 10 ^ 7) # r0) # m\<rparr>"
    by blast
  have 4: "transform_eq \<lparr>matrix = ((9 / 10 ^ 7) # r0) # m\<rparr> ?T1 = Inr False"
    by (simp add: transform_eq_def upt_rec isclose_def)
  have "rpy_reapply_equal \<lparr>matrix = identity_matrix\<rparr> 0 p pi = Inr False"
    unfolding rpy_reapply_equal_def 1 bind_err_simps 2 list.case 3 4 ..
  with cp pr show ?thesis unfolding p_def by simp
qed

section \<open>Pose serialization\<close>

lemma get_translation_length: "get_translation T = Inr translation \<Longrightarrow> length translation = 3"
  by (auto simp: get_translation_def upt_rec bind_err_def split: sum.splits)

lemma get_rotation_rpy_length: "get_rotation_rpy T = Inr rotation \<Longrightarrow> length rotation = 3"
  by (auto simp: get_rotation_rpy_def bind_err_def Let_def split: sum.splits if_splits)

lemma length_3_list: "length xs = 3 \<Longrightarrow> \<exists>a b c. xs = [a, b, c]"
  by (cases xs; simp) (metis (no_types) Suc_length_conv length_0_conv numeral_2_eq_2)

text \<open>
  Claim C7. Pose serialization works on six values, the three translation components
  \<open>x\<close>, \<open>y\<close>, \<open>z\<close> and the three extracted angles \<open>roll\<close>, \<open>pitch\<close>, \<open>yaw\<close>. When every one
  of them has absolute value below \<open>1e-6\<close> the node is returned as it is: nothing is
  appended. Otherwise the tag, the attributes and the text of the node are unchanged and
  its list of children is the old list followed by exactly one new element: it has the
  tag \<open>pose\<close>, no children, the text made of the six values in the order
  \<open>x y z roll pitch yaw\<close> separated by single spaces, and the attribute \<open>relative_to\<close> (and
  no other) exactly when the frame tag is set and non-empty.
\<close>

theorem pose_to_sdf_element_cases:
  assumes "get_translation (transform p) = Inr translation"
    and "get_rotation_rpy (transform p) = Inr rotation"
  shows "\<exists>x y z roll pitch yaw.
       translation = [x, y, z] \<and> rotation = [roll, pitch, yaw]
     \<and> pose_to_sdf_element str_of p node =
         Inr (if \<bar>x\<bar> < 1 / 10 ^ 6 \<and> \<bar>y\<bar> < 1 / 10 ^ 6 \<and> \<bar>z\<bar> < 1 / 10 ^ 6
                 \<and> \<bar>roll\<bar> < 1 / 10 ^ 6 \<and> \<bar>pitch\<bar> < 1 / 10 ^ 6 \<and> \<bar>yaw\<bar> < 1 / 10 ^ 6
              then node
              else Element (tag node) (attrib node) (element_text node)
                     (children node @
                      [Element ''pose''
                         (if relative_to p = None \<or> relative_to p = Some [] then []
                          else [(''relative_to'', the (relative_to p))])
                         (Some (str_of x @ '' '' @ str_of y @ '' '' @ str_of z @ '' ''
                                @ str_of roll @ '' '' @ str_of pitch @ '' '' @ str_of yaw))
                         []]))"
proof -
  from length_3_list[OF get_translation_length[OF assms(1)]]
  obtain x y z where t: "translation = [x, y, z]" by (elim exE)
  from length_3_list[OF get_rotation_rpy_length[OF assms(2)]]
  obtain roll pitch yaw where r: "rotation = [roll, pitch, yaw]" by (elim exE)
  have "pose_to_sdf_element str_of p node =
         Inr (if \<bar>x\<bar> < 1 / 10 ^ 6 \<and> \<bar>y\<bar> < 1 / 10 ^ 6 \<and> \<bar>z\<bar> < 1 / 10 ^ 6
                 \<and> \<bar>roll\<bar> < 1 / 10 ^ 6 \<and> \<bar>pitch\<bar> < 1 / 10 ^ 6 \<and> \<bar>yaw\<bar> < 1 / 10 ^ 6
              then node
              else Element (tag node) (attrib node) (element_text node)
                     (children node @
                      [Element ''pose''
                         (if relative_to p = None \<or> relative_to p = Some [] then []
                          else [(''relative_to'', the (relative_to p))])
                         (Some (str_of x @ '' '' @ str_of y @ '' '' @ str_of z @ '' ''
                                @ str_of roll @ '' '' @ str_of pitch @ '' '' @ str_of yaw))
                         []]))"
    unfolding pose_to_sdf_element_def assms bind_err_simps t r
    by (cases "relative_to p") (simp_all add: Let_def append_child_def)
  with t r show ?thesis by blast
qed

text \<open>
  The example of the specification: translation \<open>(1e-9, 0, 0)\<close> and no rotation give no
  pose element. Translation \<open>(1, 0, 0)\<close> relative to \<open>__model__\<close> gives one pose element.
\<close>

lemma Pose_small:
  "Pose [1 / 10 ^ 9, 0, 0] [0, 0, 0] (Some ''__model__'')
     = Inr \<lparr>transform = \<lparr>matrix = [ [1, 0, 0, 1 / 10 ^ 9], [0, 1, 0, 0], [0, 0, 1, 0], [0, 0, 0, 1] ]\<rparr>,
            relative_to = Some ''__model__''\<rparr>"
  by (simp add: Pose_def Transform_def set_translation_def set_rotation_rpy_def
      matrix_multiply_def identity_matrix_def upt_rec)

lemma Pose_unit:
  "Pose [1, 0, 0] [0, 0, 0] (Some ''__model__'')
     = Inr \<lparr>transform = \<lparr>matrix = [ [1, 0, 0, 1], [0, 1, 0, 0], [0, 0, 1, 0], [0, 0, 0, 1] ]\<rparr>,
            relative_to = Some ''__model__''\<rparr>"
  by (simp add: Pose_def Transform_def set_translation_def set_rotation_rpy_def
      matrix_multiply_def identity_matrix_def upt_rec)

theorem pose_to_sdf_element_cases_witness:
  "Pose [1 / 10 ^ 9, 0, 0] [0, 0, 0] (Some ''__model__'')
     = Inr \<lparr>transform = \<lparr>matrix = [ [1, 0, 0, 1 / 10 ^ 9], [0, 1, 0, 0], [0, 0, 1, 0], [0, 0, 0, 1] ]\<rparr>,
            relative_to = Some ''__model__''\<rparr>
   \<and> get_translation \<lparr>matrix = [ [1, 0, 0, 1 / 10 ^ 9], [0, 1, 0, 0], [0, 0, 1, 0], [0, 0, 0, 1] ]\<rparr>
       = Inr [1 / 10 ^ 9, 0, 0]
   \<and> get_rotation_rpy \<lparr>matrix = [ [1, 0, 0, 1 / 10 ^ 9], [0, 1, 0, 0], [0, 0, 1, 0], [0, 0, 0, 1] ]\<rparr>
       = Inr [0, 0, 0]
   \<and> pose_to_sdf_element (\<lambda>v. if v = 0 then ''0'' else ''1'')
         \<lparr>transform = \<lparr>matrix = [ [1, 0, 0, 1 / 10 ^ 9], [0, 1, 0, 0], [0, 0, 1, 0], [0, 0, 0, 1] ]\<rparr>,
          relative_to = Some ''__model__''\<rparr>
         (Element ''link'' [] None [])
       = Inr (Element ''link'' [] None [])
   \<and> Pose [1, 0, 0] [0, 0, 0] (Some ''__model__'')
     = Inr \<lparr>transform = \<lparr>matrix = [ [1, 0, 0, 1], [0, 1, 0, 0], [0, 0, 1, 0], [0, 0, 0, 1] ]\<rparr>,
            relative_to = Some ''__model__''\<rparr>
   \<and> get_translation \<lparr>matrix = [ [1, 0, 0, 1], [0, 1, 0, 0], [0, 0, 1, 0], [0, 0, 0, 1] ]\<rparr>
       = Inr [1, 0, 0]
   \<and> get_rotation_rpy \<lparr>matrix = [ [1, 0, 0, 1], [0, 1, 0, 0], [0, 0, 1, 0], [0, 0, 0, 1] ]\<rparr>
       = Inr [0, 0, 0]
   \<and> pose_to_sdf_element (\<lambda>v. if v = 0 then ''0'' else ''1'')
         \<lparr>transform = \<lparr>matrix = [ [1, 0, 0, 1], [0, 1, 0, 0], [0, 0, 1, 0], [0, 0, 0, 1] ]\<rparr>,
          relative_to = Some ''__model__''\<rparr>
         (Element ''link'' [(''name'', ''arm_1'')] None [Element ''inertial'' [] None []])
       = Inr (Element ''link'' [(''name'', ''arm_1'')] None
                [Element ''inertial'' [] None [],
                 Element ''pose'' [(''relative_to'', ''__model__'')] (Some ''1 0 0 0 0 0'') []])"
proof -
  let ?T = "\<lparr>matrix = [ [1, 0, 0, 1 / 10 ^ 9], [0, 1, 0, 0], [0, 0, 1, 0], [0, 0, 0, 1] ]\<rparr>"
  let ?p = "\<lparr>transform = ?T, relative_to = Some ''__model__''\<rparr>"
  let ?U = "\<lparr>matrix = [ [1, 0, 0, 1], [0, 1, 0, 0], [0, 0, 1, 0], [0, 0, 0, 1::real] ]\<rparr>"
  let ?q = "\<lparr>transform = ?U, relative_to = Some ''__model__''\<rparr>"
  let ?str = "\<lambda>v::real. if v = 0 then ''0'' else ''1''"
  have t: "get_translation (transform ?p) = Inr [1 / 10 ^ 9, 0, 0]"
    by (simp add: get_translation_def upt_rec)
  have r: "get_rotation_rpy (transform ?p) = Inr [0, 0, 0]"
    by (simp add: get_rotation_rpy_def py_atan2_def)
  have t': "get_translation (transform ?q) = Inr [1, 0, 0]"
    by (simp add: get_translation_def upt_rec)
  have r': "get_rotation_rpy (transform ?q) = Inr [0, 0, 0]"
    by (simp add: get_rotation_rpy_def py_atan2_def)
  from pose_to_sdf_element_cases[OF t r, of ?str "Element ''link'' [] None []"]
  have a: "pose_to_sdf_element ?str ?p (Element ''link'' [] None [])
       = Inr (Element ''link'' [] None [])"
    by (elim exE conjE, unfold list.inject, elim conjE, hypsubst) simp
  from pose_to_sdf_element_cases[OF t' r', of ?str
      "Element ''link'' [(''name'', ''arm_1'')] None [Element ''inertial'' [] None []]"]
  have b: "pose_to_sdf_element ?str ?q
         (Element ''link'' [(''name'', ''arm_1'')] None [Element ''inertial'' [] None []])
       = Inr (Element ''link'' [(''name'', ''arm_1'')] None
                [Element ''inertial'' [] None [],
                 Element ''pose'' [(''relative_to'', ''__model__'')] (Some ''1 0 0 0 0 0'') []])"
    by (elim exE conjE, unfold list.inject, elim conjE, hypsubst) simp
  from Pose_small Pose_unit t r t' r' a b show ?thesis by simp
qed

section \<open>The tree builder\<close>

subsection \<open>Duplicate names\<close>

lemma Pose_default:
  "Pose [0, 0, 0] [0, 0, 0] rel = Inr \<lparr>transform = \<lparr>matrix = identity_matrix\<rparr>, relative_to = rel\<rparr>"
  by (simp add: Pose_def Transform_def set_translation_def set_rotation_rpy_def
      matrix_multiply_def identity_matrix_def upt_rec)

lemma add_link_duplicate:
  assumes "prefix @ normalize_name (occ_name occ) \<in> set (map fst (links s))"
  shows "add_link d occ prefix rigid_group_pose s =
      Inr (None, s\<lparr>console := console s
                      @ [LogAddLink (occ_name occ) prefix (prefix @ normalize_name (occ_name occ)),
                         LogLinkExists (prefix @ normalize_name (occ_name occ))]\<rparr>)"
  using assms by (simp add: add_link_def log_message_def Let_def)

lemma add_joint_duplicate:
  assumes "prefix @ normalize_name (fusion_joint_name fj) \<in> set (map fst (joints s))"
  shows "add_joint d fj as_built prefix s =
      Inr (s\<lparr>console := console s
                @ [LogAddJoint (fusion_joint_name fj) prefix
                     (prefix @ normalize_name (fusion_joint_name fj)),
                   LogJointExists (prefix @ normalize_name (fusion_joint_name fj))]\<rparr>)"
  using assms by (simp add: add_joint_def log_message_def Let_def)


text \<open>
  Claim C8. Adding a link or a joint whose computed name (prefix + normalized name) is
  already a key of its map leaves the links map and the joints map unchanged: the first
  entry is kept, the call only logs (the call itself and the skip) and changes nothing
  else of the builder state.
\<close>

theorem duplicate_names_skipped:
  "(prefix @ normalize_name (occ_name occ) \<in> set (map fst (links s)) \<longrightarrow>
      (\<exists>s'. add_link d occ prefix rigid_group_pose s = Inr (None, s')
           \<and> s' = s\<lparr>console := console s
                      @ [LogAddLink (occ_name occ) prefix (prefix @ normalize_name (occ_name occ)),
                         LogLinkExists (prefix @ normalize_name (occ_name occ))]\<rparr>
           \<and> links s' = links s \<and> joints s' = joints s))
   \<and> (prefix @ normalize_name (fusion_joint_name fj) \<in> set (map fst (joints s)) \<longrightarrow>
      (\<exists>s'. add_joint d fj as_built prefix s = Inr s'
           \<and> s' = s\<lparr>console := console s
                      @ [LogAddJoint (fusion_joint_name fj) prefix
                           (prefix @ normalize_name (fusion_joint_name fj)),
                         LogJointExists (prefix @ normalize_name (fusion_joint_name fj))]\<rparr>
           \<and> links s' = links s \<and> joints s' = joints s))"
  by (simp add: add_link_duplicate add_joint_duplicate)

lemma normalize_examples:
  "normalize_name ''Rev1'' = ''rev1''" "normalize_name ''arm:1'' = ''arm_1''"
  by code_simp+

text \<open>A second \<^verbatim>\<open>arm:1\<close> and a second \<^verbatim>\<open>Rev1\<close> are skipped.\<close>

theorem duplicate_names_skipped_witness:
  "''arm_1'' \<in> set (map fst (links (initial_sdf\<lparr>links := [(''arm_1'', Link ''arm_1'')],
                                              joints := [(''rev1'', Joint ''rev1'' FIXED None None None)]\<rparr>)))
   \<and> ''rev1'' \<in> set (map fst (joints (initial_sdf\<lparr>links := [(''arm_1'', Link ''arm_1'')],
                                              joints := [(''rev1'', Joint ''rev1'' FIXED None None None)]\<rparr>)))
   \<and> add_link empty_design
        (Occurrence 2 ''arm:1'' [] Matrix3D_create
           \<lparr>centerOfMass = [0, 0, 0], pp_mass = 1, inertia_valid = True, moment_xx = 1,
            moment_yy = 1, moment_zz = 1, moment_xy = 0, moment_yz = 0, moment_xz = 0\<rparr>
           \<lparr>rigidGroups = [], joints_of = [], asBuiltJoints = []\<rparr> [])
        [] None
        (initial_sdf\<lparr>links := [(''arm_1'', Link ''arm_1'')],
                      joints := [(''rev1'', Joint ''rev1'' FIXED None None None)]\<rparr>)
      = Inr (None, initial_sdf\<lparr>links := [(''arm_1'', Link ''arm_1'')],
                      joints := [(''rev1'', Joint ''rev1'' FIXED None None None)],
                      console := [LogAddLink ''arm:1'' [] ''arm_1'', LogLinkExists ''arm_1'']\<rparr>)
   \<and> add_joint empty_design
        (example_revolute_joint \<lparr>isMinimumValueEnabled = True, isMaximumValueEnabled = True,
                                  minimumValue = - 1, maximumValue = 1\<rparr>)
        False []
        (initial_sdf\<lparr>links := [(''arm_1'', Link ''arm_1'')],
                      joints := [(''rev1'', Joint ''rev1'' FIXED None None None)]\<rparr>)
      = Inr (initial_sdf\<lparr>links := [(''arm_1'', Link ''arm_1'')],
                      joints := [(''rev1'', Joint ''rev1'' FIXED None None None)],
                      console := [LogAddJoint ''Rev1'' [] ''rev1'', LogJointExists ''rev1'']\<rparr>)"
proof -
  let ?s = "initial_sdf\<lparr>links := [(''arm_1'', Link ''arm_1'')],
                      joints := [(''rev1'', Joint ''rev1'' FIXED None None None)]\<rparr>"
  let ?occ = "Occurrence 2 ''arm:1'' [] Matrix3D_create
           \<lparr>centerOfMass = [0, 0, 0], pp_mass = 1, inertia_valid = True, moment_xx = 1,
            moment_yy = 1, moment_zz = 1, moment_xy = 0, moment_yz = 0, moment_xz = 0\<rparr>
           \<lparr>rigidGroups = [], joints_of = [], asBuiltJoints = []\<rparr> []"
  let ?fj = "example_revolute_joint \<lparr>isMinimumValueEnabled = True, isMaximumValueEnabled = True,
                                  minimumValue = - 1, maximumValue = 1\<rparr>"
  have l: "[] @ normalize_name (occ_name ?occ) \<in> set (map fst (links ?s))"
    by (simp add: normalize_examples)
  have j: "[] @ normalize_name (fusion_joint_name ?fj) \<in> set (map fst (joints ?s))"
    by (simp add: normalize_examples example_revolute_joint_def)
  from duplicate_names_skipped[of "[]" ?occ ?s empty_design None ?fj False] l j
  have "add_link empty_design ?occ [] None ?s
          = Inr (None, ?s\<lparr>console := console ?s
                      @ [LogAddLink ''arm:1'' [] ''arm_1'', LogLinkExists ''arm_1'']\<rparr>)"
    and "add_joint empty_design ?fj False [] ?s
          = Inr (?s\<lparr>console := console ?s
                      @ [LogAddJoint ''Rev1'' [] ''rev1'', LogJointExists ''rev1'']\<rparr>)"
    by (simp_all add: normalize_examples example_revolute_joint_def)
  then show ?thesis by (simp add: initial_sdf_def)
qed


subsection \<open>Revolute joints\<close>

lemma map_of_update_same: "map_of (AList.update k v al) k = Some v"
  by (simp add: update_conv')

lemma joint_of_motion_revolute:
  assumes "jointType motion = RevoluteJointType"
  shows "snd (joint_of_motion n motion s) = s"
    and "joint_name (fst (joint_of_motion n motion s)) = n"
    and "axis_xyz (fst (joint_of_motion n motion s)) = Some (rotationAxisVector motion)"
    and "isMinimumValueEnabled (rotationLimits motion) \<or> isMaximumValueEnabled (rotationLimits motion)
         \<Longrightarrow> joint_type (fst (joint_of_motion n motion s)) = REVOLUTE
           \<and> lower_limit (fst (joint_of_motion n motion s)) = Some (minimumValue (rotationLimits motion))
           \<and> upper_limit (fst (joint_of_motion n motion s)) = Some (maximumValue (rotationLimits motion))"
    and "\<not> (isMinimumValueEnabled (rotationLimits motion) \<or> isMaximumValueEnabled (rotationLimits motion))
         \<Longrightarrow> joint_type (fst (joint_of_motion n motion s)) = CONTINUOUS
           \<and> lower_limit (fst (joint_of_motion n motion s)) = None
           \<and> upper_limit (fst (joint_of_motion n motion s)) = None"
  using assms by (simp_all add: joint_of_motion_def Joint_def Let_def)

lemma set_parent_child_fields:
  "joint_name (set_parent_child d p c j) = joint_name j"
  "joint_type (set_parent_child d p c j) = joint_type j"
  "lower_limit (set_parent_child d p c j) = lower_limit j"
  "upper_limit (set_parent_child d p c j) = upper_limit j"
  "axis_xyz (set_parent_child d p c j) =
     (if is_parametric d \<and> user_parameter_set d (joint_name j @ ''_SWAP_PARENT_CHILD'')
      then map_option (map uminus) (axis_xyz j) else axis_xyz j)"
  by (simp_all add: set_parent_child_def Let_def)

lemma set_joint_pose_fields:
  assumes "set_joint_pose fj as_built j = Inr j'"
  shows "joint_name j' = joint_name j" "joint_type j' = joint_type j"
    "lower_limit j' = lower_limit j" "upper_limit j' = upper_limit j" "axis_xyz j' = axis_xyz j"
    "parent j' = parent j" "child j' = child j"
  using assms
  by (auto simp: set_joint_pose_def Let_def bind_err_def split: option.splits sum.splits)

lemma add_joint_new:
  assumes new: "prefix @ normalize_name (fusion_joint_name fj) \<notin> set (map fst (joints s))"
    and ok: "add_joint d fj as_built prefix s = Inr s'"
  shows "\<exists>p c j. 
      joint_link_name (snd (joint_of_motion (prefix @ normalize_name (fusion_joint_name fj))
         (jointMotion fj)
         (log_message (LogAddJoint (fusion_joint_name fj) prefix
            (prefix @ normalize_name (fusion_joint_name fj))) s))) (occurrenceTwo fj) = Inr p
    \<and> joint_link_name (snd (joint_of_motion (prefix @ normalize_name (fusion_joint_name fj))
         (jointMotion fj)
         (log_message (LogAddJoint (fusion_joint_name fj) prefix
            (prefix @ normalize_name (fusion_joint_name fj))) s))) (occurrenceOne fj) = Inr c
    \<and> set_joint_pose fj as_built (set_parent_child d p c
          (fst (joint_of_motion (prefix @ normalize_name (fusion_joint_name fj)) (jointMotion fj)
             (log_message (LogAddJoint (fusion_joint_name fj) prefix
                (prefix @ normalize_name (fusion_joint_name fj))) s)))) = Inr j
    \<and> joints s' = AList.update (joint_name j) j (joints s)
    \<and> links s' = links s"
proof -
  let ?n = "prefix @ normalize_name (fusion_joint_name fj)"
  let ?s1 = "log_message (LogAddJoint (fusion_joint_name fj) prefix ?n) s"
  let ?js = "joint_of_motion ?n (jointMotion fj) ?s1"
  from new have new1: "?n \<notin> set (map fst (joints ?s1))" by (simp add: log_message_def)
  have j2: "joints (snd ?js) = joints s" "links (snd ?js) = links s"
    by (simp_all add: joint_of_motion_def Let_def log_message_def split: fusion_joint_type.splits)
  from ok new1 have e: "bind_err (joint_link_name (snd ?js) (occurrenceTwo fj)) (\<lambda>parent_name.
               bind_err (joint_link_name (snd ?js) (occurrenceOne fj)) (\<lambda>child_name.
               bind_err (set_joint_pose fj as_built
                           (set_parent_child d parent_name child_name (fst ?js))) (\<lambda>j.
                 Inr ((snd ?js)\<lparr>joints := AList.update (joint_name j) j (joints (snd ?js))\<rparr>))))
          = Inr s'"
    by (simp add: add_joint_def Let_def)
  then obtain p where p: "joint_link_name (snd ?js) (occurrenceTwo fj) = Inr p"
    by (cases "joint_link_name (snd ?js) (occurrenceTwo fj)") simp_all
  with e obtain c where c: "joint_link_name (snd ?js) (occurrenceOne fj) = Inr c"
    by (cases "joint_link_name (snd ?js) (occurrenceOne fj)") simp_all
  with e p obtain j where j: "set_joint_pose fj as_built (set_parent_child d p c (fst ?js)) = Inr j"
    by (cases "set_joint_pose fj as_built (set_parent_child d p c (fst ?js))") simp_all
  with e p c have "s' = (snd ?js)\<lparr>joints := AList.update (joint_name j) j (joints (snd ?js))\<rparr>"
    by simp
  then have "joints s' = AList.update (joint_name j) j (joints s)" "links s' = links s"
    using j2 by simp_all
  with p c j show ?thesis by blast
qed

text \<open>
  Claim C6, as amended. For a joint with a new name whose native type is revolute and
  whose resolution succeeds, the stored joint carries the rotation axis vector (negated
  when the parent/child swap parameter is set); it carries the numeric limits
  \<open>(lower, upper)\<close> and stays revolute exactly when at least one limit bound is enabled,
  and it is reclassified as continuous, without limits, when no bound is enabled.
\<close>

theorem revolute_joint_resolution:
  assumes rev: "jointType (jointMotion fj) = RevoluteJointType"
    and new: "prefix @ normalize_name (fusion_joint_name fj) \<notin> set (map fst (joints s))"
    and ok: "add_joint d fj as_built prefix s = Inr s'"
  shows "\<exists>j. map_of (joints s') (prefix @ normalize_name (fusion_joint_name fj)) = Some j
           \<and> axis_xyz j =
               Some (if is_parametric d
                        \<and> user_parameter_set d
                             (prefix @ normalize_name (fusion_joint_name fj) @ ''_SWAP_PARENT_CHILD'')
                     then map uminus (rotationAxisVector (jointMotion fj))
                     else rotationAxisVector (jointMotion fj))
           \<and> (if isMinimumValueEnabled (rotationLimits (jointMotion fj))
                  \<or> isMaximumValueEnabled (rotationLimits (jointMotion fj))
               then joint_type j = REVOLUTE
                  \<and> lower_limit j = Some (minimumValue (rotationLimits (jointMotion fj)))
                  \<and> upper_limit j = Some (maximumValue (rotationLimits (jointMotion fj)))
               else joint_type j = CONTINUOUS \<and> lower_limit j = None \<and> upper_limit j = None)"
proof -
  let ?n = "prefix @ normalize_name (fusion_joint_name fj)"
  let ?s1 = "log_message (LogAddJoint (fusion_joint_name fj) prefix ?n) s"
  let ?js = "joint_of_motion ?n (jointMotion fj) ?s1"
  from add_joint_new[OF new ok] obtain p c j where
    j: "set_joint_pose fj as_built (set_parent_child d p c (fst ?js)) = Inr j"
    and js: "joints s' = AList.update (joint_name j) j (joints s)"
    by blast
  note m = joint_of_motion_revolute[OF rev, of ?n ?s1]
  note f = set_joint_pose_fields[OF j]
  have n: "joint_name j = ?n" unfolding f set_parent_child_fields m ..
  have 1: "map_of (joints s') ?n = Some j" unfolding js n by (rule map_of_update_same)
  have 2: "axis_xyz j =
               Some (if is_parametric d \<and> user_parameter_set d (?n @ ''_SWAP_PARENT_CHILD'')
                     then map uminus (rotationAxisVector (jointMotion fj))
                     else rotationAxisVector (jointMotion fj))"
    unfolding f set_parent_child_fields m by simp
  have 3: "if isMinimumValueEnabled (rotationLimits (jointMotion fj))
                  \<or> isMaximumValueEnabled (rotationLimits (jointMotion fj))
               then joint_type j = REVOLUTE
                  \<and> lower_limit j = Some (minimumValue (rotationLimits (jointMotion fj)))
                  \<and> upper_limit j = Some (maximumValue (rotationLimits (jointMotion fj)))
               else joint_type j = CONTINUOUS \<and> lower_limit j = None \<and> upper_limit j = None"
    unfolding f set_parent_child_fields using m(4,5) by simp
  from 1 2 3 show ?thesis by (simp add: append_assoc)
qed


lemma add_example_revolute_joint:
  "add_joint empty_design (example_revolute_joint limits) False [] example_state
     = Inr (example_state
          \<lparr>joints := [(''rev1'',
              (Joint ''rev1''
                 (if isMinimumValueEnabled limits \<or> isMaximumValueEnabled limits
                  then REVOLUTE else CONTINUOUS)
                 None (Some ''base_1'') (Some ''arm_1''))
              \<lparr>axis_xyz := Some [0, 0, 1],
               lower_limit := (if isMinimumValueEnabled limits \<or> isMaximumValueEnabled limits
                               then Some (minimumValue limits) else None),
               upper_limit := (if isMinimumValueEnabled limits \<or> isMaximumValueEnabled limits
                               then Some (maximumValue limits) else None)\<rparr>)],
           console := [LogAddJoint ''Rev1'' [] ''rev1'']\<rparr>)"
  by (simp add: add_joint_def example_revolute_joint_def example_state_def initial_sdf_def
      normalize_examples log_message_def joint_of_motion_def Joint_def joint_link_name_def
      set_parent_child_def set_joint_pose_def empty_design_def Let_def)

text \<open>
  Claim C6, as stated, fails for a revolute joint with only the lower bound enabled: it
  is stored as revolute with both limits recorded.
\<close>

theorem revolute_one_bound_counterexample:
  "add_joint empty_design
     (example_revolute_joint \<lparr>isMinimumValueEnabled = True, isMaximumValueEnabled = False,
                               minimumValue = - 1, maximumValue = 1\<rparr>)
     False [] example_state
     = Inr (example_state
          \<lparr>joints := [(''rev1'',
              (Joint ''rev1'' REVOLUTE None (Some ''base_1'') (Some ''arm_1''))
              \<lparr>axis_xyz := Some [0, 0, 1], lower_limit := Some (- 1), upper_limit := Some 1\<rparr>)],
           console := [LogAddJoint ''Rev1'' [] ''rev1'']\<rparr>)"
  by (simp add: add_example_revolute_joint)

text \<open>The revolute joint without enabled bounds becomes continuous.\<close>

theorem revolute_joint_resolution_witness:
  "jointType (jointMotion (example_revolute_joint
       \<lparr>isMinimumValueEnabled = False, isMaximumValueEnabled = False,
        minimumValue = 0, maximumValue = 0\<rparr>)) = RevoluteJointType
   \<and> [] @ normalize_name (fusion_joint_name (example_revolute_joint
       \<lparr>isMinimumValueEnabled = False, isMaximumValueEnabled = False,
        minimumValue = 0, maximumValue = 0\<rparr>)) \<notin> set (map fst (joints example_state))
   \<and> add_joint empty_design (example_revolute_joint
       \<lparr>isMinimumValueEnabled = False, isMaximumValueEnabled = False,
        minimumValue = 0, maximumValue = 0\<rparr>) False [] example_state
      = Inr (example_state
          \<lparr>joints := [(''rev1'',
              (Joint ''rev1'' CONTINUOUS None (Some ''base_1'') (Some ''arm_1''))
              \<lparr>axis_xyz := Some [0, 0, 1]\<rparr>)],
           console := [LogAddJoint ''Rev1'' [] ''rev1'']\<rparr>)
   \<and> (\<exists>j. map_of (joints (example_state
          \<lparr>joints := [(''rev1'',
              (Joint ''rev1'' CONTINUOUS None (Some ''base_1'') (Some ''arm_1''))
              \<lparr>axis_xyz := Some [0, 0, 1]\<rparr>)],
           console := [LogAddJoint ''Rev1'' [] ''rev1'']\<rparr>)) ''rev1'' = Some j
         \<and> axis_xyz j = Some [0, 0, 1] \<and> joint_type j = CONTINUOUS
         \<and> lower_limit j = None \<and> upper_limit j = None)"
proof -
  let ?fj = "example_revolute_joint
       \<lparr>isMinimumValueEnabled = False, isMaximumValueEnabled = False,
        minimumValue = 0, maximumValue = 0\<rparr>"
  let ?s' = "example_state
          \<lparr>joints := [(''rev1'',
              (Joint ''rev1'' CONTINUOUS None (Some ''base_1'') (Some ''arm_1''))
              \<lparr>axis_xyz := Some [0, 0, 1]\<rparr>)],
           console := [LogAddJoint ''Rev1'' [] ''rev1'']\<rparr>"
  have rev: "jointType (jointMotion ?fj) = RevoluteJointType"
    by (simp add: example_revolute_joint_def)
  have new: "[] @ normalize_name (fusion_joint_name ?fj) \<notin> set (map fst (joints example_state))"
    by (simp add: example_state_def initial_sdf_def)
  have ok: "add_joint empty_design ?fj False [] example_state = Inr ?s'"
    by (simp add: add_example_revolute_joint Joint_def)
  from revolute_joint_resolution[OF rev new ok]
  have "\<exists>j. map_of (joints ?s') ''rev1'' = Some j
         \<and> axis_xyz j = Some [0, 0, 1] \<and> joint_type j = CONTINUOUS
         \<and> lower_limit j = None \<and> upper_limit j = None"
    by (simp add: example_revolute_joint_def empty_design_def normalize_examples)
  with rev new ok show ?thesis by blast
qed


subsection \<open>Root selection and the anchor\<close>




lemma select_root_and_anchor_result:
  "select_root_and_anchor choice s =
     Inr ((if root_links s = [] then log_message WarnNoRootLink s
           else if length (root_links s) \<noteq> 1
                then log_message (WarnMultipleRootLinks (root_links s)) s else s)
          \<lparr>links := AList.update ''base_link''
                      ((Link ''base_link'')
                        \<lparr>inertial := Some \<lparr>inertial_pose =
                             \<lparr>transform = \<lparr>matrix = identity_matrix\<rparr>,
                              relative_to = Some ''__model__''\<rparr>,
                           mass = 1 / 10 ^ 4, ixx = 1 / 10 ^ 9, ixy = 0, ixz = 0,
                           iyy = 1 / 10 ^ 9, iyz = 0, izz = 1 / 10 ^ 9\<rparr>\<rparr>)
                      (links s),
           joints := AList.update ''base_link_joint''
                       (Joint ''base_link_joint'' FIXED None (Some ''base_link'')
                          (if root_links s = [] then root_link s
                           else Some (root_links s ! (choice mod length (root_links s)))))
                       (joints s),
           root_link := Some ''base_link''\<rparr>)"
  by (simp add: select_root_and_anchor_def Pose_default Let_def log_message_def)





lemma root_link_log [simp]: "root_link (log_message m s) = root_link s"
  by (simp add: log_message_def)

lemma root_link_attributes_add [simp]: "root_link (attributes_add i v s) = root_link s"
  by (simp add: attributes_add_def)











subsection \<open>The joints of a build name recorded links\<close>

lemma joints_log [simp]: "joints (log_message m s) = joints s"
  by (simp add: log_message_def)

lemma joints_attributes_add [simp]: "joints (attributes_add i v s) = joints s"
  by (simp add: attributes_add_def)




















lemma normalize_more:
  "normalize_name ''Body1'' = ''body1''" "normalize_name ''Arm Assembly'' = ''arm_assembly''"
  by code_simp+

lemma name_to_path_example:
  "name_to_path ''arm_1__body1_visual'' = ''arm_1/body1_visual''"
  by simp

lemma matrix3d_to_rpy_identity: "matrix3d_to_rpy Matrix3D_create = [0, 0, 0]"
  by (simp add: matrix3d_to_rpy_def Matrix3D_create_def upt_rec py_atan2_def)

lemma transform2_to_pose_identity:
  "transform2_to_pose Matrix3D_create
     = Inr \<lparr>transform = \<lparr>matrix = identity_matrix\<rparr>, relative_to = Some ''__model__''\<rparr>"
  by (simp add: transform2_to_pose_def matrix3d_to_rpy_identity cm_to_m_list_def Pose_default)
     (simp add: Matrix3D_create_def Pose_default)

lemma obb_rpy_axis_aligned:
  "matrix3d_to_rpy (setWithCoordinateSystem [0, 0, 0] [1, 0, 0] [0, 1, 0] [0, 0, 1]) = [0, 0, 0]"
  by (simp add: matrix3d_to_rpy_def setWithCoordinateSystem_def upt_rec py_atan2_def)

lemma get_identity:
  "get_translation \<lparr>matrix = identity_matrix\<rparr> = Inr [0, 0, 0]"
  "get_rotation_rpy \<lparr>matrix = identity_matrix\<rparr> = Inr [0, 0, 0]"
  by (simp_all add: get_translation_def get_rotation_rpy_def identity_matrix_def upt_rec py_atan2_def)

lemma inverse_identity:
  "transform_inverse \<lparr>matrix = identity_matrix\<rparr> = Inr \<lparr>matrix = identity_matrix\<rparr>"
  unfolding identity_matrix_def inverse_entries by simp

lemma mul_identity:
  "transform_mul \<lparr>matrix = identity_matrix\<rparr> \<lparr>matrix = identity_matrix\<rparr> = Inr \<lparr>matrix = identity_matrix\<rparr>"
  unfolding identity_matrix_def mul44 by simp

lemma pose_inverse_identity:
  "pose_inverse \<lparr>transform = \<lparr>matrix = identity_matrix\<rparr>, relative_to = rel\<rparr>
     = Inr \<lparr>transform = \<lparr>matrix = identity_matrix\<rparr>, relative_to = rel\<rparr>"
  by (simp add: pose_inverse_def inverse_identity get_identity Pose_default)

lemma pose_mul_identity:
  "pose_mul \<lparr>transform = \<lparr>matrix = identity_matrix\<rparr>, relative_to = rel\<rparr>
            \<lparr>transform = \<lparr>matrix = identity_matrix\<rparr>, relative_to = rel'\<rparr>
     = Inr \<lparr>transform = \<lparr>matrix = identity_matrix\<rparr>, relative_to = rel\<rparr>"
  by (simp add: pose_mul_def mul_identity get_identity Pose_default)

lemma build_single_link:
  "\<exists>l c. build_links_and_joints single_link_design initial_sdf
     = Inr (initial_sdf\<lparr>sdf_name := Some ''arm_assembly'', links := [(''arm_1'', l)],
                        attributes := [(1, ''arm_1'')], console := c\<rparr>)"
  by (simp add: build_links_and_joints_def single_link_design_def initial_sdf_def log_message_def
      normalize_more normalize_examples add_link_def attributes_add_def transform2_to_pose_identity
      add_body_def Link_def LinkElement_def LinkGeometry_def user_parameter_set_def
      obb_rpy_axis_aligned cm_to_m_list_def cm_to_m_def Pose_default link_inertial_of_def
      world_inertia_to_com_inertia_def kg_cm2_to_kg_m2_def pose_inverse_identity
      pose_mul_identity Let_def)


lemma normalize_base: "normalize_name ''base:1'' = ''base_1''"
  by code_simp


lemma normalize_more2:
  "normalize_name ''frame:1'' = ''frame_1''" "normalize_name ''Rigid1'' = ''rigid1''"
  "normalize_name ''Base Link Joint'' = ''base_link_joint''"
  "normalize_name ''Base Link'' = ''base_link''"
  "normalize_name ''palm:1'' = ''palm_1''" "normalize_name ''finger:1'' = ''finger_1''"
  "normalize_name ''-'' = []"
  by code_simp+

lemmas build_simps = build_links_and_joints_def initial_sdf_def log_message_def
      normalize_more normalize_examples normalize_base normalize_more2 add_link_def attributes_add_def
      transform2_to_pose_identity cube_occurrence_def empty_occurrence_def rigid_joint_def
      add_body_def Link_def LinkElement_def LinkGeometry_def user_parameter_set_def
      obb_rpy_axis_aligned cm_to_m_list_def cm_to_m_def Pose_default link_inertial_of_def
      world_inertia_to_com_inertia_def kg_cm2_to_kg_m2_def pose_inverse_identity
      pose_mul_identity Let_def add_joint_def joint_of_motion_def Joint_def joint_link_name_def
      set_parent_child_def set_joint_pose_def children_prefix_def




lemma build_hyphen_joint:
  "\<exists>l l' l'' a c fj. build_links_and_joints hyphen_joint_design initial_sdf
     = Inr (initial_sdf\<lparr>sdf_name := Some ''arm_assembly'',
                        links := [(''arm_1'', l), (''arm_1__palm_1'', l'), (''arm_1__finger_1'', l'')],
                        joints := [(''arm_1__'', (Joint ''arm_1__'' FIXED None (Some ''arm_1__palm_1'') (Some ''arm_1__finger_1'')))],
                        fusion_joints := fj,
                        attributes := a, console := c\<rparr>)"
  by (simp add: hyphen_joint_design_def build_simps)


lemmas anchor_simps = root_links_def initial_sdf_def log_message_def Joint_def
        spec_tree_invariant_def joints_resolve_def



subsection \<open>Names that re-normalisation changes\<close>

lemma prefix_of_path_arm: "prefix_of_path [''arm:1''] = ''arm_1__''"
  by (simp add: prefix_of_path_def children_prefix_def normalize_examples)

text \<open>
  Claim C10, as stated, fails for the names of the builder. In \<open>hyphen_joint_design\<close> the
  joint that the designer has named \<^verbatim>\<open>-\<close> belongs to the component of the occurrence
  \<^verbatim>\<open>arm:1\<close>: its name normalises to the empty string, the builder stores the joint under
  the bare prefix \<^verbatim>\<open>arm_1__\<close>, and \<open>normalize_name\<close> turns that name into \<^verbatim>\<open>arm_1\<close>.
\<close>

theorem builder_name_counterexample:
  "map_sum id (\<lambda>s. map (\<lambda>nj. (fst nj, parent (snd nj), child (snd nj))) (joints s))
     (SDF hyphen_joint_design 0)
   = Inr [(''arm_1__'', Some ''arm_1__palm_1'', Some ''arm_1__finger_1''),
          (''base_link_joint'', Some ''base_link'', Some ''arm_1'')]
   \<and> prefix_of_path [''arm:1''] @ normalize_name ''-'' = ''arm_1__''
   \<and> normalize_name (prefix_of_path [''arm:1''] @ normalize_name ''-'') = ''arm_1''"
proof -
  from build_hyphen_joint obtain l l' l'' a c fj where
    b: "build_links_and_joints hyphen_joint_design initial_sdf
     = Inr (initial_sdf\<lparr>sdf_name := Some ''arm_assembly'',
                        links := [(''arm_1'', l), (''arm_1__palm_1'', l'), (''arm_1__finger_1'', l'')],
                        joints := [(''arm_1__'', (Joint ''arm_1__'' FIXED None (Some ''arm_1__palm_1'') (Some ''arm_1__finger_1'')))],
                        fusion_joints := fj,
                        attributes := a, console := c\<rparr>)"
    by blast
  have 1: "map_sum id (\<lambda>s. map (\<lambda>nj. (fst nj, parent (snd nj), child (snd nj))) (joints s))
     (SDF hyphen_joint_design 0)
   = Inr [(''arm_1__'', Some ''arm_1__palm_1'', Some ''arm_1__finger_1''),
          (''base_link_joint'', Some ''base_link'', Some ''arm_1'')]"
    unfolding SDF_def parse_root_component_def b bind_err_simps select_root_and_anchor_result
    by (simp add: anchor_simps)
  have 2: "prefix_of_path [''arm:1''] @ normalize_name ''-'' = ''arm_1__''"
    by (simp add: prefix_of_path_arm normalize_more2)
  have "normalize_name ''arm_1__'' = ''arm_1''" by code_simp
  then have 3: "normalize_name (prefix_of_path [''arm:1''] @ normalize_name ''-'') = ''arm_1''"
    unfolding 2 .
  from 1 2 3 show ?thesis by (intro conjI)
qed

end
